theory Spec2Isabelle
  imports Main "HOL-Library.Word"
begin

unbundle bit_operations_syntax

section \<open>Bytes, strings and panics\<close>

text \<open>
  The Go bindings of libveritas (\<^verbatim>\<open>libveritas_uniffi.go\<close>) move values between Go and the
  compiled core through byte buffers. A \<^verbatim>\<open>[]byte\<close> is modelled by its contents, a list of
  8-bit words (so a nil slice and an empty slice are the same list); a Go \<^verbatim>\<open>string\<close> is a
  sequence of bytes and is modelled as \<^typ>\<open>string\<close>, with the two conversions
  \<^verbatim>\<open>[]byte(s)\<close> and \<^verbatim>\<open>string(b)\<close> written out.
\<close>

type_synonym byte = "8 word"

definition string_bytes :: "string \<Rightarrow> byte list" where
  "string_bytes s = map (\<lambda>c. word_of_nat (of_char c)) s"

definition bytes_string :: "byte list \<Rightarrow> string" where
  "bytes_string b = map (\<lambda>x. char_of (unat x)) b"

definition MaxInt32 :: nat where
  "MaxInt32 = 2147483647"

definition MaxInt64 :: int where
  "MaxInt64 = 9223372036854775807"

text \<open>
  The functions of the core whose API checksum the bindings compare at start-up, named as
  in \<^verbatim>\<open>uniffi_libveritas_uniffi_checksum_<name>\<close>.
\<close>

datatype checksum_function =
    checksum_func_decode_certificate
  | checksum_func_decode_zone
  | checksum_func_hash_signable_message
  | checksum_func_verify_schnorr
  | checksum_func_verify_spaces_message
  | checksum_method_verifiedmessage_certificate
  | checksum_method_verifiedmessage_certificates
  | checksum_method_verifiedmessage_zones
  | checksum_method_veritas_is_finalized
  | checksum_method_veritas_newest_anchor
  | checksum_method_veritas_oldest_anchor
  | checksum_method_veritas_sovereignty_for
  | checksum_method_veritas_verify_message
  | checksum_method_veritasquerycontext_add_request
  | checksum_method_veritasquerycontext_add_zone
  | checksum_method_veritaszone_anchor
  | checksum_method_veritaszone_commitment
  | checksum_method_veritaszone_data
  | checksum_method_veritaszone_delegate
  | checksum_method_veritaszone_handle
  | checksum_method_veritaszone_is_better_than
  | checksum_method_veritaszone_offchain_data
  | checksum_method_veritaszone_script_pubkey
  | checksum_method_veritaszone_sovereignty
  | checksum_method_veritaszone_to_bytes
  | checksum_method_veritaszone_to_json
  | checksum_constructor_veritas_new
  | checksum_constructor_veritasanchors_from_json
  | checksum_constructor_veritasquerycontext_new

text \<open>
  The generated code has no error returns in its readers and writers: every failure is a
  Go \<^verbatim>\<open>panic\<close>. Each constructor below is one panic site of the source (or of the Go
  runtime and standard library under it) and carries the values the source formats into
  the message.
\<close>

datatype panic =
    PanicEOF
    \<comment> \<open>\<^verbatim>\<open>io.EOF\<close> out of \<^verbatim>\<open>binary.Read\<close>: nothing left to read\<close>
  | PanicUnexpectedEOF
    \<comment> \<open>\<^verbatim>\<open>io.ErrUnexpectedEOF\<close> out of \<^verbatim>\<open>binary.Read\<close>: some bytes, but too few\<close>
  | PanicMakeSliceLen
    \<comment> \<open>runtime: \<^verbatim>\<open>makeslice: len out of range\<close>, from \<^verbatim>\<open>make([]byte, length)\<close> with a negative length\<close>
  | PanicNilDereference
    \<comment> \<open>runtime: invalid memory address or nil pointer dereference\<close>
  | PanicBadReadLength string int nat
    \<comment> \<open>\<^verbatim>\<open>bad read length when reading <what>, expected %d, read %d\<close>\<close>
  | PanicTooLarge string
    \<comment> \<open>\<^verbatim>\<open><what> is too large to fit into Int32\<close>\<close>
  | PanicInvalidEnumRead string int
    \<comment> \<open>\<^verbatim>\<open>invalid enum value %v in <converter>.Read()\<close>\<close>
  | PanicInvalidEnumWrite string
    \<comment> \<open>\<^verbatim>\<open>invalid enum value `%v` in <converter>.Write\<close>\<close>
  | PanicUnknownErrorCode nat
    \<comment> \<open>\<^verbatim>\<open>Unknown error code %d in FfiConverterVeritasError.Read()\<close>\<close>
  | PanicInvalidErrorValue
    \<comment> \<open>\<^verbatim>\<open>invalid error value `%v` in FfiConverterVeritasError.Write\<close>\<close>
  | PanicJunk "byte list"
    \<comment> \<open>\<^verbatim>\<open>Junk remaining in buffer after lifting: %s\<close>\<close>
  | PanicRust string
    \<comment> \<open>the message of a panic of the core, re-raised in Go\<close>
  | PanicRustInPanic
    \<comment> \<open>\<^verbatim>\<open>Rust panicked while handling Rust panic\<close>\<close>
  | PanicUnknownStatusCode int
    \<comment> \<open>\<^verbatim>\<open>unknown status code: %d\<close>\<close>
  | PanicDestroyed string
    \<comment> \<open>\<^verbatim>\<open>%v object has already been destroyed\<close>\<close>
  | PanicCounterOverflow string
    \<comment> \<open>\<^verbatim>\<open>%v object call counter would overflow\<close>\<close>
  | PanicContractVersion
    \<comment> \<open>\<^verbatim>\<open>libveritas_uniffi: UniFFI contract version mismatch\<close>\<close>
  | PanicChecksum checksum_function
    \<comment> \<open>\<^verbatim>\<open>libveritas_uniffi: uniffi_libveritas_uniffi_<function>: UniFFI API checksum mismatch\<close>\<close>
  | PanicError
    \<comment> \<open>\<^verbatim>\<open>panic(err)\<close> of \<^verbatim>\<open>rustCall\<close>, on an error lifted from the call status\<close>

section \<open>Readers and writers\<close>

text \<open>
  An \<^verbatim>\<open>io.Reader\<close> over a buffer (\<^verbatim>\<open>bytes.Reader\<close>, the only reader the bindings create, in
  \<^verbatim>\<open>AsReader\<close>) is the list of bytes not yet read. A read either panics or returns its
  value with the bytes that remain. Struct literals evaluate their fields left to right,
  which is what \<open>then_read\<close> chains.
\<close>

type_synonym 'a reader = "byte list \<Rightarrow> panic + ('a \<times> byte list)"

definition returning :: "'a \<Rightarrow> 'a reader" where
  "returning x r = Inr (x, r)"

definition panicking :: "panic \<Rightarrow> 'a reader" where
  "panicking p r = Inl p"

definition then_read :: "'a reader \<Rightarrow> ('a \<Rightarrow> 'b reader) \<Rightarrow> 'b reader" where
  "then_read m f r = (case m r of Inl p \<Rightarrow> Inl p | Inr (x, r') \<Rightarrow> f x r')"

text \<open>
  \<^verbatim>\<open>binary.Read(reader, binary.BigEndian, &result)\<close> for a fixed-size integer of \<open>n\<close> bytes
  is \<^verbatim>\<open>io.ReadFull\<close> of \<open>n\<close> bytes: \<^verbatim>\<open>io.EOF\<close> when no byte is left,
  \<^verbatim>\<open>io.ErrUnexpectedEOF\<close> when fewer than \<open>n\<close> are. Every \<^verbatim>\<open>read*\<close> helper panics with
  that error.
\<close>

definition binary_Read :: "nat \<Rightarrow> byte list reader" where
  "binary_Read n r =
     (if n \<le> length r then Inr (take n r, drop n r)
      else if r = [] then Inl PanicEOF
      else Inl PanicUnexpectedEOF)"

text \<open>
  \<^verbatim>\<open>reader.Read(buffer)\<close> of \<^verbatim>\<open>bytes.Reader\<close> copies as many bytes as the buffer and the
  reader allow and returns their number; its only error is \<^verbatim>\<open>io.EOF\<close>, which the
  callers let pass. The rest of the buffer keeps the zeroes of \<^verbatim>\<open>make\<close>.
\<close>

definition Reader_Read :: "nat \<Rightarrow> byte list \<Rightarrow> (byte list \<times> nat) \<times> byte list" where
  "Reader_Read n r =
     ((take n r @ replicate (n - length r) 0, min n (length r)), drop n r)"

text \<open>\<^verbatim>\<open>binary.BigEndian\<close>: \<^verbatim>\<open>PutUintN\<close> stores the most significant byte first,
  \<^verbatim>\<open>UintN\<close> reads it back. Signed integers are written as their two's complement bit
  pattern, so both signednesses share these functions.\<close>

definition PutUint16 :: "16 word \<Rightarrow> byte list" where
  "PutUint16 v = [ucast (drop_bit 8 v), ucast v]"

definition PutUint32 :: "32 word \<Rightarrow> byte list" where
  "PutUint32 v = [ucast (drop_bit 24 v), ucast (drop_bit 16 v), ucast (drop_bit 8 v), ucast v]"

definition PutUint64 :: "64 word \<Rightarrow> byte list" where
  "PutUint64 v =
     [ucast (drop_bit 56 v), ucast (drop_bit 48 v), ucast (drop_bit 40 v), ucast (drop_bit 32 v),
      ucast (drop_bit 24 v), ucast (drop_bit 16 v), ucast (drop_bit 8 v), ucast v]"

definition Uint16 :: "byte list \<Rightarrow> 16 word" where
  "Uint16 b = ucast (b ! 1) OR push_bit 8 (ucast (b ! 0))"

definition Uint32 :: "byte list \<Rightarrow> 32 word" where
  "Uint32 b =
     ucast (b ! 3) OR push_bit 8 (ucast (b ! 2)) OR push_bit 16 (ucast (b ! 1))
       OR push_bit 24 (ucast (b ! 0))"

definition Uint64 :: "byte list \<Rightarrow> 64 word" where
  "Uint64 b =
     ucast (b ! 7) OR push_bit 8 (ucast (b ! 6)) OR push_bit 16 (ucast (b ! 5))
       OR push_bit 24 (ucast (b ! 4)) OR push_bit 32 (ucast (b ! 3))
       OR push_bit 40 (ucast (b ! 2)) OR push_bit 48 (ucast (b ! 1))
       OR push_bit 56 (ucast (b ! 0))"

text \<open>
  The writer is a \<^verbatim>\<open>bytes.Buffer\<close> (the only writer the bindings create, in
  \<^verbatim>\<open>LowerIntoRustBuffer\<close>): its \<^verbatim>\<open>Write\<close> appends and returns no error, so the
  \<^verbatim>\<open>write*\<close> helpers never panic. The buffer is its contents.
\<close>

definition writeInt8 :: "byte list \<Rightarrow> 8 word \<Rightarrow> byte list" where
  "writeInt8 writer v = writer @ [v]"

definition writeUint8 :: "byte list \<Rightarrow> 8 word \<Rightarrow> byte list" where
  "writeUint8 writer v = writer @ [v]"

definition writeInt16 :: "byte list \<Rightarrow> 16 word \<Rightarrow> byte list" where
  "writeInt16 writer v = writer @ PutUint16 v"

definition writeUint16 :: "byte list \<Rightarrow> 16 word \<Rightarrow> byte list" where
  "writeUint16 writer v = writer @ PutUint16 v"

definition writeInt32 :: "byte list \<Rightarrow> 32 word \<Rightarrow> byte list" where
  "writeInt32 writer v = writer @ PutUint32 v"

definition writeUint32 :: "byte list \<Rightarrow> 32 word \<Rightarrow> byte list" where
  "writeUint32 writer v = writer @ PutUint32 v"

definition writeInt64 :: "byte list \<Rightarrow> 64 word \<Rightarrow> byte list" where
  "writeInt64 writer v = writer @ PutUint64 v"

definition writeUint64 :: "byte list \<Rightarrow> 64 word \<Rightarrow> byte list" where
  "writeUint64 writer v = writer @ PutUint64 v"

definition readInt8 :: "8 word reader" where
  "readInt8 = then_read (binary_Read 1) (\<lambda>bs. returning (bs ! 0))"

definition readUint8 :: "8 word reader" where
  "readUint8 = then_read (binary_Read 1) (\<lambda>bs. returning (bs ! 0))"

definition readInt16 :: "16 word reader" where
  "readInt16 = then_read (binary_Read 2) (\<lambda>bs. returning (Uint16 bs))"

definition readUint16 :: "16 word reader" where
  "readUint16 = then_read (binary_Read 2) (\<lambda>bs. returning (Uint16 bs))"

definition readInt32 :: "32 word reader" where
  "readInt32 = then_read (binary_Read 4) (\<lambda>bs. returning (Uint32 bs))"

definition readUint32 :: "32 word reader" where
  "readUint32 = then_read (binary_Read 4) (\<lambda>bs. returning (Uint32 bs))"

definition readInt64 :: "64 word reader" where
  "readInt64 = then_read (binary_Read 8) (\<lambda>bs. returning (Uint64 bs))"

definition readUint64 :: "64 word reader" where
  "readUint64 = then_read (binary_Read 8) (\<lambda>bs. returning (Uint64 bs))"

text \<open>A write that can panic returns the buffer or the panic; \<open>then_write\<close> runs the
  next write on the buffer of the previous one.\<close>

definition then_write ::
  "panic + byte list \<Rightarrow> (byte list \<Rightarrow> panic + byte list) \<Rightarrow> panic + byte list" where
  "then_write m f = (case m of Inl p \<Rightarrow> Inl p | Inr writer \<Rightarrow> f writer)"

section \<open>Converters of the primitive types\<close>

definition FfiConverterUint32_Write :: "byte list \<Rightarrow> 32 word \<Rightarrow> panic + byte list" where
  "FfiConverterUint32_Write writer v = Inr (writeUint32 writer v)"

definition FfiConverterUint32_Read :: "32 word reader" where
  "FfiConverterUint32_Read = readUint32"

definition FfiConverterBool_Write :: "byte list \<Rightarrow> bool \<Rightarrow> panic + byte list" where
  "FfiConverterBool_Write writer v =
     (if v then Inr (writeInt8 writer 1) else Inr (writeInt8 writer 0))"

definition FfiConverterBool_Read :: "bool reader" where
  "FfiConverterBool_Read = then_read readInt8 (\<lambda>b. returning (b \<noteq> 0))"

text \<open>
  \<^verbatim>\<open>FfiConverterString.Read\<close> and \<^verbatim>\<open>FfiConverterBytes.Read\<close>: a signed 32-bit length,
  \<^verbatim>\<open>make([]byte, length)\<close> (which panics on a negative length), one \<^verbatim>\<open>reader.Read\<close>, and a
  panic unless the buffer was filled.
\<close>

definition read_length_prefixed :: "string \<Rightarrow> byte list reader" where
  "read_length_prefixed what =
     then_read readInt32 (\<lambda>len.
       if sint len < 0 then panicking PanicMakeSliceLen
       else (\<lambda>r.
         case Reader_Read (nat (sint len)) r of
           ((buffer, read_length), r') \<Rightarrow>
             if int read_length \<noteq> sint len
             then Inl (PanicBadReadLength what (sint len) read_length)
             else Inr (buffer, r')))"

definition FfiConverterString_Read :: "string reader" where
  "FfiConverterString_Read =
     then_read (read_length_prefixed ''string'') (\<lambda>buffer. returning (bytes_string buffer))"

definition FfiConverterString_Write :: "byte list \<Rightarrow> string \<Rightarrow> panic + byte list" where
  "FfiConverterString_Write writer v =
     (if length v > MaxInt32 then Inl (PanicTooLarge ''String'')
      else Inr (writeInt32 writer (word_of_nat (length v)) @ string_bytes v))"

definition FfiConverterBytes_Read :: "byte list reader" where
  "FfiConverterBytes_Read = read_length_prefixed ''[]byte''"

definition FfiConverterBytes_Write :: "byte list \<Rightarrow> byte list \<Rightarrow> panic + byte list" where
  "FfiConverterBytes_Write writer v =
     (if length v > MaxInt32 then Inl (PanicTooLarge ''[]byte'')
      else Inr (writeInt32 writer (word_of_nat (length v)) @ v))"

text \<open>\<^verbatim>\<open>FfiConverterString.Lift\<close> reads the whole buffer as the string.\<close>

definition FfiConverterString_Lift :: "byte list \<Rightarrow> string" where
  "FfiConverterString_Lift rb = bytes_string rb"

text \<open>\<^verbatim>\<open>LiftFromRustBuffer\<close>: read one item and panic when bytes are left over.\<close>

definition LiftFromRustBuffer :: "'a reader \<Rightarrow> byte list \<Rightarrow> panic + 'a" where
  "LiftFromRustBuffer bufReader rbuf =
     (case bufReader rbuf of
        Inl p \<Rightarrow> Inl p
      | Inr (item, rest) \<Rightarrow> if length rest > 0 then Inl (PanicJunk rest) else Inr item)"

section \<open>Records and tagged variants\<close>

record VeritasCertificate =
  Subject :: string
  CertType :: string
  Bytes :: "byte list"

record VeritasOffchainData =
  Seq :: "32 word"
  Data :: "byte list"

text \<open>
  \<^verbatim>\<open>VeritasCommitmentState\<close> and \<^verbatim>\<open>VeritasDelegateState\<close> are Go interfaces with the one
  method \<^verbatim>\<open>Destroy()\<close>. The three variant structs of each implement it; so does any other
  type with that method, and the interface can be nil. The last constructor of each
  datatype stands for such a value: it is what the \<^verbatim>\<open>default\<close> branch of \<^verbatim>\<open>Write\<close> sees.
  A pointer field (\<^verbatim>\<open>*[]byte\<close>, \<^verbatim>\<open>*VeritasOffchainData\<close>) is an option.
\<close>

datatype VeritasCommitmentState =
    VeritasCommitmentStateExists
      (StateRoot: "byte list") (PrevRoot: "byte list option") (RollingHash: "byte list")
      (BlockHeight: "32 word") (ReceiptHash: "byte list option")
  | VeritasCommitmentStateEmpty
  | VeritasCommitmentStateUnknown
  | VeritasCommitmentStateForeign

datatype VeritasDelegateState =
    VeritasDelegateStateExists
      (ScriptPubkey: "byte list") (DelegateData: "byte list option")
      (OffchainData: "VeritasOffchainData option")
  | VeritasDelegateStateEmpty
  | VeritasDelegateStateUnknown
  | VeritasDelegateStateForeign

section \<open>Converters of the optional types\<close>

definition FfiConverterOptionalBytes_Read :: "byte list option reader" where
  "FfiConverterOptionalBytes_Read =
     then_read readInt8 (\<lambda>flag.
       if flag = 0 then returning None
       else then_read FfiConverterBytes_Read (\<lambda>temp. returning (Some temp)))"

definition FfiConverterOptionalBytes_Write ::
  "byte list \<Rightarrow> byte list option \<Rightarrow> panic + byte list" where
  "FfiConverterOptionalBytes_Write writer v =
     (case v of
        None \<Rightarrow> Inr (writeInt8 writer 0)
      | Some b \<Rightarrow> FfiConverterBytes_Write (writeInt8 writer 1) b)"

section \<open>Converters of the records\<close>

definition FfiConverterVeritasCertificate_Read :: "VeritasCertificate reader" where
  "FfiConverterVeritasCertificate_Read =
     then_read FfiConverterString_Read (\<lambda>subject.
     then_read FfiConverterString_Read (\<lambda>certType.
     then_read FfiConverterBytes_Read (\<lambda>bytes.
     returning \<lparr>Subject = subject, CertType = certType, Bytes = bytes\<rparr>)))"

definition FfiConverterVeritasCertificate_Write ::
  "byte list \<Rightarrow> VeritasCertificate \<Rightarrow> panic + byte list" where
  "FfiConverterVeritasCertificate_Write writer v =
     then_write (FfiConverterString_Write writer (Subject v)) (\<lambda>writer.
     then_write (FfiConverterString_Write writer (CertType v)) (\<lambda>writer.
     FfiConverterBytes_Write writer (Bytes v)))"

definition FfiConverterVeritasOffchainData_Read :: "VeritasOffchainData reader" where
  "FfiConverterVeritasOffchainData_Read =
     then_read FfiConverterUint32_Read (\<lambda>seq.
     then_read FfiConverterBytes_Read (\<lambda>data.
     returning \<lparr>Seq = seq, Data = data\<rparr>))"

definition FfiConverterVeritasOffchainData_Write ::
  "byte list \<Rightarrow> VeritasOffchainData \<Rightarrow> panic + byte list" where
  "FfiConverterVeritasOffchainData_Write writer v =
     then_write (FfiConverterUint32_Write writer (Seq v)) (\<lambda>writer.
     FfiConverterBytes_Write writer (Data v))"

definition FfiConverterOptionalVeritasOffchainData_Read ::
  "VeritasOffchainData option reader" where
  "FfiConverterOptionalVeritasOffchainData_Read =
     then_read readInt8 (\<lambda>flag.
       if flag = 0 then returning None
       else then_read FfiConverterVeritasOffchainData_Read (\<lambda>temp. returning (Some temp)))"

definition FfiConverterOptionalVeritasOffchainData_Write ::
  "byte list \<Rightarrow> VeritasOffchainData option \<Rightarrow> panic + byte list" where
  "FfiConverterOptionalVeritasOffchainData_Write writer v =
     (case v of
        None \<Rightarrow> Inr (writeInt8 writer 0)
      | Some d \<Rightarrow> FfiConverterVeritasOffchainData_Write (writeInt8 writer 1) d)"

section \<open>Converters of the tagged variants\<close>

definition FfiConverterVeritasCommitmentState_Read :: "VeritasCommitmentState reader" where
  "FfiConverterVeritasCommitmentState_Read =
     then_read readInt32 (\<lambda>id.
       if id = 1 then
         then_read FfiConverterBytes_Read (\<lambda>stateRoot.
         then_read FfiConverterOptionalBytes_Read (\<lambda>prevRoot.
         then_read FfiConverterBytes_Read (\<lambda>rollingHash.
         then_read FfiConverterUint32_Read (\<lambda>blockHeight.
         then_read FfiConverterOptionalBytes_Read (\<lambda>receiptHash.
         returning
           (VeritasCommitmentStateExists stateRoot prevRoot rollingHash blockHeight
              receiptHash))))))
       else if id = 2 then returning VeritasCommitmentStateEmpty
       else if id = 3 then returning VeritasCommitmentStateUnknown
       else panicking (PanicInvalidEnumRead ''FfiConverterVeritasCommitmentState'' (sint id)))"

fun FfiConverterVeritasCommitmentState_Write ::
  "byte list \<Rightarrow> VeritasCommitmentState \<Rightarrow> panic + byte list" where
  "FfiConverterVeritasCommitmentState_Write writer
     (VeritasCommitmentStateExists stateRoot prevRoot rollingHash blockHeight receiptHash) =
     then_write (FfiConverterBytes_Write (writeInt32 writer 1) stateRoot) (\<lambda>writer.
     then_write (FfiConverterOptionalBytes_Write writer prevRoot) (\<lambda>writer.
     then_write (FfiConverterBytes_Write writer rollingHash) (\<lambda>writer.
     then_write (FfiConverterUint32_Write writer blockHeight) (\<lambda>writer.
     FfiConverterOptionalBytes_Write writer receiptHash))))"
| "FfiConverterVeritasCommitmentState_Write writer VeritasCommitmentStateEmpty =
     Inr (writeInt32 writer 2)"
| "FfiConverterVeritasCommitmentState_Write writer VeritasCommitmentStateUnknown =
     Inr (writeInt32 writer 3)"
| "FfiConverterVeritasCommitmentState_Write writer VeritasCommitmentStateForeign =
     Inl (PanicInvalidEnumWrite ''FfiConverterVeritasCommitmentState'')"

definition FfiConverterVeritasDelegateState_Read :: "VeritasDelegateState reader" where
  "FfiConverterVeritasDelegateState_Read =
     then_read readInt32 (\<lambda>id.
       if id = 1 then
         then_read FfiConverterBytes_Read (\<lambda>scriptPubkey.
         then_read FfiConverterOptionalBytes_Read (\<lambda>data.
         then_read FfiConverterOptionalVeritasOffchainData_Read (\<lambda>offchainData.
         returning (VeritasDelegateStateExists scriptPubkey data offchainData))))
       else if id = 2 then returning VeritasDelegateStateEmpty
       else if id = 3 then returning VeritasDelegateStateUnknown
       else panicking (PanicInvalidEnumRead ''FfiConverterVeritasDelegateState'' (sint id)))"

fun FfiConverterVeritasDelegateState_Write ::
  "byte list \<Rightarrow> VeritasDelegateState \<Rightarrow> panic + byte list" where
  "FfiConverterVeritasDelegateState_Write writer
     (VeritasDelegateStateExists scriptPubkey data offchainData) =
     then_write (FfiConverterBytes_Write (writeInt32 writer 1) scriptPubkey) (\<lambda>writer.
     then_write (FfiConverterOptionalBytes_Write writer data) (\<lambda>writer.
     FfiConverterOptionalVeritasOffchainData_Write writer offchainData))"
| "FfiConverterVeritasDelegateState_Write writer VeritasDelegateStateEmpty =
     Inr (writeInt32 writer 2)"
| "FfiConverterVeritasDelegateState_Write writer VeritasDelegateStateUnknown =
     Inr (writeInt32 writer 3)"
| "FfiConverterVeritasDelegateState_Write writer VeritasDelegateStateForeign =
     Inl (PanicInvalidEnumWrite ''FfiConverterVeritasDelegateState'')"

definition FfiConverterVeritasCommitmentState_Lift ::
  "byte list \<Rightarrow> panic + VeritasCommitmentState" where
  "FfiConverterVeritasCommitmentState_Lift rb =
     LiftFromRustBuffer FfiConverterVeritasCommitmentState_Read rb"

definition FfiConverterVeritasDelegateState_Lift ::
  "byte list \<Rightarrow> panic + VeritasDelegateState" where
  "FfiConverterVeritasDelegateState_Lift rb =
     LiftFromRustBuffer FfiConverterVeritasDelegateState_Read rb"

definition FfiConverterVeritasCertificate_Lift :: "byte list \<Rightarrow> panic + VeritasCertificate" where
  "FfiConverterVeritasCertificate_Lift rb =
     LiftFromRustBuffer FfiConverterVeritasCertificate_Read rb"

definition FfiConverterVeritasOffchainData_Lift ::
  "byte list \<Rightarrow> panic + VeritasOffchainData" where
  "FfiConverterVeritasOffchainData_Lift rb =
     LiftFromRustBuffer FfiConverterVeritasOffchainData_Read rb"

section \<open>The error type\<close>

text \<open>
  \<^verbatim>\<open>VeritasError\<close> wraps a Go \<^verbatim>\<open>error\<close>. The converter's \<^verbatim>\<open>Read\<close> stores a pointer to one
  of the two variant structs and its \<^verbatim>\<open>Write\<close> switches on those two pointer types; the
  field can hold any other error as well (the variant structs by value, a foreign error,
  nil), which is the \<^verbatim>\<open>default\<close> branch of \<^verbatim>\<open>Write\<close>.
\<close>

datatype go_error =
    PtrVeritasErrorInvalidInput (Message: string)
  | PtrVeritasErrorVerificationFailed (Message: string)
  | ValVeritasErrorInvalidInput (Message: string)
  | ValVeritasErrorVerificationFailed (Message: string)
  | ForeignError (Message: string)
  | NilError

datatype VeritasError = VeritasError (err: go_error)

definition NewVeritasErrorInvalidInput :: "string \<Rightarrow> VeritasError option" where
  "NewVeritasErrorInvalidInput message = Some (VeritasError (PtrVeritasErrorInvalidInput message))"

definition NewVeritasErrorVerificationFailed :: "string \<Rightarrow> VeritasError option" where
  "NewVeritasErrorVerificationFailed message =
     Some (VeritasError (PtrVeritasErrorVerificationFailed message))"

text \<open>The \<^verbatim>\<open>Error()\<close> methods. \<^verbatim>\<open>fmt.Sprint\<close> puts no space between string operands.
  A nil error has no \<^verbatim>\<open>Error()\<close> to call.\<close>

fun go_error_Error :: "go_error \<Rightarrow> panic + string" where
  "go_error_Error (PtrVeritasErrorInvalidInput m) = Inr (''InvalidInput: Message='' @ m)"
| "go_error_Error (ValVeritasErrorInvalidInput m) = Inr (''InvalidInput: Message='' @ m)"
| "go_error_Error (PtrVeritasErrorVerificationFailed m) =
     Inr (''VerificationFailed: Message='' @ m)"
| "go_error_Error (ValVeritasErrorVerificationFailed m) =
     Inr (''VerificationFailed: Message='' @ m)"
| "go_error_Error (ForeignError m) = Inr m"
| "go_error_Error NilError = Inl PanicNilDereference"

definition VeritasError_Error :: "VeritasError \<Rightarrow> panic + string" where
  "VeritasError_Error e =
     (case go_error_Error (err e) of Inl p \<Rightarrow> Inl p | Inr m \<Rightarrow> Inr (''VeritasError: '' @ m))"

text \<open>A \<^verbatim>\<open>*VeritasError\<close> is an option: \<open>None\<close> is the nil pointer.\<close>

definition FfiConverterVeritasError_Read :: "VeritasError option reader" where
  "FfiConverterVeritasError_Read =
     then_read readUint32 (\<lambda>errorID.
       if errorID = 1 then
         then_read FfiConverterString_Read (\<lambda>message.
         returning (Some (VeritasError (PtrVeritasErrorInvalidInput message))))
       else if errorID = 2 then
         then_read FfiConverterString_Read (\<lambda>message.
         returning (Some (VeritasError (PtrVeritasErrorVerificationFailed message))))
       else panicking (PanicUnknownErrorCode (unat errorID)))"

fun FfiConverterVeritasError_Write ::
  "byte list \<Rightarrow> VeritasError option \<Rightarrow> panic + byte list" where
  "FfiConverterVeritasError_Write writer None = Inl PanicNilDereference"
| "FfiConverterVeritasError_Write writer (Some (VeritasError (PtrVeritasErrorInvalidInput m))) =
     FfiConverterString_Write (writeInt32 writer 1) m"
| "FfiConverterVeritasError_Write writer
     (Some (VeritasError (PtrVeritasErrorVerificationFailed m))) =
     FfiConverterString_Write (writeInt32 writer 2) m"
| "FfiConverterVeritasError_Write writer (Some (VeritasError _)) = Inl PanicInvalidErrorValue"

definition FfiConverterVeritasError_Lift :: "byte list \<Rightarrow> panic + VeritasError option" where
  "FfiConverterVeritasError_Lift eb = LiftFromRustBuffer FfiConverterVeritasError_Read eb"

section \<open>The wire layout in the words of the specification\<close>

text \<open>
  The reference layout the converters are compared with. \<open>be_bytes k n\<close> is the number
  \<open>n\<close> in \<open>k\<close> bytes, most significant first, and \<open>be_value\<close> the number a byte string
  denotes when read that way. A byte string or string is its length in four bytes and
  then its bytes; an optional field is the flag byte 0, or the flag byte 1 and the
  payload; a tagged variant is its discriminant in four bytes and then its fields.
\<close>

fun be_bytes :: "nat \<Rightarrow> nat \<Rightarrow> byte list" where
  "be_bytes 0 n = []"
| "be_bytes (Suc k) n = be_bytes k (n div 256) @ [word_of_nat (n mod 256)]"

definition be_value :: "byte list \<Rightarrow> nat" where
  "be_value bs = foldl (\<lambda>acc b. acc * 256 + unat b) 0 bs"

definition layout_u32 :: "32 word \<Rightarrow> byte list" where
  "layout_u32 v = be_bytes 4 (unat v)"

definition layout_bytes :: "byte list \<Rightarrow> byte list" where
  "layout_bytes b = be_bytes 4 (length b) @ b"

definition layout_string :: "string \<Rightarrow> byte list" where
  "layout_string s = be_bytes 4 (length s) @ string_bytes s"

fun layout_optional :: "('a \<Rightarrow> byte list) \<Rightarrow> 'a option \<Rightarrow> byte list" where
  "layout_optional payload None = [0]"
| "layout_optional payload (Some x) = 1 # payload x"

definition layout_offchain :: "VeritasOffchainData \<Rightarrow> byte list" where
  "layout_offchain d = layout_u32 (Seq d) @ layout_bytes (Data d)"

definition layout_certificate :: "VeritasCertificate \<Rightarrow> byte list" where
  "layout_certificate c =
     layout_string (Subject c) @ layout_string (CertType c) @ layout_bytes (Bytes c)"

fun layout_commitment :: "VeritasCommitmentState \<Rightarrow> byte list" where
  "layout_commitment (VeritasCommitmentStateExists sr pr rh bh rc) =
     be_bytes 4 1 @ layout_bytes sr @ layout_optional layout_bytes pr @ layout_bytes rh
       @ layout_u32 bh @ layout_optional layout_bytes rc"
| "layout_commitment VeritasCommitmentStateEmpty = be_bytes 4 2"
| "layout_commitment VeritasCommitmentStateUnknown = be_bytes 4 3"
| "layout_commitment VeritasCommitmentStateForeign = []"

fun layout_delegate :: "VeritasDelegateState \<Rightarrow> byte list" where
  "layout_delegate (VeritasDelegateStateExists sp d od) =
     be_bytes 4 1 @ layout_bytes sp @ layout_optional layout_bytes d
       @ layout_optional layout_offchain od"
| "layout_delegate VeritasDelegateStateEmpty = be_bytes 4 2"
| "layout_delegate VeritasDelegateStateUnknown = be_bytes 4 3"
| "layout_delegate VeritasDelegateStateForeign = []"

text \<open>
  The values the converters can write: every length fits the signed 32-bit prefix, and a
  tagged variant is one of its three variants.
\<close>

definition valid_bytes :: "byte list \<Rightarrow> bool" where
  "valid_bytes b = (length b \<le> MaxInt32)"

definition valid_string :: "string \<Rightarrow> bool" where
  "valid_string s = (length s \<le> MaxInt32)"

fun valid_optional :: "('a \<Rightarrow> bool) \<Rightarrow> 'a option \<Rightarrow> bool" where
  "valid_optional ok None = True"
| "valid_optional ok (Some x) = ok x"

definition valid_offchain :: "VeritasOffchainData \<Rightarrow> bool" where
  "valid_offchain d = valid_bytes (Data d)"

definition valid_certificate :: "VeritasCertificate \<Rightarrow> bool" where
  "valid_certificate c =
     (valid_string (Subject c) \<and> valid_string (CertType c) \<and> valid_bytes (Bytes c))"

fun valid_commitment :: "VeritasCommitmentState \<Rightarrow> bool" where
  "valid_commitment (VeritasCommitmentStateExists sr pr rh bh rc) =
     (valid_bytes sr \<and> valid_optional valid_bytes pr \<and> valid_bytes rh
        \<and> valid_optional valid_bytes rc)"
| "valid_commitment VeritasCommitmentStateEmpty = True"
| "valid_commitment VeritasCommitmentStateUnknown = True"
| "valid_commitment VeritasCommitmentStateForeign = False"

fun valid_delegate :: "VeritasDelegateState \<Rightarrow> bool" where
  "valid_delegate (VeritasDelegateStateExists sp d od) =
     (valid_bytes sp \<and> valid_optional valid_bytes d \<and> valid_optional valid_offchain od)"
| "valid_delegate VeritasDelegateStateEmpty = True"
| "valid_delegate VeritasDelegateStateUnknown = True"
| "valid_delegate VeritasDelegateStateForeign = False"

section \<open>Call status\<close>

text \<open>
  Every call into the core fills a \<^verbatim>\<open>RustCallStatus\<close>: an 8-bit code and, for an error or
  a panic of the core, a buffer. \<^verbatim>\<open>checkCallStatus\<close> turns the status into the error of
  the call. Its converter is an interface value and \<^verbatim>\<open>rustCall\<close> passes nil for it, so
  the converter is an option; a method call on the nil interface is a nil dereference.
  Returning the error buffer to the core (\<^verbatim>\<open>rbuf.Free()\<close>) is left out.
\<close>

record RustCallStatus =
  code :: "8 word"
  errorBuf :: "byte list"

definition checkCallStatus ::
  "'e option reader option \<Rightarrow> RustCallStatus \<Rightarrow> panic + 'e option" where
  "checkCallStatus converter status =
     (if code status = 0 then Inr None
      else if code status = 1 then
        (case converter of
           None \<Rightarrow> Inl PanicNilDereference
         | Some bufReader \<Rightarrow> LiftFromRustBuffer bufReader (errorBuf status))
      else if code status = 2 then
        (if length (errorBuf status) > 0
         then Inl (PanicRust (FfiConverterString_Lift (errorBuf status)))
         else Inl PanicRustInPanic)
      else Inl (PanicUnknownStatusCode (sint (code status))))"

text \<open>
  The callback of \<^verbatim>\<open>rustCallWithError\<close> lowers the arguments and calls the core: it
  panics (while lowering), or gives the value the core returned and the status it wrote.
\<close>

definition rustCallWithError ::
  "'e option reader option \<Rightarrow> panic + ('u \<times> RustCallStatus) \<Rightarrow> panic + ('u \<times> 'e option)" where
  "rustCallWithError converter callback =
     (case callback of
        Inl p \<Rightarrow> Inl p
      | Inr (returnValue, status) \<Rightarrow>
          (case checkCallStatus converter status of
             Inl p \<Rightarrow> Inl p
           | Inr callErr \<Rightarrow> Inr (returnValue, callErr)))"

definition rustCall :: "panic + ('u \<times> RustCallStatus) \<Rightarrow> panic + 'u" where
  "rustCall callback =
     (case rustCallWithError (None :: go_error option reader option) callback of
        Inl p \<Rightarrow> Inl p
      | Inr (returnValue, callErr) \<Rightarrow>
          (case callErr of None \<Rightarrow> Inr returnValue | Some e \<Rightarrow> Inl PanicError))"

section \<open>The compiled core\<close>

text \<open>
  The core is a compiled library; the bindings see only what its functions return and
  the status they write. Each field is one function of the library, read at the
  arguments the bindings pass (buffers as their bytes; the object pointer is left out).
  Nothing is assumed about the status a function writes. A buffer the core hands back for
  bytes it was given (\<^verbatim>\<open>rustbuffer_from_bytes\<close>) holds those bytes.
\<close>

record core =
  rustbuffer_from_bytes :: "byte list \<Rightarrow> RustCallStatus"
  fn_clone :: RustCallStatus
  fn_free :: RustCallStatus
  fn_func_verify_schnorr :: "byte list \<Rightarrow> byte list \<Rightarrow> byte list \<Rightarrow> RustCallStatus"
  fn_func_verify_spaces_message :: "byte list \<Rightarrow> byte list \<Rightarrow> byte list \<Rightarrow> RustCallStatus"
  fn_method_veritasquerycontext_add_request :: "byte list \<Rightarrow> RustCallStatus"
  fn_method_veritasquerycontext_add_zone :: "byte list \<Rightarrow> RustCallStatus"
  uniffi_contract_version :: "32 word"
  uniffi_checksum :: "checksum_function \<Rightarrow> 16 word"

text \<open>
  Lowering copies the written bytes into a buffer of the core
  (\<^verbatim>\<open>ffi_libveritas_uniffi_rustbuffer_from_bytes\<close>); the empty slice needs no call.
\<close>

definition bytesToRustBuffer :: "core \<Rightarrow> byte list \<Rightarrow> panic + byte list" where
  "bytesToRustBuffer c b =
     (if length b = 0 then Inr []
      else rustCall (Inr (b, rustbuffer_from_bytes c b)))"

definition stringToRustBuffer :: "core \<Rightarrow> string \<Rightarrow> panic + byte list" where
  "stringToRustBuffer c str = bytesToRustBuffer c (string_bytes str)"

definition LowerIntoRustBuffer ::
  "core \<Rightarrow> (byte list \<Rightarrow> 'a \<Rightarrow> panic + byte list) \<Rightarrow> 'a \<Rightarrow> panic + byte list" where
  "LowerIntoRustBuffer c bufWriter v =
     (case bufWriter [] v of Inl p \<Rightarrow> Inl p | Inr bytes \<Rightarrow> bytesToRustBuffer c bytes)"

definition FfiConverterString_Lower :: "core \<Rightarrow> string \<Rightarrow> panic + byte list" where
  "FfiConverterString_Lower c v = stringToRustBuffer c v"

definition FfiConverterBytes_Lower :: "core \<Rightarrow> byte list \<Rightarrow> panic + byte list" where
  "FfiConverterBytes_Lower c v = LowerIntoRustBuffer c FfiConverterBytes_Write v"

section \<open>Errors as Go interface values\<close>

text \<open>
  A Go \<^verbatim>\<open>error\<close> returned by the bindings is the nil interface or an interface holding a
  \<^verbatim>\<open>*VeritasError\<close>; the pointer it holds can itself be nil, which is the non-nil
  interface \<^verbatim>\<open>AsError\<close> exists to avoid.
\<close>

datatype error_interface = NilInterface | VeritasErrorPointer "VeritasError option"

fun AsError :: "VeritasError option \<Rightarrow> error_interface" where
  "AsError None = NilInterface"
| "AsError (Some e) = VeritasErrorPointer (Some e)"

definition error_result ::
  "panic + ('u \<times> VeritasError option) \<Rightarrow> panic + error_interface" where
  "error_result r = (case r of Inl p \<Rightarrow> Inl p | Inr (_, uniffiErr) \<Rightarrow> Inr (AsError uniffiErr))"

section \<open>Object handles\<close>

text \<open>
  \<^verbatim>\<open>FfiObject\<close>: the call counter and the destroyed flag. The pointer and the clone and
  free functions never change; what is recorded of them is the list of calls they made
  into the core. The counter is a Go \<^verbatim>\<open>int64\<close>; it is an integer here, and
  \<open>reachable_counter_range\<close> below shows it stays between \<open>-1\<close> and \<^verbatim>\<open>MaxInt64\<close>, so
  that no step wraps around. Each of the three operations is one atomic step on the
  counter.
\<close>

datatype core_call = CallClone | CallFree

record FfiObject =
  callCounter :: int
  destroyed :: bool
  core_calls :: "core_call list"

definition newFfiObject :: FfiObject where
  "newFfiObject = \<lparr>callCounter = 0, destroyed = False, core_calls = []\<rparr>"

definition incrementPointer :: "core \<Rightarrow> string \<Rightarrow> FfiObject \<Rightarrow> (panic + unit) \<times> FfiObject" where
  "incrementPointer c debugName ffiObject =
     (if callCounter ffiObject \<le> -1 then (Inl (PanicDestroyed debugName), ffiObject)
      else if callCounter ffiObject = MaxInt64
        then (Inl (PanicCounterOverflow debugName), ffiObject)
      else
        (rustCall (Inr ((), fn_clone c)),
         ffiObject\<lparr>callCounter := callCounter ffiObject + 1,
                    core_calls := core_calls ffiObject @ [CallClone]\<rparr>))"

definition freeRustArcPtr :: "core \<Rightarrow> FfiObject \<Rightarrow> (panic + unit) \<times> FfiObject" where
  "freeRustArcPtr c ffiObject =
     (rustCall (Inr ((), fn_free c)),
      ffiObject\<lparr>core_calls := core_calls ffiObject @ [CallFree]\<rparr>)"

definition decrementPointer :: "core \<Rightarrow> FfiObject \<Rightarrow> (panic + unit) \<times> FfiObject" where
  "decrementPointer c ffiObject =
     (let ffiObject' = ffiObject\<lparr>callCounter := callCounter ffiObject - 1\<rparr>
      in if callCounter ffiObject' = -1 then freeRustArcPtr c ffiObject'
         else (Inr (), ffiObject'))"


text \<open>
  Every method of the five object types (\<^verbatim>\<open>Veritas\<close>, \<^verbatim>\<open>VeritasAnchors\<close>,
  \<^verbatim>\<open>VeritasQueryContext\<close>, \<^verbatim>\<open>VeritasZone\<close>, \<^verbatim>\<open>VerifiedMessage\<close>) has one shape:
  \<^verbatim>\<open>incrementPointer\<close> with the type's name, a deferred \<^verbatim>\<open>decrementPointer\<close>, and a body
  that calls the core and does not touch the handle. The deferred call runs whether or not
  the body panics, and a panic of its own replaces the body's outcome. \<^verbatim>\<open>Destroy\<close> of
  each type is \<^verbatim>\<open>destroy\<close> of its handle (and clears the finalizer, which is left out).
\<close>

definition method_call ::
  "core \<Rightarrow> string \<Rightarrow> (panic + 'a) \<Rightarrow> FfiObject \<Rightarrow> (panic + 'a) \<times> FfiObject" where
  "method_call c debugName body ffiObject =
     (case incrementPointer c debugName ffiObject of
        (Inl p, ffiObject1) \<Rightarrow> (Inl p, ffiObject1)
      | (Inr _, ffiObject1) \<Rightarrow>
          (case decrementPointer c ffiObject1 of
             (Inl p, ffiObject2) \<Rightarrow> (Inl p, ffiObject2)
           | (Inr _, ffiObject2) \<Rightarrow> (body, ffiObject2)))"






section \<open>Operations that return an error\<close>

definition AddRequest :: "core \<Rightarrow> FfiObject \<Rightarrow> string \<Rightarrow> (panic + error_interface) \<times> FfiObject" where
  "AddRequest c self handle =
     method_call c ''*VeritasQueryContext''
       (error_result
          (rustCallWithError (Some FfiConverterVeritasError_Read)
             (case FfiConverterString_Lower c handle of
                Inl p \<Rightarrow> Inl p
              | Inr h \<Rightarrow> Inr (False, fn_method_veritasquerycontext_add_request c h))))
       self"

definition AddZone :: "core \<Rightarrow> FfiObject \<Rightarrow> byte list \<Rightarrow> (panic + error_interface) \<times> FfiObject" where
  "AddZone c self zoneBytes =
     method_call c ''*VeritasQueryContext''
       (error_result
          (rustCallWithError (Some FfiConverterVeritasError_Read)
             (case FfiConverterBytes_Lower c zoneBytes of
                Inl p \<Rightarrow> Inl p
              | Inr z \<Rightarrow> Inr (False, fn_method_veritasquerycontext_add_zone c z))))
       self"

definition VerifySchnorr ::
  "core \<Rightarrow> byte list \<Rightarrow> byte list \<Rightarrow> byte list \<Rightarrow> panic + error_interface" where
  "VerifySchnorr c msgHash signature pubkey =
     error_result
       (rustCallWithError (Some FfiConverterVeritasError_Read)
          (case FfiConverterBytes_Lower c msgHash of
             Inl p \<Rightarrow> Inl p
           | Inr m \<Rightarrow>
               (case FfiConverterBytes_Lower c signature of
                  Inl p \<Rightarrow> Inl p
                | Inr sg \<Rightarrow>
                    (case FfiConverterBytes_Lower c pubkey of
                       Inl p \<Rightarrow> Inl p
                     | Inr pk \<Rightarrow> Inr (False, fn_func_verify_schnorr c m sg pk)))))"

definition VerifySpacesMessage ::
  "core \<Rightarrow> byte list \<Rightarrow> byte list \<Rightarrow> byte list \<Rightarrow> panic + error_interface" where
  "VerifySpacesMessage c msg signature pubkey =
     error_result
       (rustCallWithError (Some FfiConverterVeritasError_Read)
          (case FfiConverterBytes_Lower c msg of
             Inl p \<Rightarrow> Inl p
           | Inr m \<Rightarrow>
               (case FfiConverterBytes_Lower c signature of
                  Inl p \<Rightarrow> Inl p
                | Inr sg \<Rightarrow>
                    (case FfiConverterBytes_Lower c pubkey of
                       Inl p \<Rightarrow> Inl p
                     | Inr pk \<Rightarrow> Inr (False, fn_func_verify_spaces_message c m sg pk)))))"

section \<open>The start-up check\<close>

text \<open>
  \<^verbatim>\<open>uniffiCheckChecksums\<close> is a run of blocks of one shape, one for each function: ask the
  core for the checksum, panic unless it is the expected constant. The blocks are the
  table \<open>uniffi_checksums\<close>, in the order of the source. The checksum functions take no
  status argument, so the status each \<^verbatim>\<open>rustCall\<close> checks is the zero value.
\<close>

definition bindingsContractVersion :: int where
  "bindingsContractVersion = 26"

definition uniffi_checksums :: "(checksum_function \<times> 16 word) list" where
  "uniffi_checksums =
     [(checksum_func_decode_certificate, 45631),
      (checksum_func_decode_zone, 59384),
      (checksum_func_hash_signable_message, 19660),
      (checksum_func_verify_schnorr, 32215),
      (checksum_func_verify_spaces_message, 40969),
      (checksum_method_verifiedmessage_certificate, 21477),
      (checksum_method_verifiedmessage_certificates, 42989),
      (checksum_method_verifiedmessage_zones, 42512),
      (checksum_method_veritas_is_finalized, 15029),
      (checksum_method_veritas_newest_anchor, 205),
      (checksum_method_veritas_oldest_anchor, 57268),
      (checksum_method_veritas_sovereignty_for, 5317),
      (checksum_method_veritas_verify_message, 27729),
      (checksum_method_veritasquerycontext_add_request, 54635),
      (checksum_method_veritasquerycontext_add_zone, 32901),
      (checksum_method_veritaszone_anchor, 15552),
      (checksum_method_veritaszone_commitment, 46659),
      (checksum_method_veritaszone_data, 11175),
      (checksum_method_veritaszone_delegate, 16818),
      (checksum_method_veritaszone_handle, 27124),
      (checksum_method_veritaszone_is_better_than, 11445),
      (checksum_method_veritaszone_offchain_data, 13766),
      (checksum_method_veritaszone_script_pubkey, 23903),
      (checksum_method_veritaszone_sovereignty, 63614),
      (checksum_method_veritaszone_to_bytes, 44775),
      (checksum_method_veritaszone_to_json, 44380),
      (checksum_constructor_veritas_new, 31646),
      (checksum_constructor_veritasanchors_from_json, 4349),
      (checksum_constructor_veritasquerycontext_new, 19819)]"

definition untouched_status :: RustCallStatus where
  "untouched_status = \<lparr>code = 0, errorBuf = []\<rparr>"

fun check_checksums :: "core \<Rightarrow> (checksum_function \<times> 16 word) list \<Rightarrow> panic + unit" where
  "check_checksums c [] = Inr ()"
| "check_checksums c ((f, expected) # blocks) =
     (case rustCall (Inr (uniffi_checksum c f, untouched_status)) of
        Inl p \<Rightarrow> Inl p
      | Inr checksum \<Rightarrow>
          if checksum \<noteq> expected then Inl (PanicChecksum f) else check_checksums c blocks)"

definition uniffiCheckChecksums :: "core \<Rightarrow> panic + unit" where
  "uniffiCheckChecksums c =
     (case rustCall (Inr (uniffi_contract_version c, untouched_status)) of
        Inl p \<Rightarrow> Inl p
      | Inr scaffoldingContractVersion \<Rightarrow>
          if bindingsContractVersion \<noteq> uint scaffoldingContractVersion
          then Inl PanicContractVersion
          else check_checksums c uniffi_checksums)"

definition init :: "core \<Rightarrow> panic + unit" where
  "init c = uniffiCheckChecksums c"

section \<open>Auxiliary notions for the proofs\<close>

text \<open>The panics of a read that ran out of bytes.\<close>

fun is_short_read :: "panic \<Rightarrow> bool" where
  "is_short_read PanicEOF = True"
| "is_short_read PanicUnexpectedEOF = True"
| "is_short_read (PanicBadReadLength what expected n) = True"
| "is_short_read _ = False"

text \<open>
  A reader is prefix-exact when a successful read consumed a prefix of its input that
  alone decides the result, and panics for lack of bytes on every shorter prefix.
\<close>

definition prefix_exact :: "'a reader \<Rightarrow> bool" where
  "prefix_exact R \<longleftrightarrow>
     (\<forall>bs x rest. R bs = Inr (x, rest) \<longrightarrow>
        (\<exists>c. bs = c @ rest \<and> (\<forall>r'. R (c @ r') = Inr (x, r'))
           \<and> (\<forall>n<length c. \<exists>p. R (take n c) = Inl p \<and> is_short_read p)))"

text \<open>The panics a converter's \<^verbatim>\<open>Read\<close> or \<^verbatim>\<open>Lift\<close> can raise.\<close>

fun is_decode_panic :: "panic \<Rightarrow> bool" where
  "is_decode_panic PanicEOF = True"
| "is_decode_panic PanicUnexpectedEOF = True"
| "is_decode_panic PanicMakeSliceLen = True"
| "is_decode_panic (PanicBadReadLength what expected n) = True"
| "is_decode_panic (PanicInvalidEnumRead converter tag) = True"
| "is_decode_panic (PanicJunk rest) = True"
| "is_decode_panic _ = False"

definition decode_panics :: "'a reader \<Rightarrow> bool" where
  "decode_panics R \<longleftrightarrow> (\<forall>r p. R r = Inl p \<longrightarrow> is_decode_panic p)"

text \<open>
  The layouts a reader accepts. \<^verbatim>\<open>Read\<close> of an optional field tests the presence flag
  against 0 only, so a field that is present may carry any other flag byte; these are the
  layouts above with the flag bytes of the present fields as parameters.
\<close>

fun layout_optional_flag :: "byte \<Rightarrow> ('a \<Rightarrow> byte list) \<Rightarrow> 'a option \<Rightarrow> byte list" where
  "layout_optional_flag flag payload None = [0]"
| "layout_optional_flag flag payload (Some x) = flag # payload x"

fun layout_commitment_flags :: "byte \<Rightarrow> byte \<Rightarrow> VeritasCommitmentState \<Rightarrow> byte list" where
  "layout_commitment_flags f1 f2 (VeritasCommitmentStateExists sr pr rh bh rc) =
     be_bytes 4 1 @ layout_bytes sr @ layout_optional_flag f1 layout_bytes pr @ layout_bytes rh
       @ layout_u32 bh @ layout_optional_flag f2 layout_bytes rc"
| "layout_commitment_flags f1 f2 VeritasCommitmentStateEmpty = be_bytes 4 2"
| "layout_commitment_flags f1 f2 VeritasCommitmentStateUnknown = be_bytes 4 3"
| "layout_commitment_flags f1 f2 VeritasCommitmentStateForeign = []"

fun layout_delegate_flags :: "byte \<Rightarrow> byte \<Rightarrow> VeritasDelegateState \<Rightarrow> byte list" where
  "layout_delegate_flags f1 f2 (VeritasDelegateStateExists sp d od) =
     be_bytes 4 1 @ layout_bytes sp @ layout_optional_flag f1 layout_bytes d
       @ layout_optional_flag f2 layout_offchain od"
| "layout_delegate_flags f1 f2 VeritasDelegateStateEmpty = be_bytes 4 2"
| "layout_delegate_flags f1 f2 VeritasDelegateStateUnknown = be_bytes 4 3"
| "layout_delegate_flags f1 f2 VeritasDelegateStateForeign = []"



text \<open>
  A core for the examples: buffer and handle management succeed, every function with an
  error result writes \<open>reply\<close>, and the contract version and the checksums are
  \<open>version\<close> and \<open>checksums\<close>.
\<close>

definition sample_core ::
  "RustCallStatus \<Rightarrow> 32 word \<Rightarrow> (checksum_function \<Rightarrow> 16 word) \<Rightarrow> core" where
  "sample_core reply version checksums =
     \<lparr>rustbuffer_from_bytes = (\<lambda>b. untouched_status),
      fn_clone = untouched_status,
      fn_free = untouched_status,
      fn_func_verify_schnorr = (\<lambda>msgHash signature pubkey. reply),
      fn_func_verify_spaces_message = (\<lambda>msg signature pubkey. reply),
      fn_method_veritasquerycontext_add_request = (\<lambda>handle. reply),
      fn_method_veritasquerycontext_add_zone = (\<lambda>zoneBytes. reply),
      uniffi_contract_version = version,
      uniffi_checksum = checksums\<rparr>"

definition expected_checksum :: "checksum_function \<Rightarrow> 16 word" where
  "expected_checksum f = (case map_of uniffi_checksums f of Some v \<Rightarrow> v | None \<Rightarrow> 0)"

section \<open>Big-endian integers\<close>

lemma Uint16_PutUint16: "Uint16 (PutUint16 v) = v"
  unfolding Uint16_def PutUint16_def
proof (rule bit_word_eqI)
  fix n :: nat
  assume n: "n < LENGTH(16)"
  consider "n < 8" | "8 \<le> n" by linarith
  then show "bit (ucast ([ucast (drop_bit 8 v), ucast v :: byte] ! 1) OR
          push_bit 8 (ucast ([ucast (drop_bit 8 v), ucast v :: byte] ! 0)) :: 16 word) n = bit v n"
    using n by cases (auto simp: bit_simps)
qed

lemma Uint32_PutUint32: "Uint32 (PutUint32 v) = v"
  unfolding Uint32_def PutUint32_def
proof (rule bit_word_eqI)
  fix n :: nat
  assume n: "n < LENGTH(32)"
  consider "n < 8" | "8 \<le> n" "n < 16" | "16 \<le> n" "n < 24" | "24 \<le> n" by linarith
  then show "bit (ucast ([ucast (drop_bit 24 v), ucast (drop_bit 16 v), ucast (drop_bit 8 v), ucast v :: byte] ! 3) OR
          push_bit 8 (ucast ([ucast (drop_bit 24 v), ucast (drop_bit 16 v), ucast (drop_bit 8 v), ucast v :: byte] ! 2)) OR
          push_bit 16 (ucast ([ucast (drop_bit 24 v), ucast (drop_bit 16 v), ucast (drop_bit 8 v), ucast v :: byte] ! 1)) OR
          push_bit 24 (ucast ([ucast (drop_bit 24 v), ucast (drop_bit 16 v), ucast (drop_bit 8 v), ucast v :: byte] ! 0)) :: 32 word)
          n = bit v n"
    using n by cases (auto simp: bit_simps)
qed


lemma Uint64_PutUint64: "Uint64 (PutUint64 v) = v"
  unfolding Uint64_def PutUint64_def
proof (rule bit_word_eqI)
  fix n :: nat
  assume n: "n < LENGTH(64)"
  consider "n < 8" | "8 \<le> n" "n < 16" | "16 \<le> n" "n < 24" | "24 \<le> n" "n < 32"
    | "32 \<le> n" "n < 40" | "40 \<le> n" "n < 48" | "48 \<le> n" "n < 56" | "56 \<le> n" by linarith
  then show "bit (ucast ([ucast (drop_bit 56 v), ucast (drop_bit 48 v), ucast (drop_bit 40 v), ucast (drop_bit 32 v),
      ucast (drop_bit 24 v), ucast (drop_bit 16 v), ucast (drop_bit 8 v), ucast v :: byte] ! 7) OR
     push_bit 8 (ucast ([ucast (drop_bit 56 v), ucast (drop_bit 48 v), ucast (drop_bit 40 v), ucast (drop_bit 32 v),
      ucast (drop_bit 24 v), ucast (drop_bit 16 v), ucast (drop_bit 8 v), ucast v :: byte] ! 6)) OR
     push_bit 16 (ucast ([ucast (drop_bit 56 v), ucast (drop_bit 48 v), ucast (drop_bit 40 v), ucast (drop_bit 32 v),
      ucast (drop_bit 24 v), ucast (drop_bit 16 v), ucast (drop_bit 8 v), ucast v :: byte] ! 5)) OR
     push_bit 24 (ucast ([ucast (drop_bit 56 v), ucast (drop_bit 48 v), ucast (drop_bit 40 v), ucast (drop_bit 32 v),
      ucast (drop_bit 24 v), ucast (drop_bit 16 v), ucast (drop_bit 8 v), ucast v :: byte] ! 4)) OR
     push_bit 32 (ucast ([ucast (drop_bit 56 v), ucast (drop_bit 48 v), ucast (drop_bit 40 v), ucast (drop_bit 32 v),
      ucast (drop_bit 24 v), ucast (drop_bit 16 v), ucast (drop_bit 8 v), ucast v :: byte] ! 3)) OR
     push_bit 40 (ucast ([ucast (drop_bit 56 v), ucast (drop_bit 48 v), ucast (drop_bit 40 v), ucast (drop_bit 32 v),
      ucast (drop_bit 24 v), ucast (drop_bit 16 v), ucast (drop_bit 8 v), ucast v :: byte] ! 2)) OR
     push_bit 48 (ucast ([ucast (drop_bit 56 v), ucast (drop_bit 48 v), ucast (drop_bit 40 v), ucast (drop_bit 32 v),
      ucast (drop_bit 24 v), ucast (drop_bit 16 v), ucast (drop_bit 8 v), ucast v :: byte] ! 1)) OR
     push_bit 56 (ucast ([ucast (drop_bit 56 v), ucast (drop_bit 48 v), ucast (drop_bit 40 v), ucast (drop_bit 32 v),
      ucast (drop_bit 24 v), ucast (drop_bit 16 v), ucast (drop_bit 8 v), ucast v :: byte] ! 0)) :: 64 word) n = bit v n"
    using n by cases (auto simp: bit_simps)
qed


lemma byte_of_ucast: "(ucast (v::'a::len word) :: byte) = word_of_nat (unat v mod 256)"
  by (simp add: word_unat_eq_iff unsigned_ucast_eq unat_of_nat take_bit_eq_mod)

lemma be_bytes_2:
  "be_bytes 2 n = [word_of_nat (n div 256 mod 256), word_of_nat (n mod 256)]"
proof -
  have two: "(2::nat) = Suc (Suc 0)" by simp
  show ?thesis unfolding two be_bytes.simps by simp
qed

lemma be_bytes_4:
  "be_bytes 4 n =
     [word_of_nat (n div 16777216 mod 256), word_of_nat (n div 65536 mod 256),
      word_of_nat (n div 256 mod 256), word_of_nat (n mod 256)]"
proof -
  have four: "(4::nat) = Suc (Suc (Suc (Suc 0)))" by simp
  show ?thesis unfolding four be_bytes.simps by (simp add: div_mult2_eq [symmetric])
qed

lemma be_bytes_8:
  "be_bytes 8 n =
     [word_of_nat (n div 72057594037927936 mod 256), word_of_nat (n div 281474976710656 mod 256),
      word_of_nat (n div 1099511627776 mod 256), word_of_nat (n div 4294967296 mod 256),
      word_of_nat (n div 16777216 mod 256), word_of_nat (n div 65536 mod 256),
      word_of_nat (n div 256 mod 256), word_of_nat (n mod 256)]"
proof -
  have eight: "(8::nat) = Suc (Suc (Suc (Suc (Suc (Suc (Suc (Suc 0)))))))" by simp
  show ?thesis unfolding eight be_bytes.simps by (simp add: div_mult2_eq [symmetric])
qed

lemma PutUint16_be_bytes: "PutUint16 v = be_bytes 2 (unat v)"
  by (simp add: PutUint16_def byte_of_ucast be_bytes_2 unat_drop_bit_eq
      drop_bit_eq_div [where 'a = nat])

lemma PutUint32_be_bytes: "PutUint32 v = be_bytes 4 (unat v)"
  by (simp add: PutUint32_def byte_of_ucast be_bytes_4 unat_drop_bit_eq
      drop_bit_eq_div [where 'a = nat])

lemma PutUint64_be_bytes: "PutUint64 v = be_bytes 8 (unat v)"
  by (simp add: PutUint64_def byte_of_ucast be_bytes_8 unat_drop_bit_eq
      drop_bit_eq_div [where 'a = nat])

lemma length_be_bytes [simp]: "length (be_bytes k n) = k"
  by (induction k arbitrary: n) simp_all

lemma be_value_append_byte: "be_value (bs @ [b]) = be_value bs * 256 + unat b"
  by (simp add: be_value_def)

lemma be_value_be_bytes: "be_value (be_bytes k n) = n mod 256 ^ k"
proof (induction k arbitrary: n)
  case 0
  then show ?case by (simp add: be_value_def)
next
  case (Suc k)
  have "be_value (be_bytes (Suc k) n) = (n div 256) mod 256 ^ k * 256 + n mod 256"
    by (simp add: be_value_append_byte Suc unat_of_nat)
  also have "\<dots> = n mod 256 ^ Suc k"
    by (simp add: mod_mult2_eq)
  finally show ?case .
qed

section \<open>The converters write and read the layout\<close>

lemma sint_length32: "n \<le> MaxInt32 \<Longrightarrow> sint (word_of_nat n :: 32 word) = int n"
  by (simp add: MaxInt32_def signed_of_nat signed_take_bit_int_eq_self)

lemma unat_length32: "n \<le> MaxInt32 \<Longrightarrow> unat (word_of_nat n :: 32 word) = n"
  by (simp add: MaxInt32_def unat_of_nat)

lemma length_PutUint16 [simp]: "length (PutUint16 v) = 2" by (simp add: PutUint16_def)
lemma length_PutUint32 [simp]: "length (PutUint32 v) = 4" by (simp add: PutUint32_def)
lemma length_PutUint64 [simp]: "length (PutUint64 v) = 8" by (simp add: PutUint64_def)

lemma binary_Read_exact: "length p = n \<Longrightarrow> binary_Read n (p @ r) = Inr (p, r)"
  by (simp add: binary_Read_def)

lemma readInt32_PutUint32: "readInt32 (PutUint32 v @ r) = Inr (v, r)"
  by (simp add: readInt32_def then_read_def returning_def binary_Read_exact Uint32_PutUint32)

lemma readUint32_PutUint32: "readUint32 (PutUint32 v @ r) = Inr (v, r)"
  by (simp add: readUint32_def then_read_def returning_def binary_Read_exact Uint32_PutUint32)

lemma readInt8_Cons: "readInt8 (b # r) = Inr (b, r)"
  by (simp add: readInt8_def then_read_def returning_def binary_Read_def)

lemma be_bytes_length32: "n \<le> MaxInt32 \<Longrightarrow> be_bytes 4 n = PutUint32 (word_of_nat n)"
  by (simp add: PutUint32_be_bytes unat_length32)

lemma be_bytes_tag:
  "be_bytes 4 (Suc 0) = PutUint32 1" "be_bytes 4 2 = PutUint32 2" "be_bytes 4 3 = PutUint32 3"
  by (simp_all add: PutUint32_be_bytes)

lemma read_length_prefixed_exact:
  assumes "length b \<le> MaxInt32"
  shows "read_length_prefixed what (PutUint32 (word_of_nat (length b)) @ b @ r) = Inr (b, r)"
  using assms
  by (simp add: read_length_prefixed_def then_read_def readInt32_PutUint32 sint_length32
      Reader_Read_def panicking_def)

lemma Bytes_Read_layout:
  "valid_bytes b \<Longrightarrow> FfiConverterBytes_Read (layout_bytes b @ r) = Inr (b, r)"
  by (simp add: valid_bytes_def FfiConverterBytes_Read_def layout_bytes_def be_bytes_length32
      read_length_prefixed_exact)

lemma Bytes_Write_layout:
  "valid_bytes b \<Longrightarrow> FfiConverterBytes_Write w b = Inr (w @ layout_bytes b)"
  by (simp add: valid_bytes_def FfiConverterBytes_Write_def layout_bytes_def be_bytes_length32
      writeInt32_def)

lemma length_string_bytes [simp]: "length (string_bytes s) = length s"
  by (simp add: string_bytes_def)

lemma bytes_string_bytes [simp]: "bytes_string (string_bytes s) = s"
  unfolding bytes_string_def string_bytes_def
  by (induction s) (simp_all add: unat_of_nat)

lemma String_Read_layout:
  "valid_string s \<Longrightarrow> FfiConverterString_Read (layout_string s @ r) = Inr (s, r)"
  using read_length_prefixed_exact [of "string_bytes s" "''string''" r]
  by (simp add: valid_string_def FfiConverterString_Read_def layout_string_def be_bytes_length32
      then_read_def returning_def)

lemma String_Write_layout:
  "valid_string s \<Longrightarrow> FfiConverterString_Write w s = Inr (w @ layout_string s)"
  by (simp add: valid_string_def FfiConverterString_Write_def layout_string_def be_bytes_length32
      writeInt32_def)

lemma Uint32_Read_layout: "FfiConverterUint32_Read (layout_u32 v @ r) = Inr (v, r)"
  by (simp add: FfiConverterUint32_Read_def layout_u32_def PutUint32_be_bytes [symmetric]
      readUint32_PutUint32)

lemma Uint32_Write_layout: "FfiConverterUint32_Write w v = Inr (w @ layout_u32 v)"
  by (simp add: FfiConverterUint32_Write_def layout_u32_def PutUint32_be_bytes writeUint32_def)

lemma OptionalBytes_Read_layout:
  "valid_optional valid_bytes v \<Longrightarrow>
   FfiConverterOptionalBytes_Read (layout_optional layout_bytes v @ r) = Inr (v, r)"
  by (cases v)
     (simp_all add: FfiConverterOptionalBytes_Read_def then_read_def readInt8_Cons returning_def
       Bytes_Read_layout)

lemma OptionalBytes_Write_layout:
  "valid_optional valid_bytes v \<Longrightarrow>
   FfiConverterOptionalBytes_Write w v = Inr (w @ layout_optional layout_bytes v)"
  by (cases v) (simp_all add: FfiConverterOptionalBytes_Write_def writeInt8_def Bytes_Write_layout)

lemma OffchainData_Read_layout:
  "valid_offchain d \<Longrightarrow>
   FfiConverterVeritasOffchainData_Read (layout_offchain d @ r) = Inr (d, r)"
  by (simp add: valid_offchain_def FfiConverterVeritasOffchainData_Read_def layout_offchain_def
      then_read_def Uint32_Read_layout Bytes_Read_layout returning_def)

lemma OffchainData_Write_layout:
  "valid_offchain d \<Longrightarrow>
   FfiConverterVeritasOffchainData_Write w d = Inr (w @ layout_offchain d)"
  by (simp add: valid_offchain_def FfiConverterVeritasOffchainData_Write_def layout_offchain_def
      then_write_def Uint32_Write_layout Bytes_Write_layout)

lemma OptionalOffchainData_Read_layout:
  "valid_optional valid_offchain v \<Longrightarrow>
   FfiConverterOptionalVeritasOffchainData_Read (layout_optional layout_offchain v @ r)
     = Inr (v, r)"
  by (cases v)
     (simp_all add: FfiConverterOptionalVeritasOffchainData_Read_def then_read_def readInt8_Cons
       returning_def OffchainData_Read_layout)

lemma OptionalOffchainData_Write_layout:
  "valid_optional valid_offchain v \<Longrightarrow>
   FfiConverterOptionalVeritasOffchainData_Write w v
     = Inr (w @ layout_optional layout_offchain v)"
  by (cases v)
     (simp_all add: FfiConverterOptionalVeritasOffchainData_Write_def writeInt8_def
       OffchainData_Write_layout)

lemma Certificate_Read_layout:
  "valid_certificate c \<Longrightarrow>
   FfiConverterVeritasCertificate_Read (layout_certificate c @ r) = Inr (c, r)"
  by (simp add: valid_certificate_def FfiConverterVeritasCertificate_Read_def
      layout_certificate_def then_read_def String_Read_layout Bytes_Read_layout returning_def)

lemma Certificate_Write_layout:
  "valid_certificate c \<Longrightarrow>
   FfiConverterVeritasCertificate_Write w c = Inr (w @ layout_certificate c)"
  by (simp add: valid_certificate_def FfiConverterVeritasCertificate_Write_def
      layout_certificate_def then_write_def String_Write_layout Bytes_Write_layout)

lemma CommitmentState_Read_layout:
  "valid_commitment x \<Longrightarrow>
   FfiConverterVeritasCommitmentState_Read (layout_commitment x @ r) = Inr (x, r)"
  by (cases x)
     (simp_all add: FfiConverterVeritasCommitmentState_Read_def be_bytes_tag then_read_def
       readInt32_PutUint32 returning_def Bytes_Read_layout OptionalBytes_Read_layout
       Uint32_Read_layout)

lemma CommitmentState_Write_layout:
  "valid_commitment x \<Longrightarrow>
   FfiConverterVeritasCommitmentState_Write w x = Inr (w @ layout_commitment x)"
  by (cases x)
     (simp_all add: be_bytes_tag then_write_def writeInt32_def Bytes_Write_layout
       OptionalBytes_Write_layout Uint32_Write_layout)

lemma DelegateState_Read_layout:
  "valid_delegate x \<Longrightarrow>
   FfiConverterVeritasDelegateState_Read (layout_delegate x @ r) = Inr (x, r)"
  by (cases x)
     (simp_all add: FfiConverterVeritasDelegateState_Read_def be_bytes_tag then_read_def
       readInt32_PutUint32 returning_def Bytes_Read_layout OptionalBytes_Read_layout
       OptionalOffchainData_Read_layout)

lemma DelegateState_Write_layout:
  "valid_delegate x \<Longrightarrow>
   FfiConverterVeritasDelegateState_Write w x = Inr (w @ layout_delegate x)"
  by (cases x)
     (simp_all add: be_bytes_tag then_write_def writeInt32_def Bytes_Write_layout
       OptionalBytes_Write_layout OptionalOffchainData_Write_layout)

lemma String_Write_Inr:
  "FfiConverterString_Write w m = Inr w' \<Longrightarrow> valid_string m \<and> w' = w @ layout_string m"
  by (auto simp: FfiConverterString_Write_def valid_string_def layout_string_def
      be_bytes_length32 writeInt32_def split: if_splits)

lemma Bytes_Write_Inr:
  "FfiConverterBytes_Write w b = Inr w' \<Longrightarrow> valid_bytes b \<and> w' = w @ layout_bytes b"
  by (auto simp: FfiConverterBytes_Write_def valid_bytes_def layout_bytes_def
      be_bytes_length32 writeInt32_def split: if_splits)

lemma OptionalBytes_Write_Inr:
  "FfiConverterOptionalBytes_Write w v = Inr w' \<Longrightarrow> valid_optional valid_bytes v"
  by (cases v) (auto simp: FfiConverterOptionalBytes_Write_def dest: Bytes_Write_Inr)

lemma OffchainData_Write_Inr:
  "FfiConverterVeritasOffchainData_Write w d = Inr w' \<Longrightarrow> valid_offchain d"
  by (auto simp: FfiConverterVeritasOffchainData_Write_def valid_offchain_def then_write_def
      FfiConverterUint32_Write_def dest: Bytes_Write_Inr)

lemma OptionalOffchainData_Write_Inr:
  "FfiConverterOptionalVeritasOffchainData_Write w v = Inr w' \<Longrightarrow>
   valid_optional valid_offchain v"
  by (cases v)
     (auto simp: FfiConverterOptionalVeritasOffchainData_Write_def dest: OffchainData_Write_Inr)

lemma then_write_Inr:
  "then_write m f = Inr w' \<Longrightarrow> \<exists>w1. m = Inr w1 \<and> f w1 = Inr w'"
  by (cases m) (simp_all add: then_write_def)

lemma Certificate_Write_Inr:
  "FfiConverterVeritasCertificate_Write w c = Inr w' \<Longrightarrow> valid_certificate c"
  unfolding FfiConverterVeritasCertificate_Write_def valid_certificate_def
  by (auto dest!: then_write_Inr dest: String_Write_Inr Bytes_Write_Inr)

lemma CommitmentState_Write_Inr:
  "FfiConverterVeritasCommitmentState_Write w x = Inr w' \<Longrightarrow> valid_commitment x"
  by (cases x)
     (auto dest!: then_write_Inr dest: Bytes_Write_Inr OptionalBytes_Write_Inr)

lemma DelegateState_Write_Inr:
  "FfiConverterVeritasDelegateState_Write w x = Inr w' \<Longrightarrow> valid_delegate x"
  by (cases x)
     (auto dest!: then_write_Inr
        dest: Bytes_Write_Inr OptionalBytes_Write_Inr OptionalOffchainData_Write_Inr)

section \<open>Prefix-exact readers\<close>

lemma prefix_exactI:
  assumes "\<And>bs x rest. R bs = Inr (x, rest) \<Longrightarrow>
     \<exists>c. bs = c @ rest \<and> (\<forall>r'. R (c @ r') = Inr (x, r'))
        \<and> (\<forall>n<length c. \<exists>p. R (take n c) = Inl p \<and> is_short_read p)"
  shows "prefix_exact R"
  using assms unfolding prefix_exact_def by blast

lemma prefix_exactD:
  assumes "prefix_exact R" and "R bs = Inr (x, rest)"
  obtains c where "bs = c @ rest" and "\<And>r'. R (c @ r') = Inr (x, r')"
    and "\<And>n. n < length c \<Longrightarrow> \<exists>p. R (take n c) = Inl p \<and> is_short_read p"
  using assms unfolding prefix_exact_def by blast

lemma prefix_exact_returning: "prefix_exact (returning x)"
  by (rule prefix_exactI) (auto simp: returning_def)

lemma prefix_exact_panicking: "prefix_exact (panicking p)"
  by (rule prefix_exactI) (simp add: panicking_def)

lemma prefix_exact_binary_Read: "prefix_exact (binary_Read k)"
proof (rule prefix_exactI)
  fix bs x rest
  assume "binary_Read k bs = Inr (x, rest)"
  then have k: "k \<le> length bs" and x: "x = take k bs" and rest: "rest = drop k bs"
    by (auto simp: binary_Read_def split: if_splits)
  have "bs = x @ rest" by (simp add: x rest)
  moreover have "\<forall>r'. binary_Read k (x @ r') = Inr (x, r')"
    using k by (simp add: binary_Read_def x)
  moreover have "\<forall>n<length x. \<exists>p. binary_Read k (take n x) = Inl p \<and> is_short_read p"
    using k by (auto simp: binary_Read_def x)
  ultimately show "\<exists>c. bs = c @ rest \<and> (\<forall>r'. binary_Read k (c @ r') = Inr (x, r'))
        \<and> (\<forall>n<length c. \<exists>p. binary_Read k (take n c) = Inl p \<and> is_short_read p)"
    by blast
qed

lemma prefix_exact_then_read:
  assumes m: "prefix_exact m" and f: "\<And>x. prefix_exact (f x)"
  shows "prefix_exact (then_read m f)"
proof (rule prefix_exactI)
  fix bs y rest
  assume "then_read m f bs = Inr (y, rest)"
  then obtain x r1 where mx: "m bs = Inr (x, r1)" and fy: "f x r1 = Inr (y, rest)"
    by (auto simp: then_read_def split: sum.splits)
  from prefix_exactD [OF m mx] obtain c1 where
    c1: "bs = c1 @ r1" "\<And>r'. m (c1 @ r') = Inr (x, r')"
      "\<And>n. n < length c1 \<Longrightarrow> \<exists>p. m (take n c1) = Inl p \<and> is_short_read p"
    by metis
  from prefix_exactD [OF f fy] obtain c2 where
    c2: "r1 = c2 @ rest" "\<And>r'. f x (c2 @ r') = Inr (y, r')"
      "\<And>n. n < length c2 \<Longrightarrow> \<exists>p. f x (take n c2) = Inl p \<and> is_short_read p"
    by metis
  have "bs = (c1 @ c2) @ rest" by (simp add: c1(1) c2(1))
  moreover have "\<forall>r'. then_read m f ((c1 @ c2) @ r') = Inr (y, r')"
    by (simp add: then_read_def c1(2) c2(2))
  moreover have "\<forall>n<length (c1 @ c2). \<exists>p. then_read m f (take n (c1 @ c2)) = Inl p \<and> is_short_read p"
  proof (intro allI impI)
    fix n assume n: "n < length (c1 @ c2)"
    show "\<exists>p. then_read m f (take n (c1 @ c2)) = Inl p \<and> is_short_read p"
    proof (cases "n < length c1")
      case True
      then obtain p where "m (take n c1) = Inl p" "is_short_read p" using c1(3) by blast
      with True show ?thesis by (simp add: then_read_def)
    next
      case False
      then have t: "take n (c1 @ c2) = c1 @ take (n - length c1) c2" by simp
      from False n have "n - length c1 < length c2" by simp
      then obtain p where "f x (take (n - length c1) c2) = Inl p" "is_short_read p"
        using c2(3) by blast
      then show ?thesis unfolding t by (simp add: then_read_def c1(2))
    qed
  qed
  ultimately show "\<exists>c. bs = c @ rest \<and> (\<forall>r'. then_read m f (c @ r') = Inr (y, r'))
        \<and> (\<forall>n<length c. \<exists>p. then_read m f (take n c) = Inl p \<and> is_short_read p)"
    by blast
qed

lemma prefix_exact_if:
  "prefix_exact A \<Longrightarrow> prefix_exact B \<Longrightarrow> prefix_exact (if b then A else B)"
  by simp

lemma prefix_exact_fill:
  "prefix_exact (\<lambda>r. case Reader_Read k r of
      ((buffer, read_length), r') \<Rightarrow>
        if int read_length \<noteq> int k then Inl (PanicBadReadLength what (int k) read_length)
        else Inr (buffer, r'))"
  (is "prefix_exact ?R")
proof (rule prefix_exactI)
  fix bs x rest
  assume a: "?R bs = Inr (x, rest)"
  then have k: "k \<le> length bs" and x: "x = take k bs" and rest: "rest = drop k bs"
    by (auto simp: Reader_Read_def split: if_splits)
  have "bs = x @ rest" by (simp add: x rest)
  moreover have "\<forall>r'. ?R (x @ r') = Inr (x, r')"
    using k by (simp add: Reader_Read_def x)
  moreover have "\<forall>n<length x. \<exists>p. ?R (take n x) = Inl p \<and> is_short_read p"
    using k by (auto simp: Reader_Read_def x)
  ultimately show "\<exists>c. bs = c @ rest \<and> (\<forall>r'. ?R (c @ r') = Inr (x, r'))
        \<and> (\<forall>n<length c. \<exists>p. ?R (take n c) = Inl p \<and> is_short_read p)"
    by blast
qed

lemma prefix_exact_readInt8: "prefix_exact readInt8"
  unfolding readInt8_def
  by (intro prefix_exact_then_read prefix_exact_binary_Read prefix_exact_returning)

lemma prefix_exact_readInt32: "prefix_exact readInt32"
  unfolding readInt32_def
  by (intro prefix_exact_then_read prefix_exact_binary_Read prefix_exact_returning)

lemma prefix_exact_readUint32: "prefix_exact readUint32"
  unfolding readUint32_def
  by (intro prefix_exact_then_read prefix_exact_binary_Read prefix_exact_returning)

lemma prefix_exact_read_length_prefixed: "prefix_exact (read_length_prefixed what)"
  unfolding read_length_prefixed_def
proof (rule prefix_exact_then_read [OF prefix_exact_readInt32])
  fix len :: "32 word"
  show "prefix_exact
          (if sint len < 0 then panicking PanicMakeSliceLen
           else (\<lambda>r. case Reader_Read (nat (sint len)) r of
                  ((buffer, read_length), r') \<Rightarrow>
                    if int read_length \<noteq> sint len
                    then Inl (PanicBadReadLength what (sint len) read_length)
                    else Inr (buffer, r')))"
  proof (cases "sint len < 0")
    case True
    then show ?thesis by (simp add: prefix_exact_panicking)
  next
    case False
    then have eq: "int (nat (sint len)) = sint len" by simp
    have "prefix_exact
            (\<lambda>r. case Reader_Read (nat (sint len)) r of
                  ((buffer, read_length), r') \<Rightarrow>
                    if int read_length \<noteq> sint len
                    then Inl (PanicBadReadLength what (sint len) read_length)
                    else Inr (buffer, r'))"
      using prefix_exact_fill [of "nat (sint len)" what] unfolding eq .
    with False show ?thesis by simp
  qed
qed

lemma prefix_exact_Bytes: "prefix_exact FfiConverterBytes_Read"
  by (simp add: FfiConverterBytes_Read_def prefix_exact_read_length_prefixed)

lemma prefix_exact_String: "prefix_exact FfiConverterString_Read"
  unfolding FfiConverterString_Read_def
  by (intro prefix_exact_then_read prefix_exact_read_length_prefixed prefix_exact_returning)

lemma prefix_exact_Uint32: "prefix_exact FfiConverterUint32_Read"
  by (simp add: FfiConverterUint32_Read_def prefix_exact_readUint32)

lemma prefix_exact_OptionalBytes: "prefix_exact FfiConverterOptionalBytes_Read"
  unfolding FfiConverterOptionalBytes_Read_def
  by (intro prefix_exact_then_read prefix_exact_if prefix_exact_readInt8 prefix_exact_Bytes
      prefix_exact_returning)

lemma prefix_exact_OffchainData: "prefix_exact FfiConverterVeritasOffchainData_Read"
  unfolding FfiConverterVeritasOffchainData_Read_def
  by (intro prefix_exact_then_read prefix_exact_Uint32 prefix_exact_Bytes prefix_exact_returning)

lemma prefix_exact_OptionalOffchainData:
  "prefix_exact FfiConverterOptionalVeritasOffchainData_Read"
  unfolding FfiConverterOptionalVeritasOffchainData_Read_def
  by (intro prefix_exact_then_read prefix_exact_if prefix_exact_readInt8
      prefix_exact_OffchainData prefix_exact_returning)

lemma prefix_exact_Certificate: "prefix_exact FfiConverterVeritasCertificate_Read"
  unfolding FfiConverterVeritasCertificate_Read_def
  by (intro prefix_exact_then_read prefix_exact_String prefix_exact_Bytes prefix_exact_returning)

lemma prefix_exact_CommitmentState: "prefix_exact FfiConverterVeritasCommitmentState_Read"
  unfolding FfiConverterVeritasCommitmentState_Read_def
  by (intro prefix_exact_then_read prefix_exact_if prefix_exact_readInt32 prefix_exact_Bytes
      prefix_exact_OptionalBytes prefix_exact_Uint32 prefix_exact_returning
      prefix_exact_panicking)

lemma prefix_exact_DelegateState: "prefix_exact FfiConverterVeritasDelegateState_Read"
  unfolding FfiConverterVeritasDelegateState_Read_def
  by (intro prefix_exact_then_read prefix_exact_if prefix_exact_readInt32 prefix_exact_Bytes
      prefix_exact_OptionalBytes prefix_exact_OptionalOffchainData prefix_exact_returning
      prefix_exact_panicking)

lemma prefix_exact_VeritasError: "prefix_exact FfiConverterVeritasError_Read"
  unfolding FfiConverterVeritasError_Read_def
  by (intro prefix_exact_then_read prefix_exact_if prefix_exact_readUint32 prefix_exact_String
      prefix_exact_returning prefix_exact_panicking)

lemma Lift_truncated:
  assumes R: "prefix_exact R" and ok: "LiftFromRustBuffer R enc = Inr x" and n: "n < length enc"
  shows "\<exists>p. LiftFromRustBuffer R (take n enc) = Inl p \<and> is_short_read p"
proof -
  from ok have r: "R enc = Inr (x, [])"
    by (auto simp: LiftFromRustBuffer_def split: sum.splits if_splits)
  from prefix_exactD [OF R r] obtain c where
    c: "enc = c @ []" "\<And>n. n < length c \<Longrightarrow> \<exists>p. R (take n c) = Inl p \<and> is_short_read p"
    by metis
  from c n obtain p where "R (take n enc) = Inl p" "is_short_read p" by auto
  then show ?thesis by (simp add: LiftFromRustBuffer_def)
qed

section \<open>What a successful read of an integer consumed\<close>

lemma PutUint32_Uint32: "PutUint32 (Uint32 [a, b, c, d]) = [a, b, c, d]"
proof -
  have a: "ucast (drop_bit 24 (Uint32 [a, b, c, d])) = a"
    unfolding Uint32_def by (rule bit_word_eqI) (auto simp: bit_simps dest: bit_imp_le_length)
  have b: "ucast (drop_bit 16 (Uint32 [a, b, c, d])) = b"
    unfolding Uint32_def by (rule bit_word_eqI) (auto simp: bit_simps dest: bit_imp_le_length)
  have c: "ucast (drop_bit 8 (Uint32 [a, b, c, d])) = c"
    unfolding Uint32_def by (rule bit_word_eqI) (auto simp: bit_simps dest: bit_imp_le_length)
  have d: "ucast (Uint32 [a, b, c, d]) = d"
    unfolding Uint32_def by (rule bit_word_eqI) (auto simp: bit_simps dest: bit_imp_le_length)
  show ?thesis by (simp add: PutUint32_def a b c d)
qed

lemma readUint32_Inr:
  assumes "readUint32 r = Inr (v, r')"
  shows "r = PutUint32 v @ r'"
proof -
  from assms have len: "4 \<le> length r" and v: "v = Uint32 (take 4 r)" and r': "r' = drop 4 r"
    by (auto simp: readUint32_def then_read_def returning_def binary_Read_def
        split: if_splits)
  from len obtain a b c d rest where r: "r = a # b # c # d # rest"
    by (cases r; simp; rename_tac x xs; case_tac xs; simp;
        rename_tac y ys; case_tac ys; simp; rename_tac z zs; case_tac zs; simp)
  show ?thesis by (simp add: v r' r PutUint32_Uint32)
qed

lemma PutUint32_tags:
  "PutUint32 1 = [0, 0, 0, 1]" "PutUint32 2 = [0, 0, 0, 2]" "PutUint32 3 = [0, 0, 0, 3]"
  by (simp_all add: PutUint32_def)

section \<open>Length prefixes and byte order\<close>

lemma be_value_length32: "n \<le> MaxInt32 \<Longrightarrow> be_value (be_bytes 4 n) = n"
  by (simp add: be_value_be_bytes MaxInt32_def)

lemma be_value_unat16: "be_value (be_bytes 2 (unat (v :: 16 word))) = unat v"
  using unsigned_less [of v, where 'a = nat] by (simp add: be_value_be_bytes)

lemma be_value_unat32: "be_value (be_bytes 4 (unat (v :: 32 word))) = unat v"
  using unsigned_less [of v, where 'a = nat] by (simp add: be_value_be_bytes)

lemma be_value_unat64: "be_value (be_bytes 8 (unat (v :: 64 word))) = unat v"
  using unsigned_less [of v, where 'a = nat] by (simp add: be_value_be_bytes)

lemma read16: "readInt16 (be_bytes 2 (unat v) @ r) = Inr (v, r)"
  "readUint16 (be_bytes 2 (unat v) @ r) = Inr (v, r)"
  by (simp_all add: PutUint16_be_bytes [symmetric] readInt16_def readUint16_def then_read_def
      returning_def binary_Read_exact Uint16_PutUint16)

lemma read32: "readInt32 (be_bytes 4 (unat v) @ r) = Inr (v, r)"
  "readUint32 (be_bytes 4 (unat v) @ r) = Inr (v, r)"
  by (simp_all add: PutUint32_be_bytes [symmetric] readInt32_PutUint32 readUint32_PutUint32)

lemma read64: "readInt64 (be_bytes 8 (unat v) @ r) = Inr (v, r)"
  "readUint64 (be_bytes 8 (unat v) @ r) = Inr (v, r)"
  by (simp_all add: PutUint64_be_bytes [symmetric] readInt64_def readUint64_def then_read_def
      returning_def binary_Read_exact Uint64_PutUint64)

lemma Bytes_Write_too_large:
  "MaxInt32 < length b \<Longrightarrow> FfiConverterBytes_Write w b = Inl (PanicTooLarge ''[]byte'')"
  by (simp add: FfiConverterBytes_Write_def)

lemma String_Write_too_large:
  "MaxInt32 < length s \<Longrightarrow> FfiConverterString_Write w s = Inl (PanicTooLarge ''String'')"
  by (simp add: FfiConverterString_Write_def)

text \<open>
  Claim C6. A string or byte string of at most \<^verbatim>\<open>MaxInt32\<close> bytes is written as four
  bytes that hold its length, most significant byte first, followed by exactly its bytes,
  and is read back from that layout (a longer one has no encoding: \<^verbatim>\<open>Write\<close> panics,
  \<open>Bytes_Write_too_large\<close> and \<open>String_Write_too_large\<close>). Every 16-, 32- and 64-bit
  integer helper, signed or unsigned, writes \<open>be_bytes\<close> of the bit pattern and reads it
  back, so one byte order, big-endian, is used throughout. The float helpers are used by no
  converter of the file.
\<close>
theorem length_prefix_big_endian:
  "(length b \<le> MaxInt32 \<longrightarrow>
      FfiConverterBytes_Write w b = Inr (w @ be_bytes 4 (length b) @ b)
      \<and> FfiConverterBytes_Read (be_bytes 4 (length b) @ b @ r) = Inr (b, r)
      \<and> length (be_bytes 4 (length b)) = 4
      \<and> be_value (be_bytes 4 (length b)) = length b)
   \<and> (length s \<le> MaxInt32 \<longrightarrow>
      FfiConverterString_Write w s = Inr (w @ be_bytes 4 (length s) @ string_bytes s)
      \<and> FfiConverterString_Read (be_bytes 4 (length s) @ string_bytes s @ r) = Inr (s, r)
      \<and> length (string_bytes s) = length s
      \<and> length (be_bytes 4 (length s)) = 4
      \<and> be_value (be_bytes 4 (length s)) = length s)
   \<and> (writeInt16 w v16 = w @ be_bytes 2 (unat v16)
      \<and> writeUint16 w v16 = w @ be_bytes 2 (unat v16)
      \<and> readInt16 (be_bytes 2 (unat v16) @ r) = Inr (v16, r)
      \<and> readUint16 (be_bytes 2 (unat v16) @ r) = Inr (v16, r)
      \<and> be_value (be_bytes 2 (unat v16)) = unat v16)
   \<and> (writeInt32 w v32 = w @ be_bytes 4 (unat v32)
      \<and> writeUint32 w v32 = w @ be_bytes 4 (unat v32)
      \<and> readInt32 (be_bytes 4 (unat v32) @ r) = Inr (v32, r)
      \<and> readUint32 (be_bytes 4 (unat v32) @ r) = Inr (v32, r)
      \<and> be_value (be_bytes 4 (unat v32)) = unat v32)
   \<and> (writeInt64 w v64 = w @ be_bytes 8 (unat v64)
      \<and> writeUint64 w v64 = w @ be_bytes 8 (unat v64)
      \<and> readInt64 (be_bytes 8 (unat v64) @ r) = Inr (v64, r)
      \<and> readUint64 (be_bytes 8 (unat v64) @ r) = Inr (v64, r)
      \<and> be_value (be_bytes 8 (unat v64)) = unat v64)"
proof (intro conjI impI)
  assume b: "length b \<le> MaxInt32"
  then have vb: "valid_bytes b" by (simp add: valid_bytes_def)
  show "FfiConverterBytes_Write w b = Inr (w @ be_bytes 4 (length b) @ b)"
    using Bytes_Write_layout [OF vb] by (simp add: layout_bytes_def)
  show "FfiConverterBytes_Read (be_bytes 4 (length b) @ b @ r) = Inr (b, r)"
    using Bytes_Read_layout [OF vb] by (simp add: layout_bytes_def)
  show "be_value (be_bytes 4 (length b)) = length b" by (rule be_value_length32 [OF b])
next
  assume s: "length s \<le> MaxInt32"
  then have vs: "valid_string s" by (simp add: valid_string_def)
  show "FfiConverterString_Write w s = Inr (w @ be_bytes 4 (length s) @ string_bytes s)"
    using String_Write_layout [OF vs] by (simp add: layout_string_def)
  show "FfiConverterString_Read (be_bytes 4 (length s) @ string_bytes s @ r) = Inr (s, r)"
    using String_Read_layout [OF vs] by (simp add: layout_string_def)
  show "be_value (be_bytes 4 (length s)) = length s" by (rule be_value_length32 [OF s])
qed (simp_all add: writeInt16_def writeUint16_def writeInt32_def writeUint32_def writeInt64_def
      writeUint64_def PutUint16_be_bytes PutUint32_be_bytes PutUint64_be_bytes read16 read32
      read64 be_value_unat16 be_value_unat32 be_value_unat64)

text \<open>An instance of C6 on small values, with the bytes written out.\<close>

theorem length_prefix_big_endian_witness:
  "length [7, 8, 9 :: byte] \<le> MaxInt32
   \<and> FfiConverterBytes_Write [] [7, 8, 9] = Inr [0, 0, 0, 3, 7, 8, 9]
   \<and> FfiConverterBytes_Read [0, 0, 0, 3, 7, 8, 9, 255] = Inr ([7, 8, 9], [255])
   \<and> length ''hi'' \<le> MaxInt32
   \<and> FfiConverterString_Write [] ''hi'' = Inr [0, 0, 0, 2, 104, 105]
   \<and> FfiConverterString_Read [0, 0, 0, 2, 104, 105, 255] = Inr (''hi'', [255])
   \<and> writeUint32 [] 16909060 = [1, 2, 3, 4]
   \<and> readUint32 [1, 2, 3, 4, 255] = Inr (16909060, [255])
   \<and> writeUint16 [] 258 = [1, 2]
   \<and> writeUint64 [] 72623859790382856 = [1, 2, 3, 4, 5, 6, 7, 8]"
  using length_prefix_big_endian [of "[7, 8, 9]" "[]" "[255]" "''hi''" 258 16909060
      72623859790382856]
  by (simp add: MaxInt32_def be_bytes_2 be_bytes_4 be_bytes_8 string_bytes_def)

section \<open>Tagged variants on the wire, and the round trip\<close>

lemma Lift_layout:
  assumes "\<And>r. R (enc @ r) = Inr (x, r)"
  shows "LiftFromRustBuffer R enc = Inr x"
  using assms [of "[]"] by (simp add: LiftFromRustBuffer_def)

lemma be_bytes_4_tags:
  "be_bytes 4 (Suc 0) = [0, 0, 0, 1]" "be_bytes 4 2 = [0, 0, 0, 2]" "be_bytes 4 3 = [0, 0, 0, 3]"
  using be_bytes_4 [of "Suc 0"] by (simp_all add: be_bytes_4)

text \<open>
  Claim C5. Writing a \<^verbatim>\<open>CommitmentState\<close> or a \<^verbatim>\<open>DelegateState\<close> appends its layout: the
  discriminant in four bytes (1 for \<^verbatim>\<open>Exists\<close>, 2 for \<^verbatim>\<open>Empty\<close>, 3 for \<^verbatim>\<open>Unknown\<close>), then
  the fields of the variant, an optional field as the flag byte 0, or the flag byte 1 and
  the payload. Reading that layout gives the value back and leaves the bytes after it.
\<close>
theorem tagged_variant_wire_layout:
  "(valid_commitment cs \<longrightarrow>
      FfiConverterVeritasCommitmentState_Write w cs = Inr (w @ layout_commitment cs)
      \<and> FfiConverterVeritasCommitmentState_Read (layout_commitment cs @ r) = Inr (cs, r))
   \<and> (valid_delegate ds \<longrightarrow>
      FfiConverterVeritasDelegateState_Write w ds = Inr (w @ layout_delegate ds)
      \<and> FfiConverterVeritasDelegateState_Read (layout_delegate ds @ r) = Inr (ds, r))
   \<and> (valid_optional valid_bytes ob \<longrightarrow>
      FfiConverterOptionalBytes_Write w ob = Inr (w @ layout_optional layout_bytes ob)
      \<and> FfiConverterOptionalBytes_Read (layout_optional layout_bytes ob @ r) = Inr (ob, r))
   \<and> (valid_optional valid_offchain oo \<longrightarrow>
      FfiConverterOptionalVeritasOffchainData_Write w oo
        = Inr (w @ layout_optional layout_offchain oo)
      \<and> FfiConverterOptionalVeritasOffchainData_Read (layout_optional layout_offchain oo @ r)
        = Inr (oo, r))
   \<and> be_bytes 4 1 = [0, 0, 0, 1] \<and> be_bytes 4 2 = [0, 0, 0, 2] \<and> be_bytes 4 3 = [0, 0, 0, 3]"
  by (simp add: CommitmentState_Write_layout CommitmentState_Read_layout
      DelegateState_Write_layout DelegateState_Read_layout OptionalBytes_Write_layout
      OptionalBytes_Read_layout OptionalOffchainData_Write_layout
      OptionalOffchainData_Read_layout be_bytes_4_tags)

text \<open>An instance of C5: one \<^verbatim>\<open>Exists\<close> value of each variant type, byte by byte.\<close>

theorem tagged_variant_wire_layout_witness:
  "valid_commitment (VeritasCommitmentStateExists [170] None [187] 7 (Some [204]))
   \<and> FfiConverterVeritasCommitmentState_Write []
        (VeritasCommitmentStateExists [170] None [187] 7 (Some [204]))
      = Inr [0, 0, 0, 1,  0, 0, 0, 1, 170,  0,  0, 0, 0, 1, 187,  0, 0, 0, 7,  1, 0, 0, 0, 1, 204]
   \<and> FfiConverterVeritasCommitmentState_Read
        [0, 0, 0, 1,  0, 0, 0, 1, 170,  0,  0, 0, 0, 1, 187,  0, 0, 0, 7,  1, 0, 0, 0, 1, 204]
      = Inr (VeritasCommitmentStateExists [170] None [187] 7 (Some [204]), [])
   \<and> valid_delegate
        (VeritasDelegateStateExists [81] (Some []) (Some \<lparr>Seq = 5, Data = [1, 2]\<rparr>))
   \<and> FfiConverterVeritasDelegateState_Write []
        (VeritasDelegateStateExists [81] (Some []) (Some \<lparr>Seq = 5, Data = [1, 2]\<rparr>))
      = Inr [0, 0, 0, 1,  0, 0, 0, 1, 81,  1, 0, 0, 0, 0,  1, 0, 0, 0, 5, 0, 0, 0, 2, 1, 2]
   \<and> FfiConverterVeritasDelegateState_Read
        [0, 0, 0, 1,  0, 0, 0, 1, 81,  1, 0, 0, 0, 0,  1, 0, 0, 0, 5, 0, 0, 0, 2, 1, 2]
      = Inr (VeritasDelegateStateExists [81] (Some []) (Some \<lparr>Seq = 5, Data = [1, 2]\<rparr>), [])"
  using tagged_variant_wire_layout
    [of "VeritasCommitmentStateExists [170] None [187] 7 (Some [204])" "[]" "[]"
        "VeritasDelegateStateExists [81] (Some []) (Some \<lparr>Seq = 5, Data = [1, 2]\<rparr>)"]
  by (simp add: valid_bytes_def valid_offchain_def MaxInt32_def layout_bytes_def layout_u32_def
      layout_offchain_def be_bytes_4)

text \<open>
  Claim C1. For every valid value of \<^verbatim>\<open>CommitmentState\<close>, \<^verbatim>\<open>DelegateState\<close>,
  \<^verbatim>\<open>Certificate\<close> and \<^verbatim>\<open>OffchainData\<close>, \<^verbatim>\<open>Write\<close> succeeds, \<^verbatim>\<open>Read\<close> of what it appended
  returns the same value and leaves the bytes that follow, and \<^verbatim>\<open>Lift\<close> of exactly those
  bytes returns the value. The valid values are all there are to write: \<^verbatim>\<open>Write\<close> panics
  on every other one. Values are compared by their contents (a byte slice by its bytes, a
  pointer by what it points to).
\<close>
theorem wire_round_trip:
  "(valid_commitment cs \<longrightarrow>
      (\<exists>enc. FfiConverterVeritasCommitmentState_Write w cs = Inr (w @ enc)
         \<and> FfiConverterVeritasCommitmentState_Read (enc @ r) = Inr (cs, r)
         \<and> FfiConverterVeritasCommitmentState_Lift enc = Inr cs))
   \<and> (valid_delegate ds \<longrightarrow>
      (\<exists>enc. FfiConverterVeritasDelegateState_Write w ds = Inr (w @ enc)
         \<and> FfiConverterVeritasDelegateState_Read (enc @ r) = Inr (ds, r)
         \<and> FfiConverterVeritasDelegateState_Lift enc = Inr ds))
   \<and> (valid_certificate ce \<longrightarrow>
      (\<exists>enc. FfiConverterVeritasCertificate_Write w ce = Inr (w @ enc)
         \<and> FfiConverterVeritasCertificate_Read (enc @ r) = Inr (ce, r)
         \<and> FfiConverterVeritasCertificate_Lift enc = Inr ce))
   \<and> (valid_offchain od \<longrightarrow>
      (\<exists>enc. FfiConverterVeritasOffchainData_Write w od = Inr (w @ enc)
         \<and> FfiConverterVeritasOffchainData_Read (enc @ r) = Inr (od, r)
         \<and> FfiConverterVeritasOffchainData_Lift enc = Inr od))
   \<and> (FfiConverterVeritasCommitmentState_Write w cs = Inr w1 \<longrightarrow> valid_commitment cs)
   \<and> (FfiConverterVeritasDelegateState_Write w ds = Inr w2 \<longrightarrow> valid_delegate ds)
   \<and> (FfiConverterVeritasCertificate_Write w ce = Inr w3 \<longrightarrow> valid_certificate ce)
   \<and> (FfiConverterVeritasOffchainData_Write w od = Inr w4 \<longrightarrow> valid_offchain od)"
proof (intro conjI impI)
  assume v: "valid_commitment cs"
  show "\<exists>enc. FfiConverterVeritasCommitmentState_Write w cs = Inr (w @ enc)
         \<and> FfiConverterVeritasCommitmentState_Read (enc @ r) = Inr (cs, r)
         \<and> FfiConverterVeritasCommitmentState_Lift enc = Inr cs"
    using CommitmentState_Write_layout [OF v] CommitmentState_Read_layout [OF v]
    by (intro exI [of _ "layout_commitment cs"])
       (simp add: FfiConverterVeritasCommitmentState_Lift_def Lift_layout)
next
  assume v: "valid_delegate ds"
  show "\<exists>enc. FfiConverterVeritasDelegateState_Write w ds = Inr (w @ enc)
         \<and> FfiConverterVeritasDelegateState_Read (enc @ r) = Inr (ds, r)
         \<and> FfiConverterVeritasDelegateState_Lift enc = Inr ds"
    using DelegateState_Write_layout [OF v] DelegateState_Read_layout [OF v]
    by (intro exI [of _ "layout_delegate ds"])
       (simp add: FfiConverterVeritasDelegateState_Lift_def Lift_layout)
next
  assume v: "valid_certificate ce"
  show "\<exists>enc. FfiConverterVeritasCertificate_Write w ce = Inr (w @ enc)
         \<and> FfiConverterVeritasCertificate_Read (enc @ r) = Inr (ce, r)
         \<and> FfiConverterVeritasCertificate_Lift enc = Inr ce"
    using Certificate_Write_layout [OF v] Certificate_Read_layout [OF v]
    by (intro exI [of _ "layout_certificate ce"])
       (simp add: FfiConverterVeritasCertificate_Lift_def Lift_layout)
next
  assume v: "valid_offchain od"
  show "\<exists>enc. FfiConverterVeritasOffchainData_Write w od = Inr (w @ enc)
         \<and> FfiConverterVeritasOffchainData_Read (enc @ r) = Inr (od, r)
         \<and> FfiConverterVeritasOffchainData_Lift enc = Inr od"
    using OffchainData_Write_layout [OF v] OffchainData_Read_layout [OF v]
    by (intro exI [of _ "layout_offchain od"])
       (simp add: FfiConverterVeritasOffchainData_Lift_def Lift_layout)
next
  assume "FfiConverterVeritasCommitmentState_Write w cs = Inr w1"
  then show "valid_commitment cs" by (rule CommitmentState_Write_Inr)
next
  assume "FfiConverterVeritasDelegateState_Write w ds = Inr w2"
  then show "valid_delegate ds" by (rule DelegateState_Write_Inr)
next
  assume "FfiConverterVeritasCertificate_Write w ce = Inr w3"
  then show "valid_certificate ce" by (rule Certificate_Write_Inr)
next
  assume "FfiConverterVeritasOffchainData_Write w od = Inr w4"
  then show "valid_offchain od" by (rule OffchainData_Write_Inr)
qed

text \<open>An instance of C1 for one value of each entity.\<close>

theorem wire_round_trip_witness:
  "valid_commitment (VeritasCommitmentStateExists [1, 2] (Some [3]) [4] 9 None)
   \<and> (\<exists>enc. FfiConverterVeritasCommitmentState_Write []
               (VeritasCommitmentStateExists [1, 2] (Some [3]) [4] 9 None) = Inr enc
         \<and> FfiConverterVeritasCommitmentState_Lift enc
             = Inr (VeritasCommitmentStateExists [1, 2] (Some [3]) [4] 9 None))
   \<and> valid_delegate VeritasDelegateStateUnknown
   \<and> (\<exists>enc. FfiConverterVeritasDelegateState_Write [] VeritasDelegateStateUnknown = Inr enc
         \<and> FfiConverterVeritasDelegateState_Lift enc = Inr VeritasDelegateStateUnknown)
   \<and> valid_certificate \<lparr>Subject = ''alice@bitcoin'', CertType = ''leaf'', Bytes = [1, 2, 3]\<rparr>
   \<and> (\<exists>enc. FfiConverterVeritasCertificate_Write []
               \<lparr>Subject = ''alice@bitcoin'', CertType = ''leaf'', Bytes = [1, 2, 3]\<rparr> = Inr enc
         \<and> FfiConverterVeritasCertificate_Lift enc
             = Inr \<lparr>Subject = ''alice@bitcoin'', CertType = ''leaf'', Bytes = [1, 2, 3]\<rparr>)
   \<and> valid_offchain \<lparr>Seq = 3, Data = [7]\<rparr>
   \<and> (\<exists>enc. FfiConverterVeritasOffchainData_Write [] \<lparr>Seq = 3, Data = [7]\<rparr> = Inr enc
         \<and> FfiConverterVeritasOffchainData_Lift enc = Inr \<lparr>Seq = 3, Data = [7]\<rparr>)"
proof -
  have v1: "valid_commitment (VeritasCommitmentStateExists [1, 2] (Some [3]) [4] 9 None)"
    by (simp add: valid_bytes_def MaxInt32_def)
  have v2: "valid_delegate VeritasDelegateStateUnknown" by simp
  have v3: "valid_certificate
              \<lparr>Subject = ''alice@bitcoin'', CertType = ''leaf'', Bytes = [1, 2, 3]\<rparr>"
    by (simp add: valid_certificate_def valid_string_def valid_bytes_def MaxInt32_def)
  have v4: "valid_offchain \<lparr>Seq = 3, Data = [7]\<rparr>"
    by (simp add: valid_offchain_def valid_bytes_def MaxInt32_def)
  note rt = wire_round_trip
    [where cs = "VeritasCommitmentStateExists [1, 2] (Some [3]) [4] 9 None" and w = "[]"
       and r = "[]" and ds = VeritasDelegateStateUnknown
       and ce = "\<lparr>Subject = ''alice@bitcoin'', CertType = ''leaf'', Bytes = [1, 2, 3]\<rparr>"
       and od = "\<lparr>Seq = 3, Data = [7]\<rparr>"
       and ?w1.0 = "[]" and ?w2.0 = "[]" and ?w3.0 = "[]" and ?w4.0 = "[]"]
  from rt v1 have r1: "\<exists>enc. FfiConverterVeritasCommitmentState_Write []
               (VeritasCommitmentStateExists [1, 2] (Some [3]) [4] 9 None) = Inr enc
         \<and> FfiConverterVeritasCommitmentState_Lift enc
             = Inr (VeritasCommitmentStateExists [1, 2] (Some [3]) [4] 9 None)"
    by (simp only: append_Nil) blast
  from rt v2 have r2: "\<exists>enc. FfiConverterVeritasDelegateState_Write []
               VeritasDelegateStateUnknown = Inr enc
         \<and> FfiConverterVeritasDelegateState_Lift enc = Inr VeritasDelegateStateUnknown"
    by (simp only: append_Nil) blast
  from rt v3 have r3: "\<exists>enc. FfiConverterVeritasCertificate_Write []
               \<lparr>Subject = ''alice@bitcoin'', CertType = ''leaf'', Bytes = [1, 2, 3]\<rparr> = Inr enc
         \<and> FfiConverterVeritasCertificate_Lift enc
             = Inr \<lparr>Subject = ''alice@bitcoin'', CertType = ''leaf'', Bytes = [1, 2, 3]\<rparr>"
    by (simp only: append_Nil) blast
  from rt v4 have r4: "\<exists>enc. FfiConverterVeritasOffchainData_Write []
               \<lparr>Seq = 3, Data = [7]\<rparr> = Inr enc
         \<and> FfiConverterVeritasOffchainData_Lift enc = Inr \<lparr>Seq = 3, Data = [7]\<rparr>"
    by (simp only: append_Nil) blast
  from v1 v2 v3 v4 r1 r2 r3 r4 show ?thesis by (intro conjI)
qed

section \<open>What a successful read consumed\<close>

lemma then_read_Inr:
  "then_read m f r = Inr (y, r') \<Longrightarrow> \<exists>x r1. m r = Inr (x, r1) \<and> f x r1 = Inr (y, r')"
  by (auto simp: then_read_def split: sum.splits)

lemma then_read_Inl:
  "then_read m f r = Inl p \<Longrightarrow> m r = Inl p \<or> (\<exists>x r1. m r = Inr (x, r1) \<and> f x r1 = Inl p)"
  by (auto simp: then_read_def split: sum.splits)

lemma readInt8_Inr: "readInt8 r = Inr (b, r') \<Longrightarrow> r = b # r'"
  by (cases r) (auto simp: readInt8_def then_read_def returning_def binary_Read_def
      split: if_splits)

lemma readInt32_Inr: "readInt32 r = Inr (v, r') \<Longrightarrow> r = PutUint32 v @ r'"
  using readUint32_Inr [of r v r'] by (simp add: readInt32_def readUint32_def)

lemma word_of_nat_sint:
  assumes "0 \<le> sint (len :: 32 word)"
  shows "word_of_nat (nat (sint len)) = len" and "nat (sint len) \<le> MaxInt32"
proof -
  from assms have "word_of_nat (nat (sint len)) = (word_of_int (sint len) :: 32 word)"
    by (simp add: word_of_int_nat)
  then show "word_of_nat (nat (sint len)) = len" by simp
  have "sint len < 2 ^ (LENGTH(32) - 1)" by (rule sint_lt)
  then show "nat (sint len) \<le> MaxInt32" by (simp add: MaxInt32_def)
qed

lemma read_length_prefixed_Inr:
  assumes "read_length_prefixed what r = Inr (b, r')"
  shows "valid_bytes b \<and> r = layout_bytes b @ r'"
proof -
  from assms obtain len r1 where len: "readInt32 r = Inr (len, r1)"
    and rest: "(if sint len < 0 then panicking PanicMakeSliceLen
           else (\<lambda>r. case Reader_Read (nat (sint len)) r of
                  ((buffer, read_length), r') \<Rightarrow>
                    if int read_length \<noteq> sint len
                    then Inl (PanicBadReadLength what (sint len) read_length)
                    else Inr (buffer, r'))) r1 = Inr (b, r')"
    unfolding read_length_prefixed_def by (blast dest: then_read_Inr)
  from rest have pos: "0 \<le> sint len"
    by (auto simp: panicking_def split: if_splits)
  with rest have n: "nat (sint len) \<le> length r1" and b: "b = take (nat (sint len)) r1"
    and r': "r' = drop (nat (sint len)) r1"
    by (auto simp: Reader_Read_def split: if_splits)
  from n b have lb: "length b = nat (sint len)" by simp
  have r1: "r1 = b @ r'" by (simp add: b r')
  from word_of_nat_sint [OF pos] lb have "PutUint32 len = be_bytes 4 (length b)"
    and "length b \<le> MaxInt32"
    by (simp_all add: be_bytes_length32)
  with readInt32_Inr [OF len] r1 show ?thesis
    by (simp add: valid_bytes_def layout_bytes_def)
qed

lemma Bytes_Read_Inr:
  "FfiConverterBytes_Read r = Inr (b, r') \<Longrightarrow> valid_bytes b \<and> r = layout_bytes b @ r'"
  unfolding FfiConverterBytes_Read_def by (rule read_length_prefixed_Inr)

lemma string_bytes_string [simp]: "string_bytes (bytes_string b) = b"
proof -
  have "word_of_nat (of_char (char_of (unat x))) = x" for x :: byte
    using unsigned_less [of x, where 'a = nat] by (simp add: word_unat_eq_iff unat_of_nat)
  then show ?thesis by (simp add: string_bytes_def bytes_string_def map_idI)
qed

lemma length_bytes_string [simp]: "length (bytes_string b) = length b"
  by (simp add: bytes_string_def)

lemma String_Read_Inr:
  assumes "FfiConverterString_Read r = Inr (s, r')"
  shows "valid_string s \<and> r = layout_string s @ r'"
proof -
  from assms obtain b where b: "read_length_prefixed ''string'' r = Inr (b, r')"
    and s: "s = bytes_string b"
    unfolding FfiConverterString_Read_def
    by (auto simp: returning_def dest!: then_read_Inr)
  from read_length_prefixed_Inr [OF b] show ?thesis
    by (simp add: s valid_string_def valid_bytes_def layout_string_def layout_bytes_def)
qed

lemma Uint32_Read_Inr: "FfiConverterUint32_Read r = Inr (v, r') \<Longrightarrow> r = layout_u32 v @ r'"
  by (simp add: FfiConverterUint32_Read_def layout_u32_def PutUint32_be_bytes [symmetric]
      readUint32_Inr)

lemma OptionalBytes_Read_Inr:
  assumes "FfiConverterOptionalBytes_Read r = Inr (v, r')"
  shows "valid_optional valid_bytes v
    \<and> (\<exists>flag. flag \<noteq> 0 \<and> r = layout_optional_flag flag layout_bytes v @ r')"
proof -
  from assms obtain flag r1 where f: "readInt8 r = Inr (flag, r1)"
    and rest: "(if flag = 0 then returning None
        else then_read FfiConverterBytes_Read (\<lambda>temp. returning (Some temp))) r1 = Inr (v, r')"
    unfolding FfiConverterOptionalBytes_Read_def by (blast dest: then_read_Inr)
  note r = readInt8_Inr [OF f]
  show ?thesis
  proof (cases "flag = 0")
    case True
    with rest r have "v = None" "r = [0] @ r'" by (simp_all add: returning_def)
    then show ?thesis by (auto intro: exI [of _ 1])
  next
    case False
    with rest obtain b where "FfiConverterBytes_Read r1 = Inr (b, r')" and v: "v = Some b"
      by (auto simp: returning_def dest!: then_read_Inr)
    from Bytes_Read_Inr [OF this(1)] r v False show ?thesis by auto
  qed
qed

lemma OffchainData_Read_Inr:
  assumes "FfiConverterVeritasOffchainData_Read r = Inr (d, r')"
  shows "valid_offchain d \<and> r = layout_offchain d @ r'"
  using assms unfolding FfiConverterVeritasOffchainData_Read_def
  by (auto simp: returning_def valid_offchain_def layout_offchain_def
      dest!: then_read_Inr Uint32_Read_Inr Bytes_Read_Inr)

lemma OptionalOffchainData_Read_Inr:
  assumes "FfiConverterOptionalVeritasOffchainData_Read r = Inr (v, r')"
  shows "valid_optional valid_offchain v
    \<and> (\<exists>flag. flag \<noteq> 0 \<and> r = layout_optional_flag flag layout_offchain v @ r')"
proof -
  from assms obtain flag r1 where f: "readInt8 r = Inr (flag, r1)"
    and rest: "(if flag = 0 then returning None
        else then_read FfiConverterVeritasOffchainData_Read (\<lambda>temp. returning (Some temp))) r1
        = Inr (v, r')"
    unfolding FfiConverterOptionalVeritasOffchainData_Read_def by (blast dest: then_read_Inr)
  note r = readInt8_Inr [OF f]
  show ?thesis
  proof (cases "flag = 0")
    case True
    with rest r have "v = None" "r = [0] @ r'" by (simp_all add: returning_def)
    then show ?thesis by (auto intro: exI [of _ 1])
  next
    case False
    with rest obtain d where "FfiConverterVeritasOffchainData_Read r1 = Inr (d, r')"
      and v: "v = Some d"
      by (auto simp: returning_def dest!: then_read_Inr)
    from OffchainData_Read_Inr [OF this(1)] r v False show ?thesis by auto
  qed
qed

lemma Certificate_Read_Inr:
  assumes "FfiConverterVeritasCertificate_Read r = Inr (c, r')"
  shows "valid_certificate c \<and> r = layout_certificate c @ r'"
  using assms unfolding FfiConverterVeritasCertificate_Read_def
  by (auto simp: returning_def valid_certificate_def layout_certificate_def
      dest!: then_read_Inr String_Read_Inr Bytes_Read_Inr)

lemma tag_cases:
  "PutUint32 1 = be_bytes 4 (Suc 0)" "PutUint32 2 = be_bytes 4 2" "PutUint32 3 = be_bytes 4 3"
  by (simp_all add: be_bytes_tag)

lemma CommitmentState_Read_Inr:
  assumes "FfiConverterVeritasCommitmentState_Read r = Inr (x, r')"
  shows "valid_commitment x
    \<and> (\<exists>f1 f2. f1 \<noteq> 0 \<and> f2 \<noteq> 0 \<and> r = layout_commitment_flags f1 f2 x @ r')"
proof -
  from assms obtain tag r1 where t: "readInt32 r = Inr (tag, r1)"
    and rest: "(if tag = 1 then
         then_read FfiConverterBytes_Read (\<lambda>stateRoot.
         then_read FfiConverterOptionalBytes_Read (\<lambda>prevRoot.
         then_read FfiConverterBytes_Read (\<lambda>rollingHash.
         then_read FfiConverterUint32_Read (\<lambda>blockHeight.
         then_read FfiConverterOptionalBytes_Read (\<lambda>receiptHash.
         returning
           (VeritasCommitmentStateExists stateRoot prevRoot rollingHash blockHeight
              receiptHash))))))
       else if tag = 2 then returning VeritasCommitmentStateEmpty
       else if tag = 3 then returning VeritasCommitmentStateUnknown
       else panicking (PanicInvalidEnumRead ''FfiConverterVeritasCommitmentState'' (sint tag)))
       r1 = Inr (x, r')"
    unfolding FfiConverterVeritasCommitmentState_Read_def by (blast dest: then_read_Inr)
  note r = readInt32_Inr [OF t]
  consider "tag = 1" | "tag = 2" | "tag = 3" | "tag \<noteq> 1" "tag \<noteq> 2" "tag \<noteq> 3" by blast
  then show ?thesis
  proof cases
    case 1
    with rest obtain sr pr rh bh rc r2 r3 r4 r5 where
      a: "FfiConverterBytes_Read r1 = Inr (sr, r2)"
      and b: "FfiConverterOptionalBytes_Read r2 = Inr (pr, r3)"
      and c: "FfiConverterBytes_Read r3 = Inr (rh, r4)"
      and d: "FfiConverterUint32_Read r4 = Inr (bh, r5)"
      and e: "FfiConverterOptionalBytes_Read r5 = Inr (rc, r')"
      and x: "x = VeritasCommitmentStateExists sr pr rh bh rc"
      by (auto simp: returning_def dest!: then_read_Inr)
    from OptionalBytes_Read_Inr [OF b] obtain f1 where
      f1: "f1 \<noteq> 0" "r2 = layout_optional_flag f1 layout_bytes pr @ r3"
      and vpr: "valid_optional valid_bytes pr" by blast
    from OptionalBytes_Read_Inr [OF e] obtain f2 where
      f2: "f2 \<noteq> 0" "r5 = layout_optional_flag f2 layout_bytes rc @ r'"
      and vrc: "valid_optional valid_bytes rc" by blast
    from Bytes_Read_Inr [OF a] Bytes_Read_Inr [OF c] Uint32_Read_Inr [OF d] f1 f2 r 1
    have "r = layout_commitment_flags f1 f2 x @ r'"
      by (simp add: x tag_cases)
    moreover from Bytes_Read_Inr [OF a] Bytes_Read_Inr [OF c] vpr vrc
    have "valid_commitment x" by (simp add: x)
    ultimately show ?thesis using f1(1) f2(1) by blast
  next
    case 2
    with rest r have "x = VeritasCommitmentStateEmpty" "r = layout_commitment_flags 1 1 x @ r'"
      by (simp_all add: returning_def tag_cases)
    then show ?thesis by (auto intro!: exI [of _ 1])
  next
    case 3
    with rest r have "x = VeritasCommitmentStateUnknown" "r = layout_commitment_flags 1 1 x @ r'"
      by (simp_all add: returning_def tag_cases)
    then show ?thesis by (auto intro!: exI [of _ 1])
  next
    case 4
    with rest show ?thesis by (simp add: panicking_def)
  qed
qed

lemma DelegateState_Read_Inr:
  assumes "FfiConverterVeritasDelegateState_Read r = Inr (x, r')"
  shows "valid_delegate x
    \<and> (\<exists>f1 f2. f1 \<noteq> 0 \<and> f2 \<noteq> 0 \<and> r = layout_delegate_flags f1 f2 x @ r')"
proof -
  from assms obtain tag r1 where t: "readInt32 r = Inr (tag, r1)"
    and rest: "(if tag = 1 then
         then_read FfiConverterBytes_Read (\<lambda>scriptPubkey.
         then_read FfiConverterOptionalBytes_Read (\<lambda>data.
         then_read FfiConverterOptionalVeritasOffchainData_Read (\<lambda>offchainData.
         returning (VeritasDelegateStateExists scriptPubkey data offchainData))))
       else if tag = 2 then returning VeritasDelegateStateEmpty
       else if tag = 3 then returning VeritasDelegateStateUnknown
       else panicking (PanicInvalidEnumRead ''FfiConverterVeritasDelegateState'' (sint tag)))
       r1 = Inr (x, r')"
    unfolding FfiConverterVeritasDelegateState_Read_def by (blast dest: then_read_Inr)
  note r = readInt32_Inr [OF t]
  consider "tag = 1" | "tag = 2" | "tag = 3" | "tag \<noteq> 1" "tag \<noteq> 2" "tag \<noteq> 3" by blast
  then show ?thesis
  proof cases
    case 1
    with rest obtain sp d od r2 r3 where
      a: "FfiConverterBytes_Read r1 = Inr (sp, r2)"
      and b: "FfiConverterOptionalBytes_Read r2 = Inr (d, r3)"
      and c: "FfiConverterOptionalVeritasOffchainData_Read r3 = Inr (od, r')"
      and x: "x = VeritasDelegateStateExists sp d od"
      by (auto simp: returning_def dest!: then_read_Inr)
    from OptionalBytes_Read_Inr [OF b] obtain f1 where
      f1: "f1 \<noteq> 0" "r2 = layout_optional_flag f1 layout_bytes d @ r3"
      and vd: "valid_optional valid_bytes d" by blast
    from OptionalOffchainData_Read_Inr [OF c] obtain f2 where
      f2: "f2 \<noteq> 0" "r3 = layout_optional_flag f2 layout_offchain od @ r'"
      and vod: "valid_optional valid_offchain od" by blast
    from Bytes_Read_Inr [OF a] f1 f2 r 1
    have "r = layout_delegate_flags f1 f2 x @ r'"
      by (simp add: x tag_cases)
    moreover from Bytes_Read_Inr [OF a] vd vod
    have "valid_delegate x" by (simp add: x)
    ultimately show ?thesis using f1(1) f2(1) by blast
  next
    case 2
    with rest r have "x = VeritasDelegateStateEmpty" "r = layout_delegate_flags 1 1 x @ r'"
      by (simp_all add: returning_def tag_cases)
    then show ?thesis by (auto intro!: exI [of _ 1])
  next
    case 3
    with rest r have "x = VeritasDelegateStateUnknown" "r = layout_delegate_flags 1 1 x @ r'"
      by (simp_all add: returning_def tag_cases)
    then show ?thesis by (auto intro!: exI [of _ 1])
  next
    case 4
    with rest show ?thesis by (simp add: panicking_def)
  qed
qed

subsection \<open>Any non-zero presence flag is read as present\<close>

lemma OptionalBytes_Read_flag:
  "flag \<noteq> 0 \<Longrightarrow> valid_optional valid_bytes v \<Longrightarrow>
   FfiConverterOptionalBytes_Read (layout_optional_flag flag layout_bytes v @ r) = Inr (v, r)"
  by (cases v)
     (simp_all add: FfiConverterOptionalBytes_Read_def then_read_def readInt8_Cons returning_def
       Bytes_Read_layout)

lemma OptionalOffchainData_Read_flag:
  "flag \<noteq> 0 \<Longrightarrow> valid_optional valid_offchain v \<Longrightarrow>
   FfiConverterOptionalVeritasOffchainData_Read (layout_optional_flag flag layout_offchain v @ r)
     = Inr (v, r)"
  by (cases v)
     (simp_all add: FfiConverterOptionalVeritasOffchainData_Read_def then_read_def readInt8_Cons
       returning_def OffchainData_Read_layout)

lemma CommitmentState_Read_flags:
  "f1 \<noteq> 0 \<Longrightarrow> f2 \<noteq> 0 \<Longrightarrow> valid_commitment x \<Longrightarrow>
   FfiConverterVeritasCommitmentState_Read (layout_commitment_flags f1 f2 x @ r) = Inr (x, r)"
  by (cases x)
     (simp_all add: FfiConverterVeritasCommitmentState_Read_def be_bytes_tag then_read_def
       readInt32_PutUint32 returning_def Bytes_Read_layout OptionalBytes_Read_flag
       Uint32_Read_layout)

lemma DelegateState_Read_flags:
  "f1 \<noteq> 0 \<Longrightarrow> f2 \<noteq> 0 \<Longrightarrow> valid_delegate x \<Longrightarrow>
   FfiConverterVeritasDelegateState_Read (layout_delegate_flags f1 f2 x @ r) = Inr (x, r)"
  by (cases x)
     (simp_all add: FfiConverterVeritasDelegateState_Read_def be_bytes_tag then_read_def
       readInt32_PutUint32 returning_def Bytes_Read_layout OptionalBytes_Read_flag
       OptionalOffchainData_Read_flag)

lemma layout_flags_one:
  "layout_commitment_flags 1 1 cs = layout_commitment cs"
  "layout_delegate_flags 1 1 ds = layout_delegate ds"
proof -
  have o: "layout_optional_flag 1 p v = layout_optional p v" for p :: "'a \<Rightarrow> byte list" and v
    by (cases v) simp_all
  show "layout_commitment_flags 1 1 cs = layout_commitment cs" by (cases cs) (simp_all add: o)
  show "layout_delegate_flags 1 1 ds = layout_delegate ds" by (cases ds) (simp_all add: o)
qed

subsection \<open>The panics of a read\<close>

lemma decode_panicsI: "(\<And>r p. R r = Inl p \<Longrightarrow> is_decode_panic p) \<Longrightarrow> decode_panics R"
  by (simp add: decode_panics_def)

lemma decode_panicsD: "decode_panics R \<Longrightarrow> R r = Inl p \<Longrightarrow> is_decode_panic p"
  by (simp add: decode_panics_def)

lemma decode_panics_returning: "decode_panics (returning x)"
  by (simp add: decode_panics_def returning_def)

lemma decode_panics_panicking: "is_decode_panic p \<Longrightarrow> decode_panics (panicking p)"
  by (simp add: decode_panics_def panicking_def)

lemma decode_panics_binary_Read: "decode_panics (binary_Read k)"
  by (auto simp: decode_panics_def binary_Read_def split: if_splits)

lemma decode_panics_then_read:
  "decode_panics m \<Longrightarrow> (\<And>x. decode_panics (f x)) \<Longrightarrow> decode_panics (then_read m f)"
  by (rule decode_panicsI) (auto dest!: then_read_Inl dest: decode_panicsD)

lemma decode_panics_if:
  "decode_panics A \<Longrightarrow> decode_panics B \<Longrightarrow> decode_panics (if b then A else B)"
  by simp

lemma decode_panics_fill:
  "decode_panics (\<lambda>r. case Reader_Read k r of
      ((buffer, read_length), r') \<Rightarrow>
        if int read_length \<noteq> e then Inl (PanicBadReadLength what e read_length)
        else Inr (buffer, r'))"
  by (auto simp: decode_panics_def Reader_Read_def split: if_splits)

lemma decode_panics_readInt8: "decode_panics readInt8"
  unfolding readInt8_def
  by (intro decode_panics_then_read decode_panics_binary_Read decode_panics_returning)

lemma decode_panics_readInt32: "decode_panics readInt32"
  unfolding readInt32_def
  by (intro decode_panics_then_read decode_panics_binary_Read decode_panics_returning)

lemma decode_panics_readUint32: "decode_panics readUint32"
  unfolding readUint32_def
  by (intro decode_panics_then_read decode_panics_binary_Read decode_panics_returning)

lemma decode_panics_read_length_prefixed: "decode_panics (read_length_prefixed what)"
  unfolding read_length_prefixed_def
  by (intro decode_panics_then_read decode_panics_if decode_panics_readInt32
      decode_panics_panicking decode_panics_fill) simp

lemma decode_panics_Bytes: "decode_panics FfiConverterBytes_Read"
  by (simp add: FfiConverterBytes_Read_def decode_panics_read_length_prefixed)

lemma decode_panics_String: "decode_panics FfiConverterString_Read"
  unfolding FfiConverterString_Read_def
  by (intro decode_panics_then_read decode_panics_read_length_prefixed decode_panics_returning)

lemma decode_panics_Uint32: "decode_panics FfiConverterUint32_Read"
  by (simp add: FfiConverterUint32_Read_def decode_panics_readUint32)

lemma decode_panics_OptionalBytes: "decode_panics FfiConverterOptionalBytes_Read"
  unfolding FfiConverterOptionalBytes_Read_def
  by (intro decode_panics_then_read decode_panics_if decode_panics_readInt8 decode_panics_Bytes
      decode_panics_returning)

lemma decode_panics_OffchainData: "decode_panics FfiConverterVeritasOffchainData_Read"
  unfolding FfiConverterVeritasOffchainData_Read_def
  by (intro decode_panics_then_read decode_panics_Uint32 decode_panics_Bytes
      decode_panics_returning)

lemma decode_panics_OptionalOffchainData:
  "decode_panics FfiConverterOptionalVeritasOffchainData_Read"
  unfolding FfiConverterOptionalVeritasOffchainData_Read_def
  by (intro decode_panics_then_read decode_panics_if decode_panics_readInt8
      decode_panics_OffchainData decode_panics_returning)

lemma decode_panics_Certificate: "decode_panics FfiConverterVeritasCertificate_Read"
  unfolding FfiConverterVeritasCertificate_Read_def
  by (intro decode_panics_then_read decode_panics_String decode_panics_Bytes
      decode_panics_returning)

lemma decode_panics_CommitmentState: "decode_panics FfiConverterVeritasCommitmentState_Read"
  unfolding FfiConverterVeritasCommitmentState_Read_def
  by (intro decode_panics_then_read decode_panics_if decode_panics_readInt32
      decode_panics_Bytes decode_panics_OptionalBytes decode_panics_Uint32
      decode_panics_returning decode_panics_panicking) simp

lemma decode_panics_DelegateState: "decode_panics FfiConverterVeritasDelegateState_Read"
  unfolding FfiConverterVeritasDelegateState_Read_def
  by (intro decode_panics_then_read decode_panics_if decode_panics_readInt32
      decode_panics_Bytes decode_panics_OptionalBytes decode_panics_OptionalOffchainData
      decode_panics_returning decode_panics_panicking) simp

lemma Lift_decode_panic:
  "decode_panics R \<Longrightarrow> LiftFromRustBuffer R buf = Inl p \<Longrightarrow> is_decode_panic p"
  by (auto simp: LiftFromRustBuffer_def split: sum.splits if_splits dest: decode_panicsD)

lemma Lift_Inr_iff:
  "LiftFromRustBuffer R buf = Inr x \<longleftrightarrow> R buf = Inr (x, [])"
  by (auto simp: LiftFromRustBuffer_def split: sum.splits if_splits)

section \<open>Malformed input\<close>

lemma CommitmentState_unknown_tag:
  "tag \<noteq> 1 \<Longrightarrow> tag \<noteq> 2 \<Longrightarrow> tag \<noteq> 3 \<Longrightarrow>
   FfiConverterVeritasCommitmentState_Read (PutUint32 tag @ r)
     = Inl (PanicInvalidEnumRead ''FfiConverterVeritasCommitmentState'' (sint tag))"
  by (simp add: FfiConverterVeritasCommitmentState_Read_def then_read_def readInt32_PutUint32
      panicking_def)

lemma DelegateState_unknown_tag:
  "tag \<noteq> 1 \<Longrightarrow> tag \<noteq> 2 \<Longrightarrow> tag \<noteq> 3 \<Longrightarrow>
   FfiConverterVeritasDelegateState_Read (PutUint32 tag @ r)
     = Inl (PanicInvalidEnumRead ''FfiConverterVeritasDelegateState'' (sint tag))"
  by (simp add: FfiConverterVeritasDelegateState_Read_def then_read_def readInt32_PutUint32
      panicking_def)

lemma VeritasError_unknown_tag:
  "tag \<noteq> 1 \<Longrightarrow> tag \<noteq> 2 \<Longrightarrow>
   FfiConverterVeritasError_Read (PutUint32 tag @ r) = Inl (PanicUnknownErrorCode (unat tag))"
  by (simp add: FfiConverterVeritasError_Read_def then_read_def readUint32_PutUint32
      panicking_def)

lemma read_length_prefixed_negative:
  "sint len < 0 \<Longrightarrow> read_length_prefixed what (PutUint32 len @ r) = Inl PanicMakeSliceLen"
  by (simp add: read_length_prefixed_def then_read_def readInt32_PutUint32 panicking_def)

lemma read_length_prefixed_short:
  "0 \<le> sint len \<Longrightarrow> length r < nat (sint len) \<Longrightarrow>
   read_length_prefixed what (PutUint32 len @ r)
     = Inl (PanicBadReadLength what (sint len) (length r))"
  by (simp add: read_length_prefixed_def then_read_def readInt32_PutUint32 Reader_Read_def)

lemma Lift_junk:
  "R buf = Inr (x, rest) \<Longrightarrow> rest \<noteq> [] \<Longrightarrow> LiftFromRustBuffer R buf = Inl (PanicJunk rest)"
  by (simp add: LiftFromRustBuffer_def)

subsection \<open>The buffers a converter accepts\<close>

lemma Bytes_Read_Inr_iff:
  "FfiConverterBytes_Read bs = Inr (b, rest) \<longleftrightarrow> valid_bytes b \<and> bs = layout_bytes b @ rest"
  by (auto dest: Bytes_Read_Inr simp: Bytes_Read_layout)

lemma String_Read_Inr_iff:
  "FfiConverterString_Read bs = Inr (s, rest) \<longleftrightarrow> valid_string s \<and> bs = layout_string s @ rest"
  by (auto dest: String_Read_Inr simp: String_Read_layout)

lemma OffchainData_Read_Inr_iff:
  "FfiConverterVeritasOffchainData_Read bs = Inr (od, rest)
     \<longleftrightarrow> valid_offchain od \<and> bs = layout_offchain od @ rest"
  by (auto dest: OffchainData_Read_Inr simp: OffchainData_Read_layout)

lemma Certificate_Read_Inr_iff:
  "FfiConverterVeritasCertificate_Read bs = Inr (ce, rest)
     \<longleftrightarrow> valid_certificate ce \<and> bs = layout_certificate ce @ rest"
  by (auto dest: Certificate_Read_Inr simp: Certificate_Read_layout)

lemma CommitmentState_Read_Inr_iff:
  "FfiConverterVeritasCommitmentState_Read bs = Inr (cs, rest)
     \<longleftrightarrow> valid_commitment cs
       \<and> (\<exists>f1 f2. f1 \<noteq> 0 \<and> f2 \<noteq> 0 \<and> bs = layout_commitment_flags f1 f2 cs @ rest)"
  using CommitmentState_Read_Inr [of bs cs rest] CommitmentState_Read_flags [of _ _ cs rest]
  by blast

lemma DelegateState_Read_Inr_iff:
  "FfiConverterVeritasDelegateState_Read bs = Inr (ds, rest)
     \<longleftrightarrow> valid_delegate ds
       \<and> (\<exists>f1 f2. f1 \<noteq> 0 \<and> f2 \<noteq> 0 \<and> bs = layout_delegate_flags f1 f2 ds @ rest)"
  using DelegateState_Read_Inr [of bs ds rest] DelegateState_Read_flags [of _ _ ds rest]
  by blast

lemma OffchainData_Lift_Inr_iff:
  "FfiConverterVeritasOffchainData_Lift bs = Inr od
     \<longleftrightarrow> valid_offchain od \<and> bs = layout_offchain od"
  by (simp add: FfiConverterVeritasOffchainData_Lift_def Lift_Inr_iff OffchainData_Read_Inr_iff)

lemma Certificate_Lift_Inr_iff:
  "FfiConverterVeritasCertificate_Lift bs = Inr ce
     \<longleftrightarrow> valid_certificate ce \<and> bs = layout_certificate ce"
  by (simp add: FfiConverterVeritasCertificate_Lift_def Lift_Inr_iff Certificate_Read_Inr_iff)

lemma CommitmentState_Lift_Inr_iff:
  "FfiConverterVeritasCommitmentState_Lift bs = Inr cs
     \<longleftrightarrow> valid_commitment cs
       \<and> (\<exists>f1 f2. f1 \<noteq> 0 \<and> f2 \<noteq> 0 \<and> bs = layout_commitment_flags f1 f2 cs)"
  by (simp add: FfiConverterVeritasCommitmentState_Lift_def Lift_Inr_iff
      CommitmentState_Read_Inr_iff)

lemma DelegateState_Lift_Inr_iff:
  "FfiConverterVeritasDelegateState_Lift bs = Inr ds
     \<longleftrightarrow> valid_delegate ds
       \<and> (\<exists>f1 f2. f1 \<noteq> 0 \<and> f2 \<noteq> 0 \<and> bs = layout_delegate_flags f1 f2 ds)"
  by (simp add: FfiConverterVeritasDelegateState_Lift_def Lift_Inr_iff
      DelegateState_Read_Inr_iff)

lemma Lift_not_Inr:
  "decode_panics R \<Longrightarrow> \<forall>x. LiftFromRustBuffer R bs \<noteq> Inr x \<Longrightarrow>
   \<exists>p. LiftFromRustBuffer R bs = Inl p \<and> is_decode_panic p"
  by (cases "LiftFromRustBuffer R bs") (auto dest: Lift_decode_panic)

lemma OffchainData_Lift_malformed:
  "\<not> (\<exists>x. valid_offchain x \<and> bs = layout_offchain x) \<Longrightarrow>
   \<exists>p. FfiConverterVeritasOffchainData_Lift bs = Inl p \<and> is_decode_panic p"
  using OffchainData_Lift_Inr_iff [of bs]
  unfolding FfiConverterVeritasOffchainData_Lift_def
  by (intro Lift_not_Inr decode_panics_OffchainData) blast

lemma Certificate_Lift_malformed:
  "\<not> (\<exists>x. valid_certificate x \<and> bs = layout_certificate x) \<Longrightarrow>
   \<exists>p. FfiConverterVeritasCertificate_Lift bs = Inl p \<and> is_decode_panic p"
  using Certificate_Lift_Inr_iff [of bs]
  unfolding FfiConverterVeritasCertificate_Lift_def
  by (intro Lift_not_Inr decode_panics_Certificate) blast

lemma CommitmentState_Lift_malformed:
  "\<not> (\<exists>x f1 f2. valid_commitment x \<and> f1 \<noteq> 0 \<and> f2 \<noteq> 0
         \<and> bs = layout_commitment_flags f1 f2 x) \<Longrightarrow>
   \<exists>p. FfiConverterVeritasCommitmentState_Lift bs = Inl p \<and> is_decode_panic p"
  using CommitmentState_Lift_Inr_iff [of bs]
  unfolding FfiConverterVeritasCommitmentState_Lift_def
  by (intro Lift_not_Inr decode_panics_CommitmentState) blast

lemma DelegateState_Lift_malformed:
  "\<not> (\<exists>x f1 f2. valid_delegate x \<and> f1 \<noteq> 0 \<and> f2 \<noteq> 0
         \<and> bs = layout_delegate_flags f1 f2 x) \<Longrightarrow>
   \<exists>p. FfiConverterVeritasDelegateState_Lift bs = Inl p \<and> is_decode_panic p"
  using DelegateState_Lift_Inr_iff [of bs]
  unfolding FfiConverterVeritasDelegateState_Lift_def
  by (intro Lift_not_Inr decode_panics_DelegateState) blast

text \<open>
  Claim C2 does not hold as stated. The buffer \<^verbatim>\<open>00 00 00 04\<close> carries an unknown
  discriminant, and lifting it as a \<^verbatim>\<open>CommitmentState\<close> panics: \<^verbatim>\<open>Read\<close> returns the value
  alone, it has no error result in which an \<^verbatim>\<open>InvalidInput\<close> could travel.
\<close>
theorem decode_unknown_tag_panics:
  "FfiConverterVeritasCommitmentState_Lift [0, 0, 0, 4]
     = Inl (PanicInvalidEnumRead ''FfiConverterVeritasCommitmentState'' 4)"
  by (simp add: FfiConverterVeritasCommitmentState_Lift_def LiftFromRustBuffer_def
      FfiConverterVeritasCommitmentState_Read_def then_read_def readInt32_def binary_Read_def
      returning_def panicking_def Uint32_def)

text \<open>
  Claim C2, amended. The \<^verbatim>\<open>Read\<close> of the converters of byte strings, strings,
  \<^verbatim>\<open>OffchainData\<close>, \<^verbatim>\<open>Certificate\<close>, \<^verbatim>\<open>CommitmentState\<close> and \<^verbatim>\<open>DelegateState\<close>, and the \<^verbatim>\<open>Lift\<close>
  of the last four, never report malformed input as an \<^verbatim>\<open>InvalidInput\<close> error: they return
  a value or panic.
  \<^item> \<^verbatim>\<open>Read\<close> returns a value and the bytes after it exactly when the buffer is the layout
    of that value followed by those bytes, every length of the value fitting its signed
    32-bit prefix; in the layout the flag byte of an optional field that is present may be
    any byte other than 0, not only 1. \<^verbatim>\<open>Read\<close> does not look at the bytes after the value.
  \<^item> \<^verbatim>\<open>Lift\<close> returns a value exactly when the whole buffer is such a layout of it.
  \<^item> A \<^verbatim>\<open>Read\<close> or \<^verbatim>\<open>Lift\<close> that does not return panics with \<^verbatim>\<open>EOF\<close>, \<^verbatim>\<open>unexpected EOF\<close>,
    a negative length in \<^verbatim>\<open>make\<close>, \<^verbatim>\<open>bad read length\<close>, \<^verbatim>\<open>invalid enum value\<close> or
    \<^verbatim>\<open>junk remaining in buffer\<close>. So \<^verbatim>\<open>Lift\<close> of a buffer that is no such layout of any value
    panics with one of these, wherever in the buffer the fault lies.
  \<^item> In particular: a buffer that lifts to a value, cut short by any number of bytes,
    panics with \<^verbatim>\<open>EOF\<close>, \<^verbatim>\<open>unexpected EOF\<close> or \<^verbatim>\<open>bad read length\<close>; a leading discriminant
    other than 1, 2 and 3 panics with \<^verbatim>\<open>invalid enum value\<close> and the tag; a leading
    length prefix that is negative panics in \<^verbatim>\<open>make\<close>, and one larger than the bytes that
    remain panics with \<^verbatim>\<open>bad read length\<close> and both numbers; bytes left over after the
    value make \<^verbatim>\<open>Lift\<close> panic with \<^verbatim>\<open>junk remaining in buffer\<close>.
\<close>
theorem malformed_input_panics:
  "(FfiConverterBytes_Read bs = Inr (b, rest) \<longleftrightarrow> valid_bytes b \<and> bs = layout_bytes b @ rest)
   \<and> (FfiConverterString_Read bs = Inr (s, rest)
        \<longleftrightarrow> valid_string s \<and> bs = layout_string s @ rest)
   \<and> (FfiConverterVeritasOffchainData_Read bs = Inr (od', rest)
        \<longleftrightarrow> valid_offchain od' \<and> bs = layout_offchain od' @ rest)
   \<and> (FfiConverterVeritasCertificate_Read bs = Inr (ce', rest)
        \<longleftrightarrow> valid_certificate ce' \<and> bs = layout_certificate ce' @ rest)
   \<and> (FfiConverterVeritasCommitmentState_Read bs = Inr (cs'', rest)
        \<longleftrightarrow> valid_commitment cs''
          \<and> (\<exists>f1 f2. f1 \<noteq> 0 \<and> f2 \<noteq> 0 \<and> bs = layout_commitment_flags f1 f2 cs'' @ rest))
   \<and> (FfiConverterVeritasDelegateState_Read bs = Inr (ds'', rest)
        \<longleftrightarrow> valid_delegate ds''
          \<and> (\<exists>f1 f2. f1 \<noteq> 0 \<and> f2 \<noteq> 0 \<and> bs = layout_delegate_flags f1 f2 ds'' @ rest))
   \<and> (FfiConverterVeritasOffchainData_Lift bs = Inr od'
        \<longleftrightarrow> valid_offchain od' \<and> bs = layout_offchain od')
   \<and> (FfiConverterVeritasCertificate_Lift bs = Inr ce'
        \<longleftrightarrow> valid_certificate ce' \<and> bs = layout_certificate ce')
   \<and> (FfiConverterVeritasCommitmentState_Lift bs = Inr cs''
        \<longleftrightarrow> valid_commitment cs''
          \<and> (\<exists>f1 f2. f1 \<noteq> 0 \<and> f2 \<noteq> 0 \<and> bs = layout_commitment_flags f1 f2 cs''))
   \<and> (FfiConverterVeritasDelegateState_Lift bs = Inr ds''
        \<longleftrightarrow> valid_delegate ds''
          \<and> (\<exists>f1 f2. f1 \<noteq> 0 \<and> f2 \<noteq> 0 \<and> bs = layout_delegate_flags f1 f2 ds''))
   \<and> (FfiConverterBytes_Read bs = Inl p \<longrightarrow> is_decode_panic p)
   \<and> (FfiConverterString_Read bs = Inl p \<longrightarrow> is_decode_panic p)
   \<and> (FfiConverterVeritasOffchainData_Read bs = Inl p \<longrightarrow> is_decode_panic p)
   \<and> (FfiConverterVeritasCertificate_Read bs = Inl p \<longrightarrow> is_decode_panic p)
   \<and> (FfiConverterVeritasCommitmentState_Read bs = Inl p \<longrightarrow> is_decode_panic p)
   \<and> (FfiConverterVeritasDelegateState_Read bs = Inl p \<longrightarrow> is_decode_panic p)
   \<and> (FfiConverterVeritasOffchainData_Lift bs = Inl p \<longrightarrow> is_decode_panic p)
   \<and> (FfiConverterVeritasCertificate_Lift bs = Inl p \<longrightarrow> is_decode_panic p)
   \<and> (FfiConverterVeritasCommitmentState_Lift bs = Inl p \<longrightarrow> is_decode_panic p)
   \<and> (FfiConverterVeritasDelegateState_Lift bs = Inl p \<longrightarrow> is_decode_panic p)
   \<and> (\<not> (\<exists>x. valid_offchain x \<and> bs = layout_offchain x) \<longrightarrow>
        (\<exists>q. FfiConverterVeritasOffchainData_Lift bs = Inl q \<and> is_decode_panic q))
   \<and> (\<not> (\<exists>x. valid_certificate x \<and> bs = layout_certificate x) \<longrightarrow>
        (\<exists>q. FfiConverterVeritasCertificate_Lift bs = Inl q \<and> is_decode_panic q))
   \<and> (\<not> (\<exists>x f1 f2. valid_commitment x \<and> f1 \<noteq> 0 \<and> f2 \<noteq> 0
              \<and> bs = layout_commitment_flags f1 f2 x) \<longrightarrow>
        (\<exists>q. FfiConverterVeritasCommitmentState_Lift bs = Inl q \<and> is_decode_panic q))
   \<and> (\<not> (\<exists>x f1 f2. valid_delegate x \<and> f1 \<noteq> 0 \<and> f2 \<noteq> 0
              \<and> bs = layout_delegate_flags f1 f2 x) \<longrightarrow>
        (\<exists>q. FfiConverterVeritasDelegateState_Lift bs = Inl q \<and> is_decode_panic q))
   \<and> (FfiConverterVeritasCommitmentState_Lift enc1 = Inr cs \<and> n1 < length enc1 \<longrightarrow>
      (\<exists>p. FfiConverterVeritasCommitmentState_Lift (take n1 enc1) = Inl p \<and> is_short_read p))
   \<and> (FfiConverterVeritasDelegateState_Lift enc2 = Inr ds \<and> n2 < length enc2 \<longrightarrow>
      (\<exists>p. FfiConverterVeritasDelegateState_Lift (take n2 enc2) = Inl p \<and> is_short_read p))
   \<and> (FfiConverterVeritasCertificate_Lift enc3 = Inr ce \<and> n3 < length enc3 \<longrightarrow>
      (\<exists>p. FfiConverterVeritasCertificate_Lift (take n3 enc3) = Inl p \<and> is_short_read p))
   \<and> (FfiConverterVeritasOffchainData_Lift enc4 = Inr od \<and> n4 < length enc4 \<longrightarrow>
      (\<exists>p. FfiConverterVeritasOffchainData_Lift (take n4 enc4) = Inl p \<and> is_short_read p))
   \<and> (tag \<noteq> 1 \<and> tag \<noteq> 2 \<and> tag \<noteq> 3 \<longrightarrow>
      FfiConverterVeritasCommitmentState_Read (PutUint32 tag @ r)
        = Inl (PanicInvalidEnumRead ''FfiConverterVeritasCommitmentState'' (sint tag))
      \<and> FfiConverterVeritasDelegateState_Read (PutUint32 tag @ r)
        = Inl (PanicInvalidEnumRead ''FfiConverterVeritasDelegateState'' (sint tag)))
   \<and> (sint len1 < 0 \<longrightarrow>
      FfiConverterBytes_Read (PutUint32 len1 @ r) = Inl PanicMakeSliceLen
      \<and> FfiConverterString_Read (PutUint32 len1 @ r) = Inl PanicMakeSliceLen)
   \<and> (0 \<le> sint len2 \<and> length r < nat (sint len2) \<longrightarrow>
      FfiConverterBytes_Read (PutUint32 len2 @ r)
        = Inl (PanicBadReadLength ''[]byte'' (sint len2) (length r))
      \<and> FfiConverterString_Read (PutUint32 len2 @ r)
        = Inl (PanicBadReadLength ''string'' (sint len2) (length r)))
   \<and> (FfiConverterVeritasCommitmentState_Read buf1 = Inr (cs', rest1) \<and> rest1 \<noteq> [] \<longrightarrow>
      FfiConverterVeritasCommitmentState_Lift buf1 = Inl (PanicJunk rest1))
   \<and> (FfiConverterVeritasDelegateState_Read buf2 = Inr (ds', rest2) \<and> rest2 \<noteq> [] \<longrightarrow>
      FfiConverterVeritasDelegateState_Lift buf2 = Inl (PanicJunk rest2))
   \<and> (FfiConverterVeritasCertificate_Read buf3 = Inr (ce3, rest3) \<and> rest3 \<noteq> [] \<longrightarrow>
      FfiConverterVeritasCertificate_Lift buf3 = Inl (PanicJunk rest3))
   \<and> (FfiConverterVeritasOffchainData_Read buf4 = Inr (od4, rest4) \<and> rest4 \<noteq> [] \<longrightarrow>
      FfiConverterVeritasOffchainData_Lift buf4 = Inl (PanicJunk rest4))"
proof (intro conjI impI; (elim conjE)?)
  show "FfiConverterBytes_Read bs = Inr (b, rest) \<longleftrightarrow> valid_bytes b \<and> bs = layout_bytes b @ rest"
    by (rule Bytes_Read_Inr_iff)
next
  show "FfiConverterString_Read bs = Inr (s, rest)
        \<longleftrightarrow> valid_string s \<and> bs = layout_string s @ rest"
    by (rule String_Read_Inr_iff)
next
  show "FfiConverterVeritasOffchainData_Read bs = Inr (od', rest)
        \<longleftrightarrow> valid_offchain od' \<and> bs = layout_offchain od' @ rest"
    by (rule OffchainData_Read_Inr_iff)
next
  show "FfiConverterVeritasCertificate_Read bs = Inr (ce', rest)
        \<longleftrightarrow> valid_certificate ce' \<and> bs = layout_certificate ce' @ rest"
    by (rule Certificate_Read_Inr_iff)
next
  show "FfiConverterVeritasCommitmentState_Read bs = Inr (cs'', rest)
        \<longleftrightarrow> valid_commitment cs''
          \<and> (\<exists>f1 f2. f1 \<noteq> 0 \<and> f2 \<noteq> 0 \<and> bs = layout_commitment_flags f1 f2 cs'' @ rest)"
    by (rule CommitmentState_Read_Inr_iff)
next
  show "FfiConverterVeritasDelegateState_Read bs = Inr (ds'', rest)
        \<longleftrightarrow> valid_delegate ds''
          \<and> (\<exists>f1 f2. f1 \<noteq> 0 \<and> f2 \<noteq> 0 \<and> bs = layout_delegate_flags f1 f2 ds'' @ rest)"
    by (rule DelegateState_Read_Inr_iff)
next
  show "FfiConverterVeritasOffchainData_Lift bs = Inr od'
        \<longleftrightarrow> valid_offchain od' \<and> bs = layout_offchain od'"
    by (rule OffchainData_Lift_Inr_iff)
next
  show "FfiConverterVeritasCertificate_Lift bs = Inr ce'
        \<longleftrightarrow> valid_certificate ce' \<and> bs = layout_certificate ce'"
    by (rule Certificate_Lift_Inr_iff)
next
  show "FfiConverterVeritasCommitmentState_Lift bs = Inr cs''
        \<longleftrightarrow> valid_commitment cs''
          \<and> (\<exists>f1 f2. f1 \<noteq> 0 \<and> f2 \<noteq> 0 \<and> bs = layout_commitment_flags f1 f2 cs'')"
    by (rule CommitmentState_Lift_Inr_iff)
next
  show "FfiConverterVeritasDelegateState_Lift bs = Inr ds''
        \<longleftrightarrow> valid_delegate ds''
          \<and> (\<exists>f1 f2. f1 \<noteq> 0 \<and> f2 \<noteq> 0 \<and> bs = layout_delegate_flags f1 f2 ds'')"
    by (rule DelegateState_Lift_Inr_iff)
next
  assume "FfiConverterBytes_Read bs = Inl p"
  then show "is_decode_panic p" by (rule decode_panicsD [OF decode_panics_Bytes])
next
  assume "FfiConverterString_Read bs = Inl p"
  then show "is_decode_panic p" by (rule decode_panicsD [OF decode_panics_String])
next
  assume "FfiConverterVeritasOffchainData_Read bs = Inl p"
  then show "is_decode_panic p" by (rule decode_panicsD [OF decode_panics_OffchainData])
next
  assume "FfiConverterVeritasCertificate_Read bs = Inl p"
  then show "is_decode_panic p" by (rule decode_panicsD [OF decode_panics_Certificate])
next
  assume "FfiConverterVeritasCommitmentState_Read bs = Inl p"
  then show "is_decode_panic p" by (rule decode_panicsD [OF decode_panics_CommitmentState])
next
  assume "FfiConverterVeritasDelegateState_Read bs = Inl p"
  then show "is_decode_panic p" by (rule decode_panicsD [OF decode_panics_DelegateState])
next
  assume "FfiConverterVeritasOffchainData_Lift bs = Inl p"
  then show "is_decode_panic p"
    unfolding FfiConverterVeritasOffchainData_Lift_def
    by (rule Lift_decode_panic [OF decode_panics_OffchainData])
next
  assume "FfiConverterVeritasCertificate_Lift bs = Inl p"
  then show "is_decode_panic p"
    unfolding FfiConverterVeritasCertificate_Lift_def
    by (rule Lift_decode_panic [OF decode_panics_Certificate])
next
  assume "FfiConverterVeritasCommitmentState_Lift bs = Inl p"
  then show "is_decode_panic p"
    unfolding FfiConverterVeritasCommitmentState_Lift_def
    by (rule Lift_decode_panic [OF decode_panics_CommitmentState])
next
  assume "FfiConverterVeritasDelegateState_Lift bs = Inl p"
  then show "is_decode_panic p"
    unfolding FfiConverterVeritasDelegateState_Lift_def
    by (rule Lift_decode_panic [OF decode_panics_DelegateState])
next
  assume "\<not> (\<exists>x. valid_offchain x \<and> bs = layout_offchain x)"
  then show "\<exists>q. FfiConverterVeritasOffchainData_Lift bs = Inl q \<and> is_decode_panic q"
    by (rule OffchainData_Lift_malformed)
next
  assume "\<not> (\<exists>x. valid_certificate x \<and> bs = layout_certificate x)"
  then show "\<exists>q. FfiConverterVeritasCertificate_Lift bs = Inl q \<and> is_decode_panic q"
    by (rule Certificate_Lift_malformed)
next
  assume "\<not> (\<exists>x f1 f2. valid_commitment x \<and> f1 \<noteq> 0 \<and> f2 \<noteq> 0
              \<and> bs = layout_commitment_flags f1 f2 x)"
  then show "\<exists>q. FfiConverterVeritasCommitmentState_Lift bs = Inl q \<and> is_decode_panic q"
    by (rule CommitmentState_Lift_malformed)
next
  assume "\<not> (\<exists>x f1 f2. valid_delegate x \<and> f1 \<noteq> 0 \<and> f2 \<noteq> 0
              \<and> bs = layout_delegate_flags f1 f2 x)"
  then show "\<exists>q. FfiConverterVeritasDelegateState_Lift bs = Inl q \<and> is_decode_panic q"
    by (rule DelegateState_Lift_malformed)
next
  assume "FfiConverterVeritasCommitmentState_Lift enc1 = Inr cs" "n1 < length enc1"
  then show "\<exists>p. FfiConverterVeritasCommitmentState_Lift (take n1 enc1) = Inl p \<and> is_short_read p"
    unfolding FfiConverterVeritasCommitmentState_Lift_def
    by (rule Lift_truncated [OF prefix_exact_CommitmentState])
next
  assume "FfiConverterVeritasDelegateState_Lift enc2 = Inr ds" "n2 < length enc2"
  then show "\<exists>p. FfiConverterVeritasDelegateState_Lift (take n2 enc2) = Inl p \<and> is_short_read p"
    unfolding FfiConverterVeritasDelegateState_Lift_def
    by (rule Lift_truncated [OF prefix_exact_DelegateState])
next
  assume "FfiConverterVeritasCertificate_Lift enc3 = Inr ce" "n3 < length enc3"
  then show "\<exists>p. FfiConverterVeritasCertificate_Lift (take n3 enc3) = Inl p \<and> is_short_read p"
    unfolding FfiConverterVeritasCertificate_Lift_def
    by (rule Lift_truncated [OF prefix_exact_Certificate])
next
  assume "FfiConverterVeritasOffchainData_Lift enc4 = Inr od" "n4 < length enc4"
  then show "\<exists>p. FfiConverterVeritasOffchainData_Lift (take n4 enc4) = Inl p \<and> is_short_read p"
    unfolding FfiConverterVeritasOffchainData_Lift_def
    by (rule Lift_truncated [OF prefix_exact_OffchainData])
next
  assume "tag \<noteq> 1" "tag \<noteq> 2" "tag \<noteq> 3"
  then show "FfiConverterVeritasCommitmentState_Read (PutUint32 tag @ r)
        = Inl (PanicInvalidEnumRead ''FfiConverterVeritasCommitmentState'' (sint tag))"
    and "FfiConverterVeritasDelegateState_Read (PutUint32 tag @ r)
        = Inl (PanicInvalidEnumRead ''FfiConverterVeritasDelegateState'' (sint tag))"
    by (rule CommitmentState_unknown_tag, rule DelegateState_unknown_tag)
next
  assume "sint len1 < 0"
  then show "FfiConverterBytes_Read (PutUint32 len1 @ r) = Inl PanicMakeSliceLen"
    and "FfiConverterString_Read (PutUint32 len1 @ r) = Inl PanicMakeSliceLen"
    by (simp_all add: FfiConverterBytes_Read_def FfiConverterString_Read_def then_read_def
        read_length_prefixed_negative)
next
  assume "0 \<le> sint len2" "length r < nat (sint len2)"
  then show "FfiConverterBytes_Read (PutUint32 len2 @ r)
        = Inl (PanicBadReadLength ''[]byte'' (sint len2) (length r))"
    and "FfiConverterString_Read (PutUint32 len2 @ r)
        = Inl (PanicBadReadLength ''string'' (sint len2) (length r))"
    by (simp_all add: FfiConverterBytes_Read_def FfiConverterString_Read_def then_read_def
        read_length_prefixed_short)
next
  assume "FfiConverterVeritasCommitmentState_Read buf1 = Inr (cs', rest1)" "rest1 \<noteq> []"
  then show "FfiConverterVeritasCommitmentState_Lift buf1 = Inl (PanicJunk rest1)"
    by (simp add: FfiConverterVeritasCommitmentState_Lift_def Lift_junk)
next
  assume "FfiConverterVeritasDelegateState_Read buf2 = Inr (ds', rest2)" "rest2 \<noteq> []"
  then show "FfiConverterVeritasDelegateState_Lift buf2 = Inl (PanicJunk rest2)"
    by (simp add: FfiConverterVeritasDelegateState_Lift_def Lift_junk)
next
  assume "FfiConverterVeritasCertificate_Read buf3 = Inr (ce3, rest3)" "rest3 \<noteq> []"
  then show "FfiConverterVeritasCertificate_Lift buf3 = Inl (PanicJunk rest3)"
    by (simp add: FfiConverterVeritasCertificate_Lift_def Lift_junk)
next
  assume "FfiConverterVeritasOffchainData_Read buf4 = Inr (od4, rest4)" "rest4 \<noteq> []"
  then show "FfiConverterVeritasOffchainData_Lift buf4 = Inl (PanicJunk rest4)"
    by (simp add: FfiConverterVeritasOffchainData_Lift_def Lift_junk)
qed

lemmas reader_defs =
  LiftFromRustBuffer_def then_read_def returning_def panicking_def binary_Read_def
  Reader_Read_def readInt8_def readInt32_def readUint32_def Uint32_def
  read_length_prefixed_def FfiConverterBytes_Read_def FfiConverterString_Read_def
  FfiConverterUint32_Read_def FfiConverterOptionalBytes_Read_def
  FfiConverterVeritasOffchainData_Read_def FfiConverterOptionalVeritasOffchainData_Read_def
  FfiConverterVeritasCertificate_Read_def FfiConverterVeritasCommitmentState_Read_def
  FfiConverterVeritasDelegateState_Read_def FfiConverterVeritasError_Read_def
  FfiConverterVeritasCommitmentState_Lift_def FfiConverterVeritasDelegateState_Lift_def
  FfiConverterVeritasCertificate_Lift_def FfiConverterVeritasOffchainData_Lift_def
  FfiConverterVeritasError_Lift_def bytes_string_def

text \<open>An instance of the amended C2 at one buffer for each kind of malformation.\<close>

theorem malformed_input_panics_witness:
  "FfiConverterVeritasCommitmentState_Lift
      [0, 0, 0, 1,  0, 0, 0, 1, 170,  0,  0, 0, 0, 1, 187,  0, 0, 0, 7,  1, 0, 0, 0, 1, 204]
     = Inr (VeritasCommitmentStateExists [170] None [187] 7 (Some [204]))
   \<and> (\<exists>p. FfiConverterVeritasCommitmentState_Lift
      (take 24 [0, 0, 0, 1,  0, 0, 0, 1, 170,  0,  0, 0, 0, 1, 187,  0, 0, 0, 7,  1, 0, 0, 0, 1, 204])
     = Inl p \<and> is_short_read p)
   \<and> FfiConverterVeritasDelegateState_Lift [0, 0, 0, 3] = Inr VeritasDelegateStateUnknown
   \<and> (\<exists>p. FfiConverterVeritasDelegateState_Lift (take 3 [0, 0, 0, 3]) = Inl p \<and> is_short_read p)
   \<and> FfiConverterVeritasCertificate_Lift [0, 0, 0, 1, 97,  0, 0, 0, 1, 98,  0, 0, 0, 1, 1]
     = Inr \<lparr>Subject = ''a'', CertType = ''b'', Bytes = [1]\<rparr>
   \<and> (\<exists>p. FfiConverterVeritasCertificate_Lift
        (take 12 [0, 0, 0, 1, 97,  0, 0, 0, 1, 98,  0, 0, 0, 1, 1]) = Inl p \<and> is_short_read p)
   \<and> FfiConverterVeritasOffchainData_Lift [0, 0, 0, 5,  0, 0, 0, 2, 1, 2]
     = Inr \<lparr>Seq = 5, Data = [1, 2]\<rparr>
   \<and> (\<exists>p. FfiConverterVeritasOffchainData_Lift (take 9 [0, 0, 0, 5,  0, 0, 0, 2, 1, 2]) = Inl p
        \<and> is_short_read p)
   \<and> FfiConverterVeritasCommitmentState_Read (PutUint32 4 @ [1, 2])
     = Inl (PanicInvalidEnumRead ''FfiConverterVeritasCommitmentState'' (sint (4 :: 32 word)))
   \<and> sint (- 1 :: 32 word) < 0
   \<and> FfiConverterBytes_Read (PutUint32 (- 1) @ [1, 2]) = Inl PanicMakeSliceLen
   \<and> 0 \<le> sint (3 :: 32 word) \<and> length [1, 2 :: byte] < nat (sint (3 :: 32 word))
   \<and> FfiConverterBytes_Read (PutUint32 3 @ [1, 2])
     = Inl (PanicBadReadLength ''[]byte'' (sint (3 :: 32 word)) (length [1, 2 :: byte]))
   \<and> FfiConverterVeritasCommitmentState_Read [0, 0, 0, 2, 9] = Inr (VeritasCommitmentStateEmpty, [9])
   \<and> FfiConverterVeritasCommitmentState_Lift [0, 0, 0, 2, 9] = Inl (PanicJunk [9])
   \<and> FfiConverterVeritasDelegateState_Read [0, 0, 0, 3, 9, 9]
     = Inr (VeritasDelegateStateUnknown, [9, 9])
   \<and> FfiConverterVeritasDelegateState_Lift [0, 0, 0, 3, 9, 9] = Inl (PanicJunk [9, 9])
   \<and> valid_commitment (VeritasCommitmentStateExists [170] (Some [171]) [187] 7 None)
   \<and> [0, 0, 0, 1,  0, 0, 0, 1, 170,  2, 0, 0, 0, 1, 171,  0, 0, 0, 1, 187,  0, 0, 0, 7,  0]
     = layout_commitment_flags 2 1 (VeritasCommitmentStateExists [170] (Some [171]) [187] 7 None)
   \<and> FfiConverterVeritasCommitmentState_Lift
       [0, 0, 0, 1,  0, 0, 0, 1, 170,  2, 0, 0, 0, 1, 171,  0, 0, 0, 1, 187,  0, 0, 0, 7,  0]
     = Inr (VeritasCommitmentStateExists [170] (Some [171]) [187] 7 None)
   \<and> (\<exists>f1 f2. f1 \<noteq> 0 \<and> f2 \<noteq> 0
        \<and> [0, 0, 0, 2, 9] = layout_commitment_flags f1 f2 VeritasCommitmentStateEmpty @ [9])
   \<and> FfiConverterVeritasCommitmentState_Lift [0, 0, 0, 1,  0, 0, 0, 1, 170,  1, 0, 0, 0, 9, 1]
     = Inl (PanicBadReadLength ''[]byte'' 9 1)
   \<and> is_decode_panic (PanicBadReadLength ''[]byte'' 9 1)
   \<and> (\<exists>q. FfiConverterVeritasCommitmentState_Lift
          [0, 0, 0, 1,  0, 0, 0, 1, 170,  1, 0, 0, 0, 9, 1] = Inl q \<and> is_decode_panic q)
   \<and> (\<exists>q. FfiConverterVeritasDelegateState_Lift [0, 0, 0, 1,  0, 0, 0, 0,  0,  7] = Inl q
          \<and> is_decode_panic q)
   \<and> (\<exists>q. FfiConverterVeritasCertificate_Lift [0, 0, 0, 1, 97,  255, 255, 255, 255] = Inl q
          \<and> is_decode_panic q)
   \<and> (\<exists>q. FfiConverterVeritasOffchainData_Lift [0, 0, 0, 5,  0, 0, 0, 1] = Inl q
          \<and> is_decode_panic q)
   \<and> FfiConverterVeritasCertificate_Read [0, 0, 0, 0,  0, 0, 0, 0,  0, 0, 0, 0,  8]
     = Inr (\<lparr>Subject = [], CertType = [], Bytes = []\<rparr>, [8])
   \<and> FfiConverterVeritasCertificate_Lift [0, 0, 0, 0,  0, 0, 0, 0,  0, 0, 0, 0,  8]
     = Inl (PanicJunk [8])
   \<and> FfiConverterVeritasOffchainData_Read [0, 0, 0, 5,  0, 0, 0, 0,  8, 8]
     = Inr (\<lparr>Seq = 5, Data = []\<rparr>, [8, 8])
   \<and> FfiConverterVeritasOffchainData_Lift [0, 0, 0, 5,  0, 0, 0, 0,  8, 8]
     = Inl (PanicJunk [8, 8])"
proof -
  have h1: "FfiConverterVeritasCommitmentState_Lift
      [0, 0, 0, 1,  0, 0, 0, 1, 170,  0,  0, 0, 0, 1, 187,  0, 0, 0, 7,  1, 0, 0, 0, 1, 204]
     = Inr (VeritasCommitmentStateExists [170] None [187] 7 (Some [204]))"
    by (simp add: reader_defs)
  have h2: "FfiConverterVeritasDelegateState_Lift [0, 0, 0, 3] = Inr VeritasDelegateStateUnknown"
    by (simp add: reader_defs)
  have h3: "FfiConverterVeritasCertificate_Lift [0, 0, 0, 1, 97,  0, 0, 0, 1, 98,  0, 0, 0, 1, 1]
     = Inr \<lparr>Subject = ''a'', CertType = ''b'', Bytes = [1]\<rparr>"
    by (simp add: reader_defs char_of_def bit_0)
  have h4: "FfiConverterVeritasOffchainData_Lift [0, 0, 0, 5,  0, 0, 0, 2, 1, 2]
     = Inr \<lparr>Seq = 5, Data = [1, 2]\<rparr>"
    by (simp add: reader_defs)
  have h5: "sint (- 1 :: 32 word) < 0" "0 \<le> sint (3 :: 32 word)"
    "length [1, 2 :: byte] < nat (sint (3 :: 32 word))"
    "(4 :: 32 word) \<noteq> 1" "(4 :: 32 word) \<noteq> 2" "(4 :: 32 word) \<noteq> 3"
    by simp_all
  have h6: "FfiConverterVeritasCommitmentState_Read [0, 0, 0, 2, 9]
      = Inr (VeritasCommitmentStateEmpty, [9])"
    by (simp add: reader_defs)
  have h7: "FfiConverterVeritasDelegateState_Read [0, 0, 0, 3, 9, 9]
     = Inr (VeritasDelegateStateUnknown, [9, 9])"
    by (simp add: reader_defs)
  note m = malformed_input_panics
    [where ?enc1.0 = "[0, 0, 0, 1,  0, 0, 0, 1, 170,  0,  0, 0, 0, 1, 187,  0, 0, 0, 7,  1, 0, 0, 0, 1, 204]"
       and cs = "VeritasCommitmentStateExists [170] None [187] 7 (Some [204])" and ?n1.0 = 24
       and ?enc2.0 = "[0, 0, 0, 3]" and ds = VeritasDelegateStateUnknown and ?n2.0 = 3
       and ?enc3.0 = "[0, 0, 0, 1, 97,  0, 0, 0, 1, 98,  0, 0, 0, 1, 1]"
       and ce = "\<lparr>Subject = ''a'', CertType = ''b'', Bytes = [1]\<rparr>" and ?n3.0 = 12
       and ?enc4.0 = "[0, 0, 0, 5,  0, 0, 0, 2, 1, 2]" and od = "\<lparr>Seq = 5, Data = [1, 2]\<rparr>"
       and ?n4.0 = 9 and tag = 4 and r = "[1, 2]" and ?len1.0 = "- 1" and ?len2.0 = 3
       and ?buf1.0 = "[0, 0, 0, 2, 9]" and cs' = VeritasCommitmentStateEmpty and ?rest1.0 = "[9]"
       and ?buf2.0 = "[0, 0, 0, 3, 9, 9]" and ds' = VeritasDelegateStateUnknown
       and ?rest2.0 = "[9, 9]"
       and ?buf3.0 = "[0, 0, 0, 0,  0, 0, 0, 0,  0, 0, 0, 0,  8]"
       and ?ce3.0 = "\<lparr>Subject = [], CertType = [], Bytes = []\<rparr>" and ?rest3.0 = "[8]"
       and ?buf4.0 = "[0, 0, 0, 5,  0, 0, 0, 0,  8, 8]" and ?od4.0 = "\<lparr>Seq = 5, Data = []\<rparr>"
       and ?rest4.0 = "[8, 8]"]
  note m' = m [THEN conjunct2, THEN conjunct2, THEN conjunct2, THEN conjunct2, THEN conjunct2, THEN conjunct2, THEN conjunct2, THEN conjunct2, THEN conjunct2, THEN conjunct2, THEN conjunct2, THEN conjunct2, THEN conjunct2, THEN conjunct2, THEN conjunct2, THEN conjunct2, THEN conjunct2, THEN conjunct2, THEN conjunct2, THEN conjunct2, THEN conjunct2, THEN conjunct2, THEN conjunct2, THEN conjunct2]
  have h8: "FfiConverterVeritasCertificate_Read [0, 0, 0, 0,  0, 0, 0, 0,  0, 0, 0, 0,  8]
     = Inr (\<lparr>Subject = [], CertType = [], Bytes = []\<rparr>, [8])"
    by (simp add: reader_defs)
  have h9: "FfiConverterVeritasOffchainData_Read [0, 0, 0, 5,  0, 0, 0, 0,  8, 8]
     = Inr (\<lparr>Seq = 5, Data = []\<rparr>, [8, 8])"
    by (simp add: reader_defs)
  from m' h8 h9 have junk:
    "FfiConverterVeritasCertificate_Lift [0, 0, 0, 0,  0, 0, 0, 0,  0, 0, 0, 0,  8]
       = Inl (PanicJunk [8])
     \<and> FfiConverterVeritasOffchainData_Lift [0, 0, 0, 5,  0, 0, 0, 0,  8, 8]
       = Inl (PanicJunk [8, 8])"
    by simp
  from m' h1 h2 h3 h4 h5 h6 h7 have old: "FfiConverterVeritasCommitmentState_Lift
      [0, 0, 0, 1,  0, 0, 0, 1, 170,  0,  0, 0, 0, 1, 187,  0, 0, 0, 7,  1, 0, 0, 0, 1, 204]
     = Inr (VeritasCommitmentStateExists [170] None [187] 7 (Some [204]))
   \<and> (\<exists>p. FfiConverterVeritasCommitmentState_Lift
      (take 24 [0, 0, 0, 1,  0, 0, 0, 1, 170,  0,  0, 0, 0, 1, 187,  0, 0, 0, 7,  1, 0, 0, 0, 1, 204])
     = Inl p \<and> is_short_read p)
   \<and> FfiConverterVeritasDelegateState_Lift [0, 0, 0, 3] = Inr VeritasDelegateStateUnknown
   \<and> (\<exists>p. FfiConverterVeritasDelegateState_Lift (take 3 [0, 0, 0, 3]) = Inl p \<and> is_short_read p)
   \<and> FfiConverterVeritasCertificate_Lift [0, 0, 0, 1, 97,  0, 0, 0, 1, 98,  0, 0, 0, 1, 1]
     = Inr \<lparr>Subject = ''a'', CertType = ''b'', Bytes = [1]\<rparr>
   \<and> (\<exists>p. FfiConverterVeritasCertificate_Lift
        (take 12 [0, 0, 0, 1, 97,  0, 0, 0, 1, 98,  0, 0, 0, 1, 1]) = Inl p \<and> is_short_read p)
   \<and> FfiConverterVeritasOffchainData_Lift [0, 0, 0, 5,  0, 0, 0, 2, 1, 2]
     = Inr \<lparr>Seq = 5, Data = [1, 2]\<rparr>
   \<and> (\<exists>p. FfiConverterVeritasOffchainData_Lift (take 9 [0, 0, 0, 5,  0, 0, 0, 2, 1, 2]) = Inl p
        \<and> is_short_read p)
   \<and> FfiConverterVeritasCommitmentState_Read (PutUint32 4 @ [1, 2])
     = Inl (PanicInvalidEnumRead ''FfiConverterVeritasCommitmentState'' (sint (4 :: 32 word)))
   \<and> sint (- 1 :: 32 word) < 0
   \<and> FfiConverterBytes_Read (PutUint32 (- 1) @ [1, 2]) = Inl PanicMakeSliceLen
   \<and> 0 \<le> sint (3 :: 32 word) \<and> length [1, 2 :: byte] < nat (sint (3 :: 32 word))
   \<and> FfiConverterBytes_Read (PutUint32 3 @ [1, 2])
     = Inl (PanicBadReadLength ''[]byte'' (sint (3 :: 32 word)) (length [1, 2 :: byte]))
   \<and> FfiConverterVeritasCommitmentState_Read [0, 0, 0, 2, 9] = Inr (VeritasCommitmentStateEmpty, [9])
   \<and> FfiConverterVeritasCommitmentState_Lift [0, 0, 0, 2, 9] = Inl (PanicJunk [9])
   \<and> FfiConverterVeritasDelegateState_Read [0, 0, 0, 3, 9, 9]
     = Inr (VeritasDelegateStateUnknown, [9, 9])
   \<and> FfiConverterVeritasDelegateState_Lift [0, 0, 0, 3, 9, 9] = Inl (PanicJunk [9, 9])"
    by (simp del: take_Cons_numeral)
  have v: "valid_commitment (VeritasCommitmentStateExists [170] (Some [171]) [187] 7 None)"
    by (simp add: valid_bytes_def MaxInt32_def)
  have l: "[0, 0, 0, 1,  0, 0, 0, 1, 170,  2, 0, 0, 0, 1, 171,  0, 0, 0, 1, 187,  0, 0, 0, 7,  0]
     = layout_commitment_flags 2 1 (VeritasCommitmentStateExists [170] (Some [171]) [187] 7 None)"
    by (simp add: layout_bytes_def layout_u32_def be_bytes_4)
  note a = malformed_input_panics
    [where bs = "[0, 0, 0, 1,  0, 0, 0, 1, 170,  2, 0, 0, 0, 1, 171,  0, 0, 0, 1, 187,  0, 0, 0, 7,  0]"
       and cs'' = "VeritasCommitmentStateExists [170] (Some [171]) [187] 7 None"]
  have two: "(2 :: byte) \<noteq> 0" "(1 :: byte) \<noteq> 0" by simp_all
  note a9 = a [THEN conjunct2, THEN conjunct2, THEN conjunct2, THEN conjunct2, THEN conjunct2, THEN conjunct2, THEN conjunct2, THEN conjunct2, THEN conjunct1]
  from a9 v l two have accept:
    "FfiConverterVeritasCommitmentState_Lift
       [0, 0, 0, 1,  0, 0, 0, 1, 170,  2, 0, 0, 0, 1, 171,  0, 0, 0, 1, 187,  0, 0, 0, 7,  0]
     = Inr (VeritasCommitmentStateExists [170] (Some [171]) [187] 7 None)"
    by blast
  note b = malformed_input_panics
    [where bs = "[0, 0, 0, 2, 9]" and cs'' = VeritasCommitmentStateEmpty and rest = "[9]"]
  note b5 = b [THEN conjunct2, THEN conjunct2, THEN conjunct2, THEN conjunct2, THEN conjunct1]
  from b5 h6 have rest:
    "\<exists>f1 f2. f1 \<noteq> 0 \<and> f2 \<noteq> 0
        \<and> [0, 0, 0, 2, 9] = layout_commitment_flags f1 f2 VeritasCommitmentStateEmpty @ [9]"
    by blast
  have n1: "FfiConverterVeritasCommitmentState_Read
      [0, 0, 0, 1,  0, 0, 0, 1, 170,  1, 0, 0, 0, 9, 1] = Inl (PanicBadReadLength ''[]byte'' 9 1)"
    by (simp add: reader_defs)
  then have n1': "FfiConverterVeritasCommitmentState_Lift
      [0, 0, 0, 1,  0, 0, 0, 1, 170,  1, 0, 0, 0, 9, 1] = Inl (PanicBadReadLength ''[]byte'' 9 1)"
    by (simp add: FfiConverterVeritasCommitmentState_Lift_def LiftFromRustBuffer_def)
  have no1: "\<not> (\<exists>x f1 f2. valid_commitment x \<and> f1 \<noteq> 0 \<and> f2 \<noteq> 0
      \<and> [0, 0, 0, 1,  0, 0, 0, 1, 170,  1, 0, 0, 0, 9, 1] = layout_commitment_flags f1 f2 x)"
    using n1 CommitmentState_Read_flags [where r = "[]"] by fastforce
  note c = malformed_input_panics
    [where bs = "[0, 0, 0, 1,  0, 0, 0, 1, 170,  1, 0, 0, 0, 9, 1]"
       and p = "PanicBadReadLength ''[]byte'' 9 1"]
  note c19 = c [THEN conjunct2, THEN conjunct2, THEN conjunct2, THEN conjunct2, THEN conjunct2, THEN conjunct2, THEN conjunct2, THEN conjunct2, THEN conjunct2, THEN conjunct2, THEN conjunct2, THEN conjunct2, THEN conjunct2, THEN conjunct2, THEN conjunct2, THEN conjunct2, THEN conjunct2, THEN conjunct2, THEN conjunct1]
  note c23 = c [THEN conjunct2, THEN conjunct2, THEN conjunct2, THEN conjunct2, THEN conjunct2, THEN conjunct2, THEN conjunct2, THEN conjunct2, THEN conjunct2, THEN conjunct2, THEN conjunct2, THEN conjunct2, THEN conjunct2, THEN conjunct2, THEN conjunct2, THEN conjunct2, THEN conjunct2, THEN conjunct2, THEN conjunct2, THEN conjunct2, THEN conjunct2, THEN conjunct2, THEN conjunct1]
  from c19 n1' have kind: "is_decode_panic (PanicBadReadLength ''[]byte'' 9 1)" by blast
  from c23 no1 have bad1: "\<exists>q. FfiConverterVeritasCommitmentState_Lift
      [0, 0, 0, 1,  0, 0, 0, 1, 170,  1, 0, 0, 0, 9, 1] = Inl q \<and> is_decode_panic q"
    by blast
  have n2: "FfiConverterVeritasDelegateState_Read [0, 0, 0, 1,  0, 0, 0, 0,  0,  7] = Inl PanicEOF"
    by (simp add: reader_defs)
  have no2: "\<not> (\<exists>x f1 f2. valid_delegate x \<and> f1 \<noteq> 0 \<and> f2 \<noteq> 0
      \<and> [0, 0, 0, 1,  0, 0, 0, 0,  0,  7] = layout_delegate_flags f1 f2 x)"
    using n2 DelegateState_Read_flags [where r = "[]"] by fastforce
  note d = malformed_input_panics [where bs = "[0, 0, 0, 1,  0, 0, 0, 0,  0,  7]"]
  note d24 = d [THEN conjunct2, THEN conjunct2, THEN conjunct2, THEN conjunct2, THEN conjunct2, THEN conjunct2, THEN conjunct2, THEN conjunct2, THEN conjunct2, THEN conjunct2, THEN conjunct2, THEN conjunct2, THEN conjunct2, THEN conjunct2, THEN conjunct2, THEN conjunct2, THEN conjunct2, THEN conjunct2, THEN conjunct2, THEN conjunct2, THEN conjunct2, THEN conjunct2, THEN conjunct2, THEN conjunct1]
  from d24 no2 have bad2: "\<exists>q. FfiConverterVeritasDelegateState_Lift
      [0, 0, 0, 1,  0, 0, 0, 0,  0,  7] = Inl q \<and> is_decode_panic q"
    by blast
  have n3: "FfiConverterVeritasCertificate_Read [0, 0, 0, 1, 97,  255, 255, 255, 255]
      = Inl PanicMakeSliceLen"
    by (simp add: reader_defs)
  have no3: "\<not> (\<exists>x. valid_certificate x
      \<and> [0, 0, 0, 1, 97,  255, 255, 255, 255] = layout_certificate x)"
    using n3 Certificate_Read_layout [where r = "[]"] by fastforce
  note e = malformed_input_panics [where bs = "[0, 0, 0, 1, 97,  255, 255, 255, 255]"]
  note e22 = e [THEN conjunct2, THEN conjunct2, THEN conjunct2, THEN conjunct2, THEN conjunct2, THEN conjunct2, THEN conjunct2, THEN conjunct2, THEN conjunct2, THEN conjunct2, THEN conjunct2, THEN conjunct2, THEN conjunct2, THEN conjunct2, THEN conjunct2, THEN conjunct2, THEN conjunct2, THEN conjunct2, THEN conjunct2, THEN conjunct2, THEN conjunct2, THEN conjunct1]
  from e22 no3 have bad3: "\<exists>q. FfiConverterVeritasCertificate_Lift
      [0, 0, 0, 1, 97,  255, 255, 255, 255] = Inl q \<and> is_decode_panic q"
    by blast
  have n4: "FfiConverterVeritasOffchainData_Read [0, 0, 0, 5,  0, 0, 0, 1]
      = Inl (PanicBadReadLength ''[]byte'' 1 0)"
    by (simp add: reader_defs)
  have no4: "\<not> (\<exists>x. valid_offchain x \<and> [0, 0, 0, 5,  0, 0, 0, 1] = layout_offchain x)"
    using n4 OffchainData_Read_layout [where r = "[]"] by fastforce
  note f = malformed_input_panics [where bs = "[0, 0, 0, 5,  0, 0, 0, 1]"]
  note f21 = f [THEN conjunct2, THEN conjunct2, THEN conjunct2, THEN conjunct2, THEN conjunct2, THEN conjunct2, THEN conjunct2, THEN conjunct2, THEN conjunct2, THEN conjunct2, THEN conjunct2, THEN conjunct2, THEN conjunct2, THEN conjunct2, THEN conjunct2, THEN conjunct2, THEN conjunct2, THEN conjunct2, THEN conjunct2, THEN conjunct2, THEN conjunct1]
  from f21 no4 have bad4: "\<exists>q. FfiConverterVeritasOffchainData_Lift
      [0, 0, 0, 5,  0, 0, 0, 1] = Inl q \<and> is_decode_panic q"
    by blast
  from old v l accept rest n1' kind bad1 bad2 bad3 bad4 h8 h9 junk show ?thesis by blast
qed

section \<open>The two error kinds\<close>

lemma VeritasError_Read_Inr:
  assumes "FfiConverterVeritasError_Read r = Inr (e, r')"
  shows "\<exists>m. (e = Some (VeritasError (PtrVeritasErrorInvalidInput m)) \<and> take 4 r = [0, 0, 0, 1])
        \<or> (e = Some (VeritasError (PtrVeritasErrorVerificationFailed m))
            \<and> take 4 r = [0, 0, 0, 2])"
proof -
  from assms obtain tag r1 where tag: "readUint32 r = Inr (tag, r1)"
    by (auto simp: FfiConverterVeritasError_Read_def then_read_def split: sum.splits)
  then have r: "r = PutUint32 tag @ r1" by (rule readUint32_Inr)
  then have t: "take 4 r = PutUint32 tag" by simp
  from assms tag show ?thesis
    by (auto simp: FfiConverterVeritasError_Read_def then_read_def returning_def panicking_def
        t PutUint32_tags split: sum.splits if_splits)
qed

lemma VeritasError_Write_Inr:
  assumes "FfiConverterVeritasError_Write w v = Inr w'"
  shows "\<exists>m. (v = Some (VeritasError (PtrVeritasErrorInvalidInput m))
            \<and> w' = w @ [0, 0, 0, 1] @ layout_string m)
        \<or> (v = Some (VeritasError (PtrVeritasErrorVerificationFailed m))
            \<and> w' = w @ [0, 0, 0, 2] @ layout_string m)"
proof (cases v)
  case None
  with assms show ?thesis by simp
next
  case (Some ve)
  obtain ge where ve: "ve = VeritasError ge" by (cases ve)
  from assms Some ve show ?thesis
    by (cases ge) (auto simp: writeInt32_def PutUint32_tags dest!: String_Write_Inr)
qed

lemma VeritasError_Read_layout:
  assumes "valid_string m"
  shows "FfiConverterVeritasError_Read ([0, 0, 0, 1] @ layout_string m @ r)
           = Inr (Some (VeritasError (PtrVeritasErrorInvalidInput m)), r)"
    and "FfiConverterVeritasError_Read ([0, 0, 0, 2] @ layout_string m @ r)
           = Inr (Some (VeritasError (PtrVeritasErrorVerificationFailed m)), r)"
  using assms
  by (simp_all only: PutUint32_tags [symmetric])
     (simp_all add: FfiConverterVeritasError_Read_def then_read_def readUint32_PutUint32
       String_Read_layout returning_def)

text \<open>
  Claim C3. The error converter reads only the two kinds: a successful \<^verbatim>\<open>Read\<close> returns
  \<^verbatim>\<open>InvalidInput\<close> from tag 1 or \<^verbatim>\<open>VerificationFailed\<close> from tag 2, and any other tag is
  a panic. It writes only the two kinds: a successful \<^verbatim>\<open>Write\<close> was given one of them and
  appended its tag and message. Both kinds do cross, in both directions, and each carries
  its message, which \<^verbatim>\<open>Error()\<close> shows.
\<close>
theorem error_kinds_exactly_two:
  "(FfiConverterVeritasError_Read r = Inr (e, r') \<longrightarrow>
      (\<exists>m. (e = Some (VeritasError (PtrVeritasErrorInvalidInput m)) \<and> take 4 r = [0, 0, 0, 1])
         \<or> (e = Some (VeritasError (PtrVeritasErrorVerificationFailed m))
             \<and> take 4 r = [0, 0, 0, 2])))
   \<and> (FfiConverterVeritasError_Write w v = Inr w' \<longrightarrow>
      (\<exists>m. (v = Some (VeritasError (PtrVeritasErrorInvalidInput m))
             \<and> w' = w @ [0, 0, 0, 1] @ layout_string m)
         \<or> (v = Some (VeritasError (PtrVeritasErrorVerificationFailed m))
             \<and> w' = w @ [0, 0, 0, 2] @ layout_string m)))
   \<and> (valid_string msg \<longrightarrow>
      FfiConverterVeritasError_Read ([0, 0, 0, 1] @ layout_string msg @ r2)
        = Inr (NewVeritasErrorInvalidInput msg, r2)
      \<and> FfiConverterVeritasError_Read ([0, 0, 0, 2] @ layout_string msg @ r2)
        = Inr (NewVeritasErrorVerificationFailed msg, r2)
      \<and> FfiConverterVeritasError_Write w (NewVeritasErrorInvalidInput msg)
        = Inr (w @ [0, 0, 0, 1] @ layout_string msg)
      \<and> FfiConverterVeritasError_Write w (NewVeritasErrorVerificationFailed msg)
        = Inr (w @ [0, 0, 0, 2] @ layout_string msg))
   \<and> (tag \<noteq> 1 \<and> tag \<noteq> 2 \<longrightarrow>
      FfiConverterVeritasError_Read (PutUint32 tag @ r2) = Inl (PanicUnknownErrorCode (unat tag)))
   \<and> Message (err (the (NewVeritasErrorInvalidInput msg))) = msg
   \<and> Message (err (the (NewVeritasErrorVerificationFailed msg))) = msg
   \<and> VeritasError_Error (the (NewVeritasErrorInvalidInput msg))
        = Inr (''VeritasError: InvalidInput: Message='' @ msg)
   \<and> VeritasError_Error (the (NewVeritasErrorVerificationFailed msg))
        = Inr (''VeritasError: VerificationFailed: Message='' @ msg)"
proof (intro conjI impI; (elim conjE)?)
  assume "FfiConverterVeritasError_Read r = Inr (e, r')"
  then show "\<exists>m. (e = Some (VeritasError (PtrVeritasErrorInvalidInput m))
                \<and> take 4 r = [0, 0, 0, 1])
         \<or> (e = Some (VeritasError (PtrVeritasErrorVerificationFailed m))
             \<and> take 4 r = [0, 0, 0, 2])"
    by (rule VeritasError_Read_Inr)
next
  assume "FfiConverterVeritasError_Write w v = Inr w'"
  then show "\<exists>m. (v = Some (VeritasError (PtrVeritasErrorInvalidInput m))
             \<and> w' = w @ [0, 0, 0, 1] @ layout_string m)
         \<or> (v = Some (VeritasError (PtrVeritasErrorVerificationFailed m))
             \<and> w' = w @ [0, 0, 0, 2] @ layout_string m)"
    by (rule VeritasError_Write_Inr)
next
  assume v: "valid_string msg"
  show "FfiConverterVeritasError_Read ([0, 0, 0, 1] @ layout_string msg @ r2)
        = Inr (NewVeritasErrorInvalidInput msg, r2)"
    and "FfiConverterVeritasError_Read ([0, 0, 0, 2] @ layout_string msg @ r2)
        = Inr (NewVeritasErrorVerificationFailed msg, r2)"
    unfolding NewVeritasErrorInvalidInput_def NewVeritasErrorVerificationFailed_def
    by (rule VeritasError_Read_layout [OF v])+
  show "FfiConverterVeritasError_Write w (NewVeritasErrorInvalidInput msg)
        = Inr (w @ [0, 0, 0, 1] @ layout_string msg)"
    and "FfiConverterVeritasError_Write w (NewVeritasErrorVerificationFailed msg)
        = Inr (w @ [0, 0, 0, 2] @ layout_string msg)"
    using String_Write_layout [OF v]
    by (simp_all add: NewVeritasErrorInvalidInput_def NewVeritasErrorVerificationFailed_def
        writeInt32_def PutUint32_tags)
next
  assume "tag \<noteq> 1" "tag \<noteq> 2"
  then show "FfiConverterVeritasError_Read (PutUint32 tag @ r2)
      = Inl (PanicUnknownErrorCode (unat tag))"
    by (rule VeritasError_unknown_tag)
qed (simp_all add: NewVeritasErrorInvalidInput_def NewVeritasErrorVerificationFailed_def
      VeritasError_Error_def)

text \<open>An instance of C3: one error read, one written, one unknown tag.\<close>

theorem error_kinds_exactly_two_witness:
  "FfiConverterVeritasError_Read [0, 0, 0, 2, 0, 0, 0, 3, 98, 97, 100, 7]
     = Inr (Some (VeritasError (PtrVeritasErrorVerificationFailed ''bad'')), [7])
   \<and> take 4 [0, 0, 0, 2, 0, 0, 0, 3, 98, 97, 100, 7 :: byte] = [0, 0, 0, 2]
   \<and> FfiConverterVeritasError_Write [] (Some (VeritasError (PtrVeritasErrorInvalidInput ''no'')))
     = Inr [0, 0, 0, 1, 0, 0, 0, 2, 110, 111]
   \<and> valid_string ''no''
   \<and> (3 :: 32 word) \<noteq> 1 \<and> (3 :: 32 word) \<noteq> 2
   \<and> FfiConverterVeritasError_Read (PutUint32 3 @ [7])
       = Inl (PanicUnknownErrorCode (unat (3 :: 32 word)))"
proof -
  have h1: "FfiConverterVeritasError_Read [0, 0, 0, 2, 0, 0, 0, 3, 98, 97, 100, 7]
     = Inr (Some (VeritasError (PtrVeritasErrorVerificationFailed ''bad'')), [7])"
    by (simp add: reader_defs char_of_def bit_0)
  have h2: "FfiConverterVeritasError_Write []
      (Some (VeritasError (PtrVeritasErrorInvalidInput ''no'')))
     = Inr [0, 0, 0, 1, 0, 0, 0, 2, 110, 111]"
    by (simp add: FfiConverterString_Write_def MaxInt32_def writeInt32_def PutUint32_def
        string_bytes_def)
  have h3: "valid_string ''no''" by (simp add: valid_string_def MaxInt32_def)
  note k = error_kinds_exactly_two
    [where r = "[0, 0, 0, 2, 0, 0, 0, 3, 98, 97, 100, 7]"
       and e = "Some (VeritasError (PtrVeritasErrorVerificationFailed ''bad''))" and r' = "[7]"
       and w = "[]" and v = "Some (VeritasError (PtrVeritasErrorInvalidInput ''no''))"
       and w' = "[0, 0, 0, 1, 0, 0, 0, 2, 110, 111]" and msg = "''no''" and tag = 3
       and ?r2.0 = "[7]"]
  from k h1 h2 h3 show ?thesis by simp
qed

section \<open>The outcome of a call\<close>

lemma checkCallStatus_success: "code status = 0 \<Longrightarrow> checkCallStatus conv status = Inr None"
  by (simp add: checkCallStatus_def)

lemma checkCallStatus_error:
  "code status = 1 \<Longrightarrow>
   checkCallStatus (Some FfiConverterVeritasError_Read) status
     = FfiConverterVeritasError_Lift (errorBuf status)"
  by (simp add: checkCallStatus_def FfiConverterVeritasError_Lift_def)

lemma checkCallStatus_panic:
  "code status = 2 \<Longrightarrow>
   checkCallStatus conv status
     = Inl (if errorBuf status \<noteq> [] then PanicRust (bytes_string (errorBuf status))
            else PanicRustInPanic)"
  by (simp add: checkCallStatus_def FfiConverterString_Lift_def)

lemma checkCallStatus_unknown:
  "code status \<noteq> 0 \<Longrightarrow> code status \<noteq> 1 \<Longrightarrow> code status \<noteq> 2 \<Longrightarrow>
   checkCallStatus conv status = Inl (PanicUnknownStatusCode (sint (code status)))"
  by (simp add: checkCallStatus_def)

lemma VeritasError_Lift_Inr:
  assumes "FfiConverterVeritasError_Lift buf = Inr e"
  shows "\<exists>m. e = Some (VeritasError (PtrVeritasErrorInvalidInput m))
           \<or> e = Some (VeritasError (PtrVeritasErrorVerificationFailed m))"
proof -
  from assms have "FfiConverterVeritasError_Read buf = Inr (e, [])"
    by (auto simp: FfiConverterVeritasError_Lift_def LiftFromRustBuffer_def
        split: sum.splits if_splits)
  from VeritasError_Read_Inr [OF this] show ?thesis by blast
qed

lemma checkCallStatus_VeritasError_Inr:
  assumes "checkCallStatus (Some FfiConverterVeritasError_Read) status = Inr e"
  shows "(code status = 0 \<and> e = None)
       \<or> (code status = 1 \<and> (\<exists>m. e = Some (VeritasError (PtrVeritasErrorInvalidInput m))
             \<or> e = Some (VeritasError (PtrVeritasErrorVerificationFailed m))))"
proof -
  consider "code status = 0" | "code status = 1" | "code status = 2"
    | "code status \<noteq> 0" "code status \<noteq> 1" "code status \<noteq> 2" by blast
  then show ?thesis
  proof cases
    case 1
    with assms show ?thesis by (simp add: checkCallStatus_success)
  next
    case 2
    with assms have "FfiConverterVeritasError_Lift (errorBuf status) = Inr e"
      by (simp add: checkCallStatus_error)
    from VeritasError_Lift_Inr [OF this] 2 show ?thesis by simp
  next
    case 3
    with assms show ?thesis by (simp add: checkCallStatus_panic)
  next
    case 4
    with assms show ?thesis by (simp add: checkCallStatus_unknown)
  qed
qed

lemma rustCall_outcome:
  "rustCall (Inr (rv, status)) =
     (if code status = 0 then Inr rv
      else if code status = 1 then Inl PanicNilDereference
      else if code status = 2 then
        Inl (if errorBuf status \<noteq> [] then PanicRust (bytes_string (errorBuf status))
             else PanicRustInPanic)
      else Inl (PanicUnknownStatusCode (sint (code status))))"
  by (simp add: rustCall_def rustCallWithError_def checkCallStatus_def
      FfiConverterString_Lift_def)

lemma rustCall_untouched: "rustCall (Inr (v, untouched_status)) = Inr v"
  by (simp add: rustCall_outcome untouched_status_def)

lemma rustCall_Inr: "rustCall (Inr (rv, status)) = Inr x \<Longrightarrow> x = rv \<and> code status = 0"
  by (simp add: rustCall_outcome split: if_splits)

text \<open>
  Claim C4 does not hold as stated. A call status with code 2, a panic of the core, with
  an empty buffer is not mapped to a return or to a typed error: \<^verbatim>\<open>checkCallStatus\<close>
  panics.
\<close>
theorem core_panic_becomes_go_panic:
  "checkCallStatus (Some FfiConverterVeritasError_Read) \<lparr>code = 2, errorBuf = []\<rparr>
     = Inl PanicRustInPanic"
  by (simp add: checkCallStatus_def)

text \<open>
  Claim C4, amended. \<^verbatim>\<open>checkCallStatus\<close> maps code 0 to a normal return and code 1 to
  the lifted error, which is one of the two typed kinds whenever the buffer lifts. Code 2
  is re-raised as a Go panic with the message of the core (or a fixed message when the
  buffer is empty), and any other code is a Go panic with the code. \<^verbatim>\<open>rustCall\<close>, for the
  functions with no error result, returns on code 0 and panics on every other code.
\<close>
theorem call_status_outcomes:
  "(code status = 0 \<longrightarrow>
      checkCallStatus (Some FfiConverterVeritasError_Read) status = Inr None
      \<and> rustCall (Inr (rv, status)) = Inr rv)
   \<and> (code status = 1 \<longrightarrow>
      checkCallStatus (Some FfiConverterVeritasError_Read) status
        = FfiConverterVeritasError_Lift (errorBuf status)
      \<and> (\<forall>e. FfiConverterVeritasError_Lift (errorBuf status) = Inr e \<longrightarrow>
            (\<exists>m. e = Some (VeritasError (PtrVeritasErrorInvalidInput m))
               \<or> e = Some (VeritasError (PtrVeritasErrorVerificationFailed m))))
      \<and> rustCall (Inr (rv, status)) = Inl PanicNilDereference)
   \<and> (code status = 2 \<longrightarrow>
      checkCallStatus (Some FfiConverterVeritasError_Read) status
        = Inl (if errorBuf status \<noteq> [] then PanicRust (bytes_string (errorBuf status))
               else PanicRustInPanic)
      \<and> rustCall (Inr (rv, status))
        = Inl (if errorBuf status \<noteq> [] then PanicRust (bytes_string (errorBuf status))
               else PanicRustInPanic))
   \<and> (code status \<noteq> 0 \<and> code status \<noteq> 1 \<and> code status \<noteq> 2 \<longrightarrow>
      checkCallStatus (Some FfiConverterVeritasError_Read) status
        = Inl (PanicUnknownStatusCode (sint (code status)))
      \<and> rustCall (Inr (rv, status)) = Inl (PanicUnknownStatusCode (sint (code status))))"
  using VeritasError_Lift_Inr
  by (auto simp: checkCallStatus_success checkCallStatus_error checkCallStatus_panic
      checkCallStatus_unknown rustCall_outcome)

text \<open>An instance of the amended C4 at one status for each code.\<close>

theorem call_status_outcomes_witness:
  "checkCallStatus (Some FfiConverterVeritasError_Read) \<lparr>code = 0, errorBuf = []\<rparr> = Inr None
   \<and> checkCallStatus (Some FfiConverterVeritasError_Read)
        \<lparr>code = 1, errorBuf = [0, 0, 0, 1, 0, 0, 0, 2, 110, 111]\<rparr>
      = FfiConverterVeritasError_Lift [0, 0, 0, 1, 0, 0, 0, 2, 110, 111]
   \<and> FfiConverterVeritasError_Lift [0, 0, 0, 1, 0, 0, 0, 2, 110, 111]
      = Inr (Some (VeritasError (PtrVeritasErrorInvalidInput ''no'')))
   \<and> checkCallStatus (Some FfiConverterVeritasError_Read) \<lparr>code = 2, errorBuf = [111, 104]\<rparr>
      = Inl (PanicRust ''oh'')
   \<and> rustCall (Inr ((), \<lparr>code = 2, errorBuf = [111, 104]\<rparr>)) = Inl (PanicRust ''oh'')
   \<and> checkCallStatus (Some FfiConverterVeritasError_Read) \<lparr>code = 5, errorBuf = []\<rparr>
      = Inl (PanicUnknownStatusCode 5)
   \<and> rustCall (Inr ((), \<lparr>code = 1, errorBuf = []\<rparr>)) = Inl PanicNilDereference"
proof -
  have h: "FfiConverterVeritasError_Lift [0, 0, 0, 1, 0, 0, 0, 2, 110, 111]
      = Inr (Some (VeritasError (PtrVeritasErrorInvalidInput ''no'')))"
    by (simp add: reader_defs char_of_def bit_0)
  from h
    call_status_outcomes [of "\<lparr>code = 0, errorBuf = []\<rparr>" "()"]
    call_status_outcomes [of "\<lparr>code = 1, errorBuf = [0, 0, 0, 1, 0, 0, 0, 2, 110, 111]\<rparr>" "()"]
    call_status_outcomes [of "\<lparr>code = 2, errorBuf = [111, 104]\<rparr>" "()"]
    call_status_outcomes [of "\<lparr>code = 5, errorBuf = []\<rparr>" "()"]
    call_status_outcomes [of "\<lparr>code = 1, errorBuf = []\<rparr>" "()"]
  show ?thesis by (simp add: bytes_string_def char_of_def bit_0)
qed

section \<open>Errors returned as interface values\<close>

lemma bytesToRustBuffer_Inr: "bytesToRustBuffer c b = Inr buf \<Longrightarrow> buf = b"
  by (auto simp: bytesToRustBuffer_def split: if_splits dest: rustCall_Inr)

lemma String_Lower_Inr: "FfiConverterString_Lower c s = Inr buf \<Longrightarrow> buf = string_bytes s"
  by (auto simp: FfiConverterString_Lower_def stringToRustBuffer_def dest: bytesToRustBuffer_Inr)

lemma Bytes_Lower_Inr: "FfiConverterBytes_Lower c v = Inr buf \<Longrightarrow> buf = layout_bytes v"
  by (auto simp: FfiConverterBytes_Lower_def LowerIntoRustBuffer_def split: sum.splits
      dest!: bytesToRustBuffer_Inr Bytes_Write_Inr)

lemma AsError_nil: "(AsError p = NilInterface) = (p = None)"
  by (cases p) simp_all

lemma AsError_not_typed_nil: "AsError p \<noteq> VeritasErrorPointer None"
  by (cases p) simp_all

lemma error_result_Inr:
  assumes "error_result (rustCallWithError (Some FfiConverterVeritasError_Read)
             (Inr (rv, status))) = Inr e"
  shows "e \<noteq> VeritasErrorPointer None \<and> (e = NilInterface \<longleftrightarrow> code status = 0)"
proof -
  from assms obtain uniffiErr where
    chk: "checkCallStatus (Some FfiConverterVeritasError_Read) status = Inr uniffiErr"
    and e: "e = AsError uniffiErr"
    by (auto simp: error_result_def rustCallWithError_def split: sum.splits)
  from checkCallStatus_VeritasError_Inr [OF chk] e show ?thesis
    by (auto simp: AsError_nil AsError_not_typed_nil)
qed

lemma method_call_Inr: "method_call c name body obj = (Inr x, obj') \<Longrightarrow> body = Inr x"
  by (auto simp: method_call_def split: prod.splits sum.splits)

lemma error_result_Inl [simp]: "error_result (rustCallWithError conv (Inl p)) = Inl p"
  by (simp add: error_result_def rustCallWithError_def)

text \<open>
  Claim C9. \<^verbatim>\<open>AsError\<close> gives the nil interface exactly for the nil pointer and never an
  interface that holds a nil pointer. Whenever \<^verbatim>\<open>AddRequest\<close>, \<^verbatim>\<open>AddZone\<close>,
  \<^verbatim>\<open>VerifySchnorr\<close> or \<^verbatim>\<open>VerifySpacesMessage\<close> returns, its error is nil exactly when the
  core wrote status code 0 for the call, and is never an interface around a nil pointer.
\<close>
theorem error_nil_iff_call_succeeded:
  "(AsError p = NilInterface \<longleftrightarrow> p = None)
   \<and> AsError p \<noteq> VeritasErrorPointer None
   \<and> (AddRequest c self handle = (Inr e1, self1) \<longrightarrow>
        e1 \<noteq> VeritasErrorPointer None
        \<and> (e1 = NilInterface \<longleftrightarrow>
             code (fn_method_veritasquerycontext_add_request c (string_bytes handle)) = 0))
   \<and> (AddZone c self zoneBytes = (Inr e2, self2) \<longrightarrow>
        e2 \<noteq> VeritasErrorPointer None
        \<and> (e2 = NilInterface \<longleftrightarrow>
             code (fn_method_veritasquerycontext_add_zone c (layout_bytes zoneBytes)) = 0))
   \<and> (VerifySchnorr c msgHash signature pubkey = Inr e3 \<longrightarrow>
        e3 \<noteq> VeritasErrorPointer None
        \<and> (e3 = NilInterface \<longleftrightarrow>
             code (fn_func_verify_schnorr c (layout_bytes msgHash) (layout_bytes signature)
                     (layout_bytes pubkey)) = 0))
   \<and> (VerifySpacesMessage c msg signature pubkey = Inr e4 \<longrightarrow>
        e4 \<noteq> VeritasErrorPointer None
        \<and> (e4 = NilInterface \<longleftrightarrow>
             code (fn_func_verify_spaces_message c (layout_bytes msg) (layout_bytes signature)
                     (layout_bytes pubkey)) = 0))"
proof (intro conjI impI)
  show "(AsError p = NilInterface) = (p = None)" by (rule AsError_nil)
  show "AsError p \<noteq> VeritasErrorPointer None" by (rule AsError_not_typed_nil)
next
  assume "AddRequest c self handle = (Inr e1, self1)"
  then have "error_result (rustCallWithError (Some FfiConverterVeritasError_Read)
      (case FfiConverterString_Lower c handle of Inl p \<Rightarrow> Inl p
       | Inr h \<Rightarrow> Inr (False, fn_method_veritasquerycontext_add_request c h))) = Inr e1"
    unfolding AddRequest_def by (rule method_call_Inr)
  then have "error_result (rustCallWithError (Some FfiConverterVeritasError_Read)
      (Inr (False, fn_method_veritasquerycontext_add_request c (string_bytes handle)))) = Inr e1"
    by (auto split: sum.splits dest!: String_Lower_Inr)
  from error_result_Inr [OF this]
  show "e1 \<noteq> VeritasErrorPointer None"
    and "(e1 = NilInterface) =
      (code (fn_method_veritasquerycontext_add_request c (string_bytes handle)) = 0)"
    by simp_all
next
  assume "AddZone c self zoneBytes = (Inr e2, self2)"
  then have "error_result (rustCallWithError (Some FfiConverterVeritasError_Read)
      (case FfiConverterBytes_Lower c zoneBytes of Inl p \<Rightarrow> Inl p
       | Inr z \<Rightarrow> Inr (False, fn_method_veritasquerycontext_add_zone c z))) = Inr e2"
    unfolding AddZone_def by (rule method_call_Inr)
  then have "error_result (rustCallWithError (Some FfiConverterVeritasError_Read)
      (Inr (False, fn_method_veritasquerycontext_add_zone c (layout_bytes zoneBytes)))) = Inr e2"
    by (auto split: sum.splits dest!: Bytes_Lower_Inr)
  from error_result_Inr [OF this]
  show "e2 \<noteq> VeritasErrorPointer None"
    and "(e2 = NilInterface) =
      (code (fn_method_veritasquerycontext_add_zone c (layout_bytes zoneBytes)) = 0)"
    by simp_all
next
  assume "VerifySchnorr c msgHash signature pubkey = Inr e3"
  then have "error_result (rustCallWithError (Some FfiConverterVeritasError_Read)
      (Inr (False, fn_func_verify_schnorr c (layout_bytes msgHash) (layout_bytes signature)
         (layout_bytes pubkey)))) = Inr e3"
    unfolding VerifySchnorr_def by (auto split: sum.splits dest!: Bytes_Lower_Inr)
  from error_result_Inr [OF this]
  show "e3 \<noteq> VeritasErrorPointer None"
    and "(e3 = NilInterface) =
      (code (fn_func_verify_schnorr c (layout_bytes msgHash) (layout_bytes signature)
         (layout_bytes pubkey)) = 0)"
    by simp_all
next
  assume "VerifySpacesMessage c msg signature pubkey = Inr e4"
  then have "error_result (rustCallWithError (Some FfiConverterVeritasError_Read)
      (Inr (False, fn_func_verify_spaces_message c (layout_bytes msg) (layout_bytes signature)
         (layout_bytes pubkey)))) = Inr e4"
    unfolding VerifySpacesMessage_def by (auto split: sum.splits dest!: Bytes_Lower_Inr)
  from error_result_Inr [OF this]
  show "e4 \<noteq> VeritasErrorPointer None"
    and "(e4 = NilInterface) =
      (code (fn_func_verify_spaces_message c (layout_bytes msg) (layout_bytes signature)
         (layout_bytes pubkey)) = 0)"
    by simp_all
qed

text \<open>An instance of C9: calls that succeed and calls that fail with each kind.\<close>

theorem error_nil_iff_call_succeeded_witness:
  "AddRequest (sample_core untouched_status 26 expected_checksum) newFfiObject ''alice@bitcoin''
     = (Inr NilInterface, newFfiObject\<lparr>core_calls := [CallClone]\<rparr>)
   \<and> code untouched_status = 0
   \<and> VerifySchnorr
       (sample_core \<lparr>code = 1, errorBuf = [0, 0, 0, 2, 0, 0, 0, 3, 98, 97, 100]\<rparr> 26
          expected_checksum) [1] [2] [3]
     = Inr (VeritasErrorPointer (Some (VeritasError (PtrVeritasErrorVerificationFailed ''bad''))))
   \<and> code \<lparr>code = 1, errorBuf = [0, 0, 0, 2, 0, 0, 0, 3, 98, 97, 100]\<rparr> \<noteq> 0
   \<and> AddZone
       (sample_core \<lparr>code = 1, errorBuf = [0, 0, 0, 1, 0, 0, 0, 2, 110, 111]\<rparr> 26
          expected_checksum) newFfiObject [9]
     = (Inr (VeritasErrorPointer (Some (VeritasError (PtrVeritasErrorInvalidInput ''no'')))),
        newFfiObject\<lparr>core_calls := [CallClone]\<rparr>)
   \<and> VerifySpacesMessage (sample_core untouched_status 26 expected_checksum) [1] [2] [3]
     = Inr NilInterface"
proof -
  let ?ok = "sample_core untouched_status 26 expected_checksum"
  let ?bad = "sample_core \<lparr>code = 1, errorBuf = [0, 0, 0, 2, 0, 0, 0, 3, 98, 97, 100]\<rparr> 26
          expected_checksum"
  let ?no = "sample_core \<lparr>code = 1, errorBuf = [0, 0, 0, 1, 0, 0, 0, 2, 110, 111]\<rparr> 26
          expected_checksum"
  have lift1: "LiftFromRustBuffer FfiConverterVeritasError_Read
       [0, 0, 0, 2, 0, 0, 0, 3, 98, 97, 100]
     = Inr (Some (VeritasError (PtrVeritasErrorVerificationFailed ''bad'')))"
    by (simp add: reader_defs char_of_def bit_0)
  have lift2: "LiftFromRustBuffer FfiConverterVeritasError_Read
       [0, 0, 0, 1, 0, 0, 0, 2, 110, 111]
     = Inr (Some (VeritasError (PtrVeritasErrorInvalidInput ''no'')))"
    by (simp add: reader_defs char_of_def bit_0)
  have lower: "\<And>st v b. FfiConverterBytes_Lower (sample_core st 26 expected_checksum) [b]
      = Inr (PutUint32 1 @ [b])"
    by (simp add: FfiConverterBytes_Lower_def LowerIntoRustBuffer_def FfiConverterBytes_Write_def
        MaxInt32_def writeInt32_def bytesToRustBuffer_def sample_core_def rustCall_untouched)
  have lower_s: "FfiConverterString_Lower ?ok ''alice@bitcoin'' = Inr (string_bytes ''alice@bitcoin'')"
    by (simp add: FfiConverterString_Lower_def stringToRustBuffer_def bytesToRustBuffer_def
        sample_core_def rustCall_untouched)
  have mc: "\<And>st body. method_call (sample_core st 26 expected_checksum) ''*VeritasQueryContext''
      body newFfiObject = (body, newFfiObject\<lparr>core_calls := [CallClone]\<rparr>)"
    by (simp add: method_call_def incrementPointer_def decrementPointer_def newFfiObject_def
        sample_core_def rustCall_untouched MaxInt64_def Let_def)
  have a1: "AddRequest ?ok newFfiObject ''alice@bitcoin''
     = (Inr NilInterface, newFfiObject\<lparr>core_calls := [CallClone]\<rparr>)"
    by (simp add: AddRequest_def mc lower_s error_result_def rustCallWithError_def
        checkCallStatus_def)
       (simp add: sample_core_def untouched_status_def)
  have a2: "VerifySchnorr ?bad [1] [2] [3]
     = Inr (VeritasErrorPointer (Some (VeritasError (PtrVeritasErrorVerificationFailed ''bad''))))"
    by (simp add: VerifySchnorr_def lower error_result_def rustCallWithError_def
        checkCallStatus_def)
       (simp add: sample_core_def lift1)
  have a3: "AddZone ?no newFfiObject [9]
     = (Inr (VeritasErrorPointer (Some (VeritasError (PtrVeritasErrorInvalidInput ''no'')))),
        newFfiObject\<lparr>core_calls := [CallClone]\<rparr>)"
    by (simp add: AddZone_def mc lower error_result_def rustCallWithError_def
        checkCallStatus_def)
       (simp add: sample_core_def lift2)
  have a4: "VerifySpacesMessage ?ok [1] [2] [3] = Inr NilInterface"
    by (simp add: VerifySpacesMessage_def lower error_result_def rustCallWithError_def
        checkCallStatus_def)
       (simp add: sample_core_def untouched_status_def)
  from a1 a2 a3 a4
    error_nil_iff_call_succeeded
      [of None ?ok newFfiObject "''alice@bitcoin''" NilInterface
          "newFfiObject\<lparr>core_calls := [CallClone]\<rparr>" "[9]" NilInterface newFfiObject
          "[1]" "[2]" "[3]" NilInterface "[1]" NilInterface]
    error_nil_iff_call_succeeded
      [of None ?bad newFfiObject "''''" NilInterface newFfiObject "[]" NilInterface newFfiObject
          "[1]" "[2]" "[3]"
          "VeritasErrorPointer (Some (VeritasError (PtrVeritasErrorVerificationFailed ''bad'')))"
          "[]" NilInterface]
    error_nil_iff_call_succeeded
      [of None ?no newFfiObject "''''" NilInterface newFfiObject "[9]"
          "VeritasErrorPointer (Some (VeritasError (PtrVeritasErrorInvalidInput ''no'')))"
          "newFfiObject\<lparr>core_calls := [CallClone]\<rparr>"
          "[]" "[]" "[]" NilInterface "[]" NilInterface]
  show ?thesis by (simp add: untouched_status_def)
qed

section \<open>Destroying and using a handle\<close>
















lemma method_call_idle:
  "callCounter obj = 0 \<Longrightarrow> code (fn_clone c) = 0 \<Longrightarrow>
   method_call c name body obj = (body, obj\<lparr>core_calls := core_calls obj @ [CallClone]\<rparr>)"
  by (simp add: method_call_def incrementPointer_def decrementPointer_def rustCall_outcome
      MaxInt64_def Let_def)





section \<open>The contract check at start-up\<close>

lemma check_checksums_ok:
  "check_checksums c blocks = Inr () \<longleftrightarrow>
     (\<forall>(f, expected) \<in> set blocks. uniffi_checksum c f = expected)"
  by (induction blocks) (auto simp: rustCall_untouched split: if_splits)

lemma check_checksums_mismatch:
  "check_checksums c blocks \<noteq> Inr () \<Longrightarrow>
   \<exists>(f, expected) \<in> set blocks.
      uniffi_checksum c f \<noteq> expected \<and> check_checksums c blocks = Inl (PanicChecksum f)"
  by (induction blocks) (auto simp: rustCall_untouched split: if_splits)

text \<open>
  Claim C8. \<^verbatim>\<open>init\<close> returns exactly when the contract version of the core is 26 and
  each of the 29 checksums equals its constant. A wrong version panics with the version
  diagnostic; otherwise a wrong checksum panics with the diagnostic of a function whose
  checksum is wrong. \<^verbatim>\<open>init\<close> returns no value and has no state to change.
\<close>
theorem init_checks_contract:
  "(init c = Inr () \<longleftrightarrow>
      uint (uniffi_contract_version c) = 26
      \<and> (\<forall>(f, expected) \<in> set uniffi_checksums. uniffi_checksum c f = expected))
   \<and> (uint (uniffi_contract_version c) \<noteq> 26 \<longrightarrow> init c = Inl PanicContractVersion)
   \<and> (uint (uniffi_contract_version c) = 26 \<and> init c \<noteq> Inr () \<longrightarrow>
        (\<exists>(f, expected) \<in> set uniffi_checksums.
            uniffi_checksum c f \<noteq> expected \<and> init c = Inl (PanicChecksum f)))
   \<and> bindingsContractVersion = 26
   \<and> length uniffi_checksums = 29 \<and> distinct (map fst uniffi_checksums)"
proof (intro conjI impI; (elim conjE)?)
  show "(init c = Inr ()) =
      (uint (uniffi_contract_version c) = 26
       \<and> (\<forall>(f, expected) \<in> set uniffi_checksums. uniffi_checksum c f = expected))"
    using check_checksums_ok [of c uniffi_checksums]
    by (auto simp: init_def uniffiCheckChecksums_def rustCall_untouched
        bindingsContractVersion_def)
next
  assume "uint (uniffi_contract_version c) \<noteq> 26"
  then show "init c = Inl PanicContractVersion"
    by (auto simp: init_def uniffiCheckChecksums_def rustCall_untouched
        bindingsContractVersion_def)
next
  assume "uint (uniffi_contract_version c) = 26" "init c \<noteq> Inr ()"
  then have "check_checksums c uniffi_checksums \<noteq> Inr ()"
    and "init c = check_checksums c uniffi_checksums"
    by (simp_all add: init_def uniffiCheckChecksums_def rustCall_untouched
        bindingsContractVersion_def)
  with check_checksums_mismatch [of c uniffi_checksums]
  show "\<exists>(f, expected) \<in> set uniffi_checksums.
            uniffi_checksum c f \<noteq> expected \<and> init c = Inl (PanicChecksum f)"
    by simp
next
  show "bindingsContractVersion = 26" by (simp add: bindingsContractVersion_def)
  show "length uniffi_checksums = 29" by (simp add: uniffi_checksums_def)
  show "distinct (map fst uniffi_checksums)" by (simp add: uniffi_checksums_def)
qed

text \<open>An instance of C8: a matching core, a wrong version, a wrong checksum.\<close>

theorem init_checks_contract_witness:
  "uint (26 :: 32 word) = 26
   \<and> init (sample_core untouched_status 26 expected_checksum) = Inr ()
   \<and> uint (25 :: 32 word) \<noteq> 26
   \<and> init (sample_core untouched_status 25 expected_checksum) = Inl PanicContractVersion
   \<and> init (sample_core untouched_status 26
        (expected_checksum (checksum_func_decode_zone := 0)))
      = Inl (PanicChecksum checksum_func_decode_zone)"
proof -
  have e: "\<forall>(f, expected) \<in> set uniffi_checksums. expected_checksum f = expected"
    by (simp add: uniffi_checksums_def expected_checksum_def)
  have z: "init (sample_core untouched_status 26
        (expected_checksum (checksum_func_decode_zone := 0)))
      = Inl (PanicChecksum checksum_func_decode_zone)"
    by (simp add: init_def uniffiCheckChecksums_def bindingsContractVersion_def
        sample_core_def rustCall_untouched uniffi_checksums_def expected_checksum_def)
  from e z
    init_checks_contract [of "sample_core untouched_status 26 expected_checksum"]
    init_checks_contract [of "sample_core untouched_status 25 expected_checksum"]
  show ?thesis by (simp add: sample_core_def)
qed

end
